theory Spec2Isabelle
  imports Complex_Main
begin

section \<open>JavaScript numbers\<close>

text \<open>
  All quantities of \<^verbatim>\<open>services/exerciseLogic.ts\<close> are JavaScript numbers. They are
  modelled as exact reals together with the three special values of the number type:
  \<^item> \<open>NaN\<close>, which the source uses as the "unset" sentinel (\<^verbatim>\<open>isNaN\<close> tests);
  \<^item> the two infinities, produced when a result reaches magnitude \<open>2 ^ 1024\<close>
    (overflow of a double) or by a division by zero.
  Rounding of finite results and the sign of zero are not modelled: a finite result is
  the exact real. The special values follow the rules of the language: any operation on
  \<open>NaN\<close> is \<open>NaN\<close>, every comparison with \<open>NaN\<close> is false, \<open>\<infinity> - \<infinity>\<close>, \<open>0 * \<infinity>\<close>,
  \<open>\<infinity> / \<infinity>\<close> and \<open>0 / 0\<close> are \<open>NaN\<close>.
\<close>

datatype number = Fin real | PInf | NInf | NaN

definition overflow_bound :: real where
  "overflow_bound = 2 ^ 1024"

definition ovf :: "real \<Rightarrow> number" where
  "ovf r = (if overflow_bound \<le> r then PInf
            else if r \<le> - overflow_bound then NInf
            else Fin r)"

fun isNaN :: "number \<Rightarrow> bool" where
  "isNaN NaN = True"
| "isNaN _ = False"

fun nneg :: "number \<Rightarrow> number" where
  "nneg (Fin a) = Fin (- a)"
| "nneg PInf = NInf"
| "nneg NInf = PInf"
| "nneg NaN = NaN"

fun nadd :: "number \<Rightarrow> number \<Rightarrow> number" where
  "nadd NaN _ = NaN"
| "nadd _ NaN = NaN"
| "nadd (Fin a) (Fin b) = ovf (a + b)"
| "nadd PInf NInf = NaN"
| "nadd NInf PInf = NaN"
| "nadd PInf _ = PInf"
| "nadd _ PInf = PInf"
| "nadd NInf _ = NInf"
| "nadd _ NInf = NInf"

definition nsub :: "number \<Rightarrow> number \<Rightarrow> number" where
  "nsub a b = nadd a (nneg b)"

fun nmul :: "number \<Rightarrow> number \<Rightarrow> number" where
  "nmul NaN _ = NaN"
| "nmul _ NaN = NaN"
| "nmul (Fin a) (Fin b) = ovf (a * b)"
| "nmul (Fin a) PInf = (if a = 0 then NaN else if 0 < a then PInf else NInf)"
| "nmul (Fin a) NInf = (if a = 0 then NaN else if 0 < a then NInf else PInf)"
| "nmul PInf (Fin b) = (if b = 0 then NaN else if 0 < b then PInf else NInf)"
| "nmul NInf (Fin b) = (if b = 0 then NaN else if 0 < b then NInf else PInf)"
| "nmul PInf PInf = PInf"
| "nmul NInf NInf = PInf"
| "nmul PInf NInf = NInf"
| "nmul NInf PInf = NInf"

fun ndiv :: "number \<Rightarrow> number \<Rightarrow> number" where
  "ndiv NaN _ = NaN"
| "ndiv _ NaN = NaN"
| "ndiv (Fin a) (Fin b) =
     (if b = 0 then (if a = 0 then NaN else if 0 < a then PInf else NInf)
      else ovf (a / b))"
| "ndiv (Fin a) _ = Fin 0"
| "ndiv PInf (Fin b) = (if 0 \<le> b then PInf else NInf)"
| "ndiv NInf (Fin b) = (if 0 \<le> b then NInf else PInf)"
| "ndiv _ _ = NaN"

fun nle :: "number \<Rightarrow> number \<Rightarrow> bool" where
  "nle NaN _ = False"
| "nle _ NaN = False"
| "nle (Fin a) (Fin b) = (a \<le> b)"
| "nle NInf _ = True"
| "nle _ PInf = True"
| "nle _ _ = False"

fun nlt :: "number \<Rightarrow> number \<Rightarrow> bool" where
  "nlt NaN _ = False"
| "nlt _ NaN = False"
| "nlt (Fin a) (Fin b) = (a < b)"
| "nlt PInf _ = False"
| "nlt _ NInf = False"
| "nlt _ _ = True"

definition nge :: "number \<Rightarrow> number \<Rightarrow> bool" where
  "nge a b = nle b a"

definition ngt :: "number \<Rightarrow> number \<Rightarrow> bool" where
  "ngt a b = nlt b a"

text \<open>\<^verbatim>\<open>Math.max\<close>, \<^verbatim>\<open>Math.min\<close>: \<open>NaN\<close> as soon as one argument is \<open>NaN\<close>.\<close>

definition nmax :: "number \<Rightarrow> number \<Rightarrow> number" where
  "nmax a b = (if isNaN a \<or> isNaN b then NaN else if nle a b then b else a)"

definition nmin :: "number \<Rightarrow> number \<Rightarrow> number" where
  "nmin a b = (if isNaN a \<or> isNaN b then NaN else if nle a b then a else b)"

fun nabs :: "number \<Rightarrow> number" where
  "nabs (Fin a) = Fin \<bar>a\<bar>"
| "nabs NaN = NaN"
| "nabs _ = PInf"

fun nsqrt :: "number \<Rightarrow> number" where
  "nsqrt (Fin a) = (if a < 0 then NaN else Fin (sqrt a))"
| "nsqrt PInf = PInf"
| "nsqrt _ = NaN"

text \<open>
  \<^verbatim>\<open>Math.hypot\<close> of two arguments: infinite as soon as one argument is infinite,
  otherwise \<open>NaN\<close> if one is \<open>NaN\<close>; the squares are not rounded on the way, so only
  the result can overflow.
\<close>

fun hypot :: "number \<Rightarrow> number \<Rightarrow> number" where
  "hypot (Fin a) (Fin b) = ovf (sqrt (a * a + b * b))"
| "hypot PInf _ = PInf"
| "hypot NInf _ = PInf"
| "hypot _ PInf = PInf"
| "hypot _ NInf = PInf"
| "hypot _ _ = NaN"

fun nacos :: "number \<Rightarrow> number" where
  "nacos (Fin a) = (if - 1 \<le> a \<and> a \<le> 1 then Fin (arccos a) else NaN)"
| "nacos _ = NaN"

text \<open>\<^verbatim>\<open>Math.PI\<close>, taken as the real \<open>\<pi>\<close>.\<close>

definition Math_PI :: number where
  "Math_PI = Fin pi"

text \<open>\<^verbatim>\<open>a || b\<close> on numbers: \<open>0\<close> and \<open>NaN\<close> are falsy.\<close>

definition num_or :: "number \<Rightarrow> number \<Rightarrow> number" where
  "num_or a b = (if a = Fin 0 \<or> a = NaN then b else a)"

section \<open>Landmarks, points and the geometric primitives\<close>

record Landmark =
  lm_x :: number
  lm_y :: number
  lm_z :: number
  visibility :: "number option"

record Point =
  x :: number
  y :: number
  z :: number
  vis :: number

definition calculateAngle3D :: "Point \<Rightarrow> Point \<Rightarrow> Point \<Rightarrow> number" where
  "calculateAngle3D a b c =
    (let bax = nsub (x a) (x b);
         bay = nsub (y a) (y b);
         baz = nsub (z a) (z b);
         bcx = nsub (x c) (x b);
         bcy = nsub (y c) (y b);
         bcz = nsub (z c) (z b);
         normBA = nsqrt (nadd (nadd (nmul bax bax) (nmul bay bay)) (nmul baz baz));
         normBC = nsqrt (nadd (nadd (nmul bcx bcx) (nmul bcy bcy)) (nmul bcz bcz));
         den = nmax (Fin (1 / 10 ^ 9)) (nmul normBA normBC);
         cos = nmax (Fin (- 1)) (nmin (Fin 1)
                 (ndiv (nadd (nadd (nmul bax bcx) (nmul bay bcy)) (nmul baz bcz)) den))
     in ndiv (nmul (nacos cos) (Fin 180)) Math_PI)"

definition calculateAngle2D :: "Point \<Rightarrow> Point \<Rightarrow> Point \<Rightarrow> number" where
  "calculateAngle2D a b c =
    (let bax = nsub (x a) (x b);
         bay = nsub (y a) (y b);
         bcx = nsub (x c) (x b);
         bcy = nsub (y c) (y b);
         den = nmax (Fin (1 / 10 ^ 9)) (nmul (hypot bax bay) (hypot bcx bcy));
         cos = nmax (Fin (- 1)) (nmin (Fin 1)
                 (ndiv (nadd (nmul bax bcx) (nmul bay bcy)) den))
     in ndiv (nmul (nacos cos) (Fin 180)) Math_PI)"

text \<open>\<^verbatim>\<open>landmark.visibility ?? NaN\<close>: an absent visibility becomes the sentinel.\<close>

definition toPoint :: "Landmark \<Rightarrow> number \<Rightarrow> number \<Rightarrow> Point" where
  "toPoint landmark imageW imageH =
     \<lparr> x = nmul (lm_x landmark) imageW,
       y = nmul (lm_y landmark) imageH,
       z = lm_z landmark,
       vis = (case visibility landmark of None \<Rightarrow> NaN | Some v \<Rightarrow> v) \<rparr>"

definition isVisible :: "Point \<Rightarrow> number \<Rightarrow> bool" where
  "isVisible point minVisibility = (isNaN (vis point) \<or> nge (vis point) minVisibility)"


text \<open>
  Modelled from the spec: \<^verbatim>\<open>POSE_LANDMARKS\<close> of \<^verbatim>\<open>services/geometry.ts\<close>, which is not
  among the sources. Section 6 fixes "a fixed standard topology" of 33 landmarks; the
  indices are those of that topology, in which the source itself reads the ears at 7
  and 8.
\<close>

record PoseLandmarks =
  LEFT_SHOULDER :: nat
  RIGHT_SHOULDER :: nat
  LEFT_ELBOW :: nat
  RIGHT_ELBOW :: nat
  LEFT_WRIST :: nat
  RIGHT_WRIST :: nat
  LEFT_HIP :: nat
  RIGHT_HIP :: nat
  LEFT_KNEE :: nat
  RIGHT_KNEE :: nat
  LEFT_ANKLE :: nat
  RIGHT_ANKLE :: nat

definition POSE_LANDMARKS :: PoseLandmarks where
  "POSE_LANDMARKS =
     \<lparr> LEFT_SHOULDER = 11, RIGHT_SHOULDER = 12, LEFT_ELBOW = 13, RIGHT_ELBOW = 14,
       LEFT_WRIST = 15, RIGHT_WRIST = 16, LEFT_HIP = 23, RIGHT_HIP = 24,
       LEFT_KNEE = 25, RIGHT_KNEE = 26, LEFT_ANKLE = 27, RIGHT_ANKLE = 28 \<rparr>"

text \<open>\<^verbatim>\<open>side.toLowerCase().startsWith('r')\<close>\<close>

definition startsWith_r :: "string \<Rightarrow> bool" where
  "startsWith_r side =
     (case side of [] \<Rightarrow> False | c # _ \<Rightarrow> c = CHR ''r'' \<or> c = CHR ''R'')"

section \<open>PushupCounter\<close>

datatype PushupState = UNARMED | UP | DOWN

text \<open>The fields of the class; the last four are the constructor's parameters.\<close>

record PushupCounter =
  state :: PushupState
  count :: nat
  elbowAngle :: number
  kneeAngle :: number
  formWarning :: string
  legsQualified :: bool
  upThresh :: number
  downThresh :: number
  minVisibility :: number
  legExtendedThresh :: number

definition new_PushupCounter :: PushupCounter where
  "new_PushupCounter =
     \<lparr> state = PushupState.UNARMED, count = 0, elbowAngle = NaN, kneeAngle = NaN,
       formWarning = [], legsQualified = False,
       upThresh = Fin 145, downThresh = Fin 70, minVisibility = Fin (6 / 10),
       legExtendedThresh = Fin 130 \<rparr>"

definition PushupCounter_reset :: "PushupCounter \<Rightarrow> PushupCounter" where
  "PushupCounter_reset this =
     this\<lparr> PushupCounter.state := PushupState.UNARMED,
           PushupCounter.count := 0,
           PushupCounter.elbowAngle := NaN,
           PushupCounter.kneeAngle := NaN,
           PushupCounter.formWarning := [],
           PushupCounter.legsQualified := False \<rparr>"

text \<open>
  The local values of one call of \<^verbatim>\<open>update\<close> (lines 90 to 146 and 173): the two
  measured angles and the three flags the state machine and the feedback read.
\<close>

record PushupFrame =
  frame_elbowAngle :: number
  frame_kneeAngle :: number
  legsVisible :: bool
  legsExtended :: bool
  visibilityOK :: bool

definition PushupCounter_measure ::
  "PushupCounter \<Rightarrow> Landmark list \<Rightarrow> number \<Rightarrow> number \<Rightarrow> string \<Rightarrow> PushupFrame" where
  "PushupCounter_measure this landmarks imageW imageH side =
    (let preferRight = startsWith_r side;
         lsh = toPoint (landmarks ! LEFT_SHOULDER POSE_LANDMARKS) imageW imageH;
         rsh = toPoint (landmarks ! RIGHT_SHOULDER POSE_LANDMARKS) imageW imageH;
         lel = toPoint (landmarks ! LEFT_ELBOW POSE_LANDMARKS) imageW imageH;
         rel = toPoint (landmarks ! RIGHT_ELBOW POSE_LANDMARKS) imageW imageH;
         lwr = toPoint (landmarks ! LEFT_WRIST POSE_LANDMARKS) imageW imageH;
         rwr = toPoint (landmarks ! RIGHT_WRIST POSE_LANDMARKS) imageW imageH;
         lhip = toPoint (landmarks ! LEFT_HIP POSE_LANDMARKS) imageW imageH;
         rhip = toPoint (landmarks ! RIGHT_HIP POSE_LANDMARKS) imageW imageH;
         lkn = toPoint (landmarks ! LEFT_KNEE POSE_LANDMARKS) imageW imageH;
         rkn = toPoint (landmarks ! RIGHT_KNEE POSE_LANDMARKS) imageW imageH;
         lank = toPoint (landmarks ! LEFT_ANKLE POSE_LANDMARKS) imageW imageH;
         rank = toPoint (landmarks ! RIGHT_ANKLE POSE_LANDMARKS) imageW imageH;
         mv = PushupCounter.minVisibility this;
         armOK = (\<lambda>isRight.
            isVisible (if isRight then rsh else lsh) mv \<and>
            isVisible (if isRight then rel else lel) mv \<and>
            isVisible (if isRight then rwr else lwr) mv);
         useRight = (if armOK preferRight then preferRight
                     else if \<not> armOK (\<not> preferRight) then preferRight
                     else \<not> preferRight);
         sh = (if useRight then rsh else lsh);
         el = (if useRight then rel else lel);
         wr = (if useRight then rwr else lwr);
         legOK = (\<lambda>isRight.
            isVisible (if isRight then rhip else lhip) mv \<and>
            isVisible (if isRight then rkn else lkn) mv \<and>
            isVisible (if isRight then rank else lank) mv);
         rightLegOk = legOK True;
         leftLegOk = legOK False;
         legSide = (if rightLegOk \<and> leftLegOk then Some useRight
                    else if rightLegOk then Some True
                    else if leftLegOk then Some False
                    else None);
         elbowA = calculateAngle2D sh el wr;
         kneeA = (case legSide of
                    Some s \<Rightarrow> calculateAngle2D (if s then rhip else lhip)
                                (if s then rkn else lkn) (if s then rank else lank)
                  | None \<Rightarrow> NaN);
         legsVis = (legSide \<noteq> None)
     in \<lparr> frame_elbowAngle = elbowA,
          frame_kneeAngle = kneeA,
          legsVisible = legsVis,
          legsExtended = (legsVis \<and> \<not> isNaN kneeA \<and>
                          nge kneeA (PushupCounter.legExtendedThresh this)),
          visibilityOK = (isVisible sh mv \<and> isVisible el mv \<and> isVisible wr mv) \<rparr>)"

text \<open>The \<^verbatim>\<open>switch\<close> of lines 149 to 170, on the angle just stored in the counter.\<close>

definition PushupCounter_transition :: "PushupCounter \<Rightarrow> bool \<Rightarrow> PushupCounter" where
  "PushupCounter_transition this legsExt =
    (case PushupCounter.state this of
       PushupState.UNARMED \<Rightarrow>
         (let this = this\<lparr> PushupCounter.legsQualified := False \<rparr>
          in if nge (PushupCounter.elbowAngle this) (PushupCounter.upThresh this) \<and> legsExt
             then this\<lparr> PushupCounter.state := PushupState.UP \<rparr>
             else this)
     | PushupState.UP \<Rightarrow>
         (if nle (PushupCounter.elbowAngle this) (PushupCounter.downThresh this)
          then this\<lparr> PushupCounter.state := PushupState.DOWN,
                     PushupCounter.legsQualified := legsExt \<rparr>
          else this)
     | PushupState.DOWN \<Rightarrow>
         (let this = this\<lparr> PushupCounter.legsQualified :=
                               (PushupCounter.legsQualified this \<or> legsExt) \<rparr>
          in if nge (PushupCounter.elbowAngle this) (PushupCounter.upThresh this) \<and>
                PushupCounter.legsQualified this
             then this\<lparr> PushupCounter.count := PushupCounter.count this + 1,
                        PushupCounter.state := PushupState.UP,
                        PushupCounter.legsQualified := False \<rparr>
             else this))"

text \<open>The feedback of lines 173 to 189, read on the state after the transition.\<close>

definition PushupCounter_feedback :: "PushupCounter \<Rightarrow> PushupFrame \<Rightarrow> string" where
  "PushupCounter_feedback this f =
    (if \<not> visibilityOK f then ''Arm not clearly visible''
     else if \<not> legsVisible f then ''Keep legs in frame''
     else if PushupCounter.state this = PushupState.UNARMED \<and>
             nge (PushupCounter.elbowAngle this) (PushupCounter.upThresh this) \<and>
             \<not> legsExtended f
       then ''Straighten your legs & arms''
     else if PushupCounter.state this = PushupState.DOWN \<and>
             \<not> PushupCounter.legsQualified this
       then ''Straighten your legs''
     else if PushupCounter.state this = PushupState.UP \<and>
             nlt (PushupCounter.elbowAngle this)
                 (nsub (PushupCounter.upThresh this) (Fin 10))
       then ''Extend your arms more''
     else if PushupCounter.state this \<noteq> PushupState.UP \<and>
             ngt (PushupCounter.elbowAngle this)
                 (nadd (PushupCounter.downThresh this) (Fin 10))
       then ''Go lower''
     else [])"

definition PushupCounter_update ::
  "PushupCounter \<Rightarrow> Landmark list \<Rightarrow> number \<Rightarrow> number \<Rightarrow> string \<Rightarrow> PushupCounter" where
  "PushupCounter_update this landmarks imageW imageH side =
    (if length landmarks < 33 then this
     else
       let f = PushupCounter_measure this landmarks imageW imageH side;
           this = this\<lparr> PushupCounter.elbowAngle := frame_elbowAngle f,
                        PushupCounter.kneeAngle := frame_kneeAngle f \<rparr>;
           this = PushupCounter_transition this (legsExtended f)
       in this\<lparr> PushupCounter.formWarning := PushupCounter_feedback this f \<rparr>)"


section \<open>SquatCounter\<close>

datatype SquatState = UNARMED | UP | DOWN

record SquatMetrics =
  kneeAngle :: number
  hipAngle :: number
  legsVisible :: bool
  standing :: bool
  hipBelowKnee :: bool
  kneeOverFootOK :: bool

record SquatCounter =
  state :: SquatState
  count :: nat
  kneeAngle :: number
  hipAngle :: number
  formWarning :: string
  liveWarning :: string
  visibilityQualified :: bool
  kneeEma :: number
  hipEma :: number
  upThresh :: number
  downThresh :: number
  minVisibility :: number
  torsoLeanMax :: number
  smoothAlpha :: number

definition new_SquatCounter :: SquatCounter where
  "new_SquatCounter =
     \<lparr> state = SquatState.UNARMED, count = 0, kneeAngle = NaN, hipAngle = NaN,
       formWarning = [], liveWarning = [], visibilityQualified = False,
       kneeEma = NaN, hipEma = NaN,
       upThresh = Fin 165, downThresh = Fin 95, minVisibility = Fin (6 / 10),
       torsoLeanMax = Fin 55, smoothAlpha = Fin (35 / 100) \<rparr>"

definition SquatCounter_reset :: "SquatCounter \<Rightarrow> SquatCounter" where
  "SquatCounter_reset this =
     this\<lparr> SquatCounter.state := SquatState.UNARMED,
           SquatCounter.count := 0,
           SquatCounter.kneeAngle := NaN,
           SquatCounter.hipAngle := NaN,
           SquatCounter.kneeEma := NaN,
           SquatCounter.hipEma := NaN,
           SquatCounter.formWarning := [],
           SquatCounter.liveWarning := [],
           SquatCounter.visibilityQualified := False \<rparr>"

definition SquatCounter_ema :: "SquatCounter \<Rightarrow> number \<Rightarrow> number \<Rightarrow> number" where
  "SquatCounter_ema this prev cur =
    (if nle (SquatCounter.smoothAlpha this) (Fin 0) then cur
     else if isNaN prev then cur
     else nadd (nmul (SquatCounter.smoothAlpha this) cur)
               (nmul (nsub (Fin 1) (SquatCounter.smoothAlpha this)) prev))"

definition SquatCounter_computeMetrics ::
  "SquatCounter \<Rightarrow> Landmark list \<Rightarrow> number \<Rightarrow> number \<Rightarrow> string \<Rightarrow> SquatMetrics" where
  "SquatCounter_computeMetrics this landmarks imageW imageH side =
    (if length landmarks < 33 then
       \<lparr> SquatMetrics.kneeAngle = SquatCounter.kneeAngle this,
         SquatMetrics.hipAngle = SquatCounter.hipAngle this,
         SquatMetrics.legsVisible = False,
         SquatMetrics.standing = False,
         SquatMetrics.hipBelowKnee = False,
         SquatMetrics.kneeOverFootOK = True \<rparr>
     else
       let preferRight = startsWith_r side;
           lsh = toPoint (landmarks ! LEFT_SHOULDER POSE_LANDMARKS) imageW imageH;
           rsh = toPoint (landmarks ! RIGHT_SHOULDER POSE_LANDMARKS) imageW imageH;
           lhip = toPoint (landmarks ! LEFT_HIP POSE_LANDMARKS) imageW imageH;
           rhip = toPoint (landmarks ! RIGHT_HIP POSE_LANDMARKS) imageW imageH;
           lkn = toPoint (landmarks ! LEFT_KNEE POSE_LANDMARKS) imageW imageH;
           rkn = toPoint (landmarks ! RIGHT_KNEE POSE_LANDMARKS) imageW imageH;
           lank = toPoint (landmarks ! LEFT_ANKLE POSE_LANDMARKS) imageW imageH;
           rank = toPoint (landmarks ! RIGHT_ANKLE POSE_LANDMARKS) imageW imageH;
           mv = SquatCounter.minVisibility this;
           legOK = (\<lambda>isRight.
              isVisible (if isRight then rsh else lsh) mv \<and>
              isVisible (if isRight then rhip else lhip) mv \<and>
              isVisible (if isRight then rkn else lkn) mv \<and>
              isVisible (if isRight then rank else lank) mv);
           useRight = (if legOK preferRight then preferRight
                       else if \<not> legOK (\<not> preferRight) then preferRight
                       else \<not> preferRight);
           sh = (if useRight then rsh else lsh);
           hp = (if useRight then rhip else lhip);
           kn = (if useRight then rkn else lkn);
           an = (if useRight then rank else lank);
           kneeA = calculateAngle2D hp kn an;
           hipA = calculateAngle2D sh hp kn;
           depthMarginPx = nmul imageH (Fin (1 / 100));
           kneeAnkleDx = nabs (nsub (x kn) (x an));
           kneeAnkleLen = nmax (Fin (1 / 10 ^ 6))
                            (hypot (nsub (x kn) (x an)) (nsub (y kn) (y an)))
       in \<lparr> SquatMetrics.kneeAngle = kneeA,
            SquatMetrics.hipAngle = hipA,
            SquatMetrics.legsVisible = (isVisible sh mv \<and> isVisible hp mv \<and>
                                        isVisible kn mv \<and> isVisible an mv),
            SquatMetrics.standing = nge kneeA (SquatCounter.upThresh this),
            SquatMetrics.hipBelowKnee = ngt (y hp) (nadd (y kn) depthMarginPx),
            SquatMetrics.kneeOverFootOK =
              nle (ndiv kneeAnkleDx kneeAnkleLen) (Fin (45 / 100)) \<rparr>)"

definition SquatCounter_depthReached :: "SquatCounter \<Rightarrow> SquatMetrics \<Rightarrow> bool" where
  "SquatCounter_depthReached this m =
     (nle (SquatMetrics.kneeAngle m) (SquatCounter.downThresh this) \<and>
      SquatMetrics.hipBelowKnee m)"

definition SquatCounter_warningFromMetrics :: "SquatCounter \<Rightarrow> SquatMetrics \<Rightarrow> string" where
  "SquatCounter_warningFromMetrics this m =
    (if \<not> SquatMetrics.legsVisible m then ''Keep legs in frame''
     else if SquatCounter.state this \<noteq> SquatState.DOWN \<and>
             ngt (SquatMetrics.kneeAngle m) (nadd (SquatCounter.downThresh this) (Fin 12))
       then ''Go deeper''
     else if SquatCounter.state this \<noteq> SquatState.DOWN \<and> \<not> SquatMetrics.hipBelowKnee m
       then ''Drop hips below knees''
     else if SquatCounter.state this = SquatState.UP \<and>
             nlt (SquatMetrics.kneeAngle m) (nsub (SquatCounter.upThresh this) (Fin 10))
       then ''Stand up fully''
     else if \<not> SquatMetrics.kneeOverFootOK m then ''Align knee over foot''
     else if nlt (SquatMetrics.hipAngle m) (SquatCounter.torsoLeanMax this)
       then ''Keep chest up''
     else [])"

text \<open>The \<^verbatim>\<open>switch\<close> of lines 349 to 370, on the metrics called \<^verbatim>\<open>smoothedMetrics\<close>.\<close>

definition SquatCounter_transition :: "SquatCounter \<Rightarrow> SquatMetrics \<Rightarrow> SquatCounter" where
  "SquatCounter_transition this smoothedMetrics =
    (case SquatCounter.state this of
       SquatState.UNARMED \<Rightarrow>
         (let this = this\<lparr> SquatCounter.visibilityQualified := False \<rparr>
          in if SquatMetrics.standing smoothedMetrics \<and> SquatMetrics.legsVisible smoothedMetrics
             then this\<lparr> SquatCounter.state := SquatState.UP \<rparr>
             else this)
     | SquatState.UP \<Rightarrow>
         (if SquatCounter_depthReached this smoothedMetrics
          then this\<lparr> SquatCounter.state := SquatState.DOWN,
                     SquatCounter.visibilityQualified :=
                       SquatMetrics.legsVisible smoothedMetrics \<rparr>
          else this)
     | SquatState.DOWN \<Rightarrow>
         (let this = this\<lparr> SquatCounter.visibilityQualified :=
                               (SquatCounter.visibilityQualified this \<and>
                                SquatMetrics.legsVisible smoothedMetrics) \<rparr>
          in if SquatMetrics.standing smoothedMetrics \<and>
                SquatCounter.visibilityQualified this
             then this\<lparr> SquatCounter.count := SquatCounter.count this + 1,
                        SquatCounter.state := SquatState.UP,
                        SquatCounter.visibilityQualified := False \<rparr>
             else this))"

definition SquatCounter_update ::
  "SquatCounter \<Rightarrow> Landmark list \<Rightarrow> number \<Rightarrow> number \<Rightarrow> string \<Rightarrow> SquatCounter" where
  "SquatCounter_update this landmarks imageW imageH side =
    (let m = SquatCounter_computeMetrics this landmarks imageW imageH side;
         this = this\<lparr> SquatCounter.kneeEma :=
                        SquatCounter_ema this (SquatCounter.kneeEma this)
                          (SquatMetrics.kneeAngle m) \<rparr>;
         this = this\<lparr> SquatCounter.hipEma :=
                        SquatCounter_ema this (SquatCounter.hipEma this)
                          (SquatMetrics.hipAngle m) \<rparr>;
         this = this\<lparr> SquatCounter.kneeAngle := SquatCounter.kneeEma this \<rparr>;
         this = this\<lparr> SquatCounter.hipAngle := SquatCounter.hipEma this \<rparr>;
         smoothedMetrics = m\<lparr> SquatMetrics.kneeAngle := SquatCounter.kneeAngle this,
                               SquatMetrics.hipAngle := SquatCounter.hipAngle this \<rparr>;
         this = SquatCounter_transition this smoothedMetrics;
         this = this\<lparr> SquatCounter.formWarning :=
                        SquatCounter_warningFromMetrics this smoothedMetrics \<rparr>
     in this\<lparr> SquatCounter.liveWarning := SquatCounter.formWarning this \<rparr>)"


section \<open>PlankEvaluator\<close>

datatype PlankState = NOT_READY | READY | HOLDING

datatype PlankType = HIGH | FOREARM | UNKNOWN

text \<open>
  \<^verbatim>\<open>Date.now()\<close> is an integral number of milliseconds; each call of \<^verbatim>\<open>update\<close> reads
  the clock once, and the reading is a parameter of the model.
\<close>

definition ms :: "int \<Rightarrow> number" where
  "ms t = Fin (of_int t)"

record PlankEvaluator =
  state :: PlankState
  plankType :: PlankType
  overallScore :: number
  holdTime :: number
  bestHold :: number
  totalTime :: number
  hipScore :: number
  headScore :: number
  stackScore :: number
  underScore :: number
  feetScore :: number
  hipAngle :: number
  headAngle :: number
  shoulderMisalignment :: number
  hipMisalignment :: number
  underShoulderDist :: number
  feetWidthRatio :: number
  formWarnings :: "string list"
  stateStartTime :: int
  holdStartTime :: "int option"
  lastUpdateTime :: int
  hipAngSmooth :: number
  headAngSmooth :: number
  stackShSmooth :: number
  stackHipSmooth :: number
  underSmooth :: number
  feetWSmooth :: number
  hipOkRange :: "number \<times> number"
  hipSagMax :: number
  hipPikeMin :: number
  headOkRange :: "number \<times> number"
  stackOkMaxDeg :: number
  underShoulderPxNorm :: number
  feetMaxWidth :: number
  feetMinWidth :: number
  emaAlpha :: number
  minVisibility :: number
  readySeconds :: number
  weights :: "string \<Rightarrow> number option"

text \<open>The constructor with its default arguments; the two clock readings of the
  field initialisers are \<open>t0\<close> and \<open>t1\<close>.\<close>

definition new_PlankEvaluator :: "int \<Rightarrow> int \<Rightarrow> PlankEvaluator" where
  "new_PlankEvaluator t0 t1 =
     \<lparr> state = NOT_READY, plankType = UNKNOWN, overallScore = Fin 0, holdTime = Fin 0,
       bestHold = Fin 0, totalTime = Fin 0,
       hipScore = Fin 1, headScore = Fin 1, stackScore = Fin 1, underScore = Fin 1,
       feetScore = Fin 1,
       hipAngle = NaN, headAngle = NaN, shoulderMisalignment = NaN, hipMisalignment = NaN,
       underShoulderDist = NaN, feetWidthRatio = NaN,
       formWarnings = [],
       stateStartTime = t0, holdStartTime = None, lastUpdateTime = t1,
       hipAngSmooth = NaN, headAngSmooth = NaN, stackShSmooth = NaN, stackHipSmooth = NaN,
       underSmooth = NaN, feetWSmooth = NaN,
       hipOkRange = (Fin 165, Fin 180), hipSagMax = Fin 150, hipPikeMin = Fin 190,
       headOkRange = (Fin 155, Fin 200), stackOkMaxDeg = Fin 6,
       underShoulderPxNorm = Fin (25 / 100), feetMaxWidth = Fin (14 / 10),
       feetMinWidth = Fin (7 / 10), emaAlpha = Fin (35 / 100),
       minVisibility = Fin (5 / 10), readySeconds = Fin 1,
       weights = map_of [(''hip'', Fin (35 / 100)), (''head'', Fin (15 / 100)),
                         (''stack'', Fin (15 / 100)), (''under'', Fin (2 / 10)),
                         (''feet'', Fin (15 / 100))] \<rparr>"

definition PlankEvaluator_reset :: "PlankEvaluator \<Rightarrow> int \<Rightarrow> int \<Rightarrow> PlankEvaluator" where
  "PlankEvaluator_reset this t0 t1 =
     this\<lparr> state := NOT_READY, plankType := UNKNOWN, overallScore := Fin 0,
           holdTime := Fin 0, bestHold := Fin 0, totalTime := Fin 0,
           hipScore := Fin 1, headScore := Fin 1, stackScore := Fin 1,
           underScore := Fin 1, feetScore := Fin 1,
           hipAngle := NaN, headAngle := NaN, shoulderMisalignment := NaN,
           hipMisalignment := NaN, underShoulderDist := NaN, feetWidthRatio := NaN,
           formWarnings := [],
           stateStartTime := t0, holdStartTime := None, lastUpdateTime := t1,
           hipAngSmooth := NaN, headAngSmooth := NaN, stackShSmooth := NaN,
           stackHipSmooth := NaN, underSmooth := NaN, feetWSmooth := NaN \<rparr>"

definition PlankEvaluator_ema :: "PlankEvaluator \<Rightarrow> number \<Rightarrow> number \<Rightarrow> number" where
  "PlankEvaluator_ema this prev newVal =
    (if isNaN prev \<or> isNaN newVal then newVal
     else nadd (nmul (emaAlpha this) newVal) (nmul (nsub (Fin 1) (emaAlpha this)) prev))"

definition angle3 :: "Point \<Rightarrow> Point \<Rightarrow> Point \<Rightarrow> number" where
  "angle3 a b c =
    (let bax = nsub (x a) (x b);
         bay = nsub (y a) (y b);
         baz = nsub (z a) (z b);
         bcx = nsub (x c) (x b);
         bcy = nsub (y c) (y b);
         bcz = nsub (z c) (z b);
         normBA = nsqrt (nadd (nadd (nmul bax bax) (nmul bay bay)) (nmul baz baz));
         normBC = nsqrt (nadd (nadd (nmul bcx bcx) (nmul bcy bcy)) (nmul bcz bcz));
         den = nmax (Fin (1 / 10 ^ 9)) (nmul normBA normBC);
         cos = nmax (Fin (- 1)) (nmin (Fin 1)
                 (ndiv (nadd (nadd (nmul bax bcx) (nmul bay bcy)) (nmul baz bcz)) den));
         ang = ndiv (nmul (nacos cos) (Fin 180)) Math_PI
     in nadd (nsub (Fin 180) ang) (Fin 180))"

definition verticalMisalignDeg :: "Point \<Rightarrow> Point \<Rightarrow> number" where
  "verticalMisalignDeg l r =
    (let dx = nsub (x r) (x l);
         dy = nsub (y r) (y l);
         dz = nsub (z r) (z l);
         norm = nsqrt (nadd (nadd (nmul dx dx) (nmul dy dy)) (nmul dz dz))
     in if nlt norm (Fin (1 / 10 ^ 6)) then NaN
        else
          let horizNorm = hypot dx dz
          in if nlt horizNorm (Fin (1 / 10 ^ 6)) then NaN
             else
               let cos = nmax (Fin (- 1)) (nmin (Fin 1) (ndiv horizNorm norm))
               in ndiv (nmul (nacos cos) (Fin 180)) Math_PI)"

text \<open>The local function \<^verbatim>\<open>elbowAngle\<close> of \<^verbatim>\<open>classifyPlank\<close>.\<close>

definition classify_elbowAngle :: "Point \<Rightarrow> Point \<Rightarrow> Point \<Rightarrow> number" where
  "classify_elbowAngle lsh lel lwr =
    (let bax = nsub (x lsh) (x lel);
         bay = nsub (y lsh) (y lel);
         baz = nsub (z lsh) (z lel);
         bcx = nsub (x lwr) (x lel);
         bcy = nsub (y lwr) (y lel);
         bcz = nsub (z lwr) (z lel);
         normBA = nsqrt (nadd (nadd (nmul bax bax) (nmul bay bay)) (nmul baz baz));
         normBC = nsqrt (nadd (nadd (nmul bcx bcx) (nmul bcy bcy)) (nmul bcz bcz))
     in if nlt normBA (Fin (1 / 10 ^ 6)) \<or> nlt normBC (Fin (1 / 10 ^ 6)) then NaN
        else
          let cos = nmax (Fin (- 1)) (nmin (Fin 1)
                      (ndiv (nadd (nadd (nmul bax bcx) (nmul bay bcy)) (nmul baz bcz))
                            (nmul normBA normBC)))
          in ndiv (nmul (nacos cos) (Fin 180)) Math_PI)"

definition classifyPlank ::
  "PlankEvaluator \<Rightarrow> Point \<Rightarrow> Point \<Rightarrow> Point \<Rightarrow> Point \<Rightarrow> Point \<Rightarrow> Point \<Rightarrow> PlankType" where
  "classifyPlank this lsh rsh lel rel lwr rwr =
    (let mv = minVisibility this;
         allVisible = (isVisible lsh mv \<and> isVisible rsh mv \<and> isVisible lel mv \<and>
                       isVisible rel mv \<and> isVisible lwr mv \<and> isVisible rwr mv)
     in if \<not> allVisible then UNKNOWN
        else
          let avgDiff = ndiv (nadd (nsub (y lel) (y lwr)) (nsub (y rel) (y rwr))) (Fin 2)
          in if nlt avgDiff (Fin (- (2 / 100))) then HIGH
             else if ngt avgDiff (Fin (2 / 100)) then FOREARM
             else
               let angL = classify_elbowAngle lsh lel lwr;
                   angR = classify_elbowAngle rsh rel rwr;
                   ang = (if \<not> isNaN angL \<and> \<not> isNaN angR
                          then ndiv (nadd angL angR) (Fin 2)
                          else if \<not> isNaN angL then angL else angR)
               in if isNaN ang then UNKNOWN
                  else if ngt ang (Fin 150) then HIGH else FOREARM)"


text \<open>The local functions \<^verbatim>\<open>avg\<close> and \<^verbatim>\<open>horizDist\<close> of \<^verbatim>\<open>update\<close>.\<close>

definition avg :: "Point \<Rightarrow> Point \<Rightarrow> Point" where
  "avg a b =
     \<lparr> x = ndiv (nadd (x a) (x b)) (Fin 2),
       y = ndiv (nadd (y a) (y b)) (Fin 2),
       z = ndiv (nadd (z a) (z b)) (Fin 2),
       vis = ndiv (nadd (vis a) (vis b)) (Fin 2) \<rparr>"

definition horizDist :: "Point \<Rightarrow> Point \<Rightarrow> number" where
  "horizDist base sh = hypot (nsub (x base) (x sh)) (nsub (z base) (z sh))"

text \<open>Lines 601 to 639: the raw signals of the frame and their smoothing.\<close>

definition PlankEvaluator_signals ::
  "PlankEvaluator \<Rightarrow> Point \<Rightarrow> Point \<Rightarrow> Point \<Rightarrow> Point \<Rightarrow> Point \<Rightarrow> Point \<Rightarrow>
   Point \<Rightarrow> Point \<Rightarrow> Point \<Rightarrow> Point \<Rightarrow> Point \<Rightarrow> Point \<Rightarrow> PlankEvaluator" where
  "PlankEvaluator_signals this lsh rsh lel rel lwr rwr lhip rhip lank rank lear rear =
    (let sho = avg lsh rsh;
         hip = avg lhip rhip;
         ank = avg lank rank;
         ear = avg lear rear;
         scale = hypot (nsub (x sho) (x hip)) (nsub (y sho) (y hip));
         this = this\<lparr> hipAngle := angle3 sho hip ank \<rparr>;
         this = this\<lparr> headAngle := angle3 ear sho hip \<rparr>;
         this = this\<lparr> shoulderMisalignment := verticalMisalignDeg lsh rsh \<rparr>;
         this = this\<lparr> hipMisalignment := verticalMisalignDeg lhip rhip \<rparr>;
         this = this\<lparr> plankType := classifyPlank this lsh rsh lel rel lwr rwr \<rparr>;
         baseL = (if plankType this = HIGH then lwr else lel);
         baseR = (if plankType this = HIGH then rwr else rel);
         this = this\<lparr> underShoulderDist :=
                        ndiv (nadd (horizDist baseL lsh) (horizDist baseR rsh)) (Fin 2) \<rparr>;
         hipW = ndiv (nadd (hypot (nsub (x lsh) (x rsh)) (nsub (y lsh) (y rsh)))
                           (hypot (nsub (x lhip) (x rhip)) (nsub (y lhip) (y rhip))))
                     (Fin 2);
         this = this\<lparr> feetWidthRatio :=
                        ndiv (hypot (nsub (x lank) (x rank)) (nsub (y lank) (y rank)))
                             (nmax hipW (Fin 1)) \<rparr>;
         this = this\<lparr> hipAngSmooth :=
                        PlankEvaluator_ema this (hipAngSmooth this) (hipAngle this) \<rparr>;
         this = this\<lparr> headAngSmooth :=
                        PlankEvaluator_ema this (headAngSmooth this) (headAngle this) \<rparr>;
         this = this\<lparr> stackShSmooth :=
                        PlankEvaluator_ema this (stackShSmooth this)
                          (shoulderMisalignment this) \<rparr>;
         this = this\<lparr> stackHipSmooth :=
                        PlankEvaluator_ema this (stackHipSmooth this)
                          (hipMisalignment this) \<rparr>;
         this = this\<lparr> underSmooth :=
                        PlankEvaluator_ema this (underSmooth this)
                          (ndiv (underShoulderDist this) (nmax scale (Fin 1))) \<rparr>
     in this\<lparr> feetWSmooth :=
                 PlankEvaluator_ema this (feetWSmooth this) (feetWidthRatio this) \<rparr>)"

text \<open>
  Lines 645 to 706: each of the five assessments gives the issues it pushes and the
  score it stores.
\<close>

definition hip_assessment :: "PlankEvaluator \<Rightarrow> string list \<times> number" where
  "hip_assessment this =
    (let h = hipAngSmooth this
     in if \<not> isNaN h then
          if nlt h (hipSagMax this) then
            ([''Hips sagging too much''],
             nmax (Fin 0) (ndiv (nsub h (Fin 90)) (nsub (hipSagMax this) (Fin 90))))
          else if nlt h (fst (hipOkRange this)) then
            ([''Lift hips slightly''],
             nadd (Fin (5 / 10))
               (nmul (Fin (5 / 10))
                  (ndiv (nsub h (hipSagMax this))
                        (nsub (fst (hipOkRange this)) (hipSagMax this)))))
          else if ngt h (hipPikeMin this) then
            ([''Lower hips (piking)''],
             nmax (Fin 0) (nsub (Fin 1) (ndiv (nsub h (hipPikeMin this)) (Fin 20))))
          else if ngt h (snd (hipOkRange this)) then
            ([''Lower hips slightly''],
             nadd (Fin (5 / 10))
               (nmul (Fin (5 / 10))
                  (nsub (Fin 1)
                     (ndiv (nsub h (snd (hipOkRange this)))
                           (nsub (hipPikeMin this) (snd (hipOkRange this)))))))
          else ([], Fin 1)
        else ([], Fin 1))"

definition head_assessment :: "PlankEvaluator \<Rightarrow> string list \<times> number" where
  "head_assessment this =
    (let h = headAngSmooth this
     in if \<not> isNaN h then
          if nlt h (fst (headOkRange this)) then
            ([''Look forward (head dropping)''],
             nmax (Fin 0)
               (ndiv (nsub h (Fin 90)) (nsub (fst (headOkRange this)) (Fin 90))))
          else if nlt h (nadd (fst (headOkRange this)) (Fin 10)) then
            ([],
             nadd (Fin (8 / 10))
               (nmul (Fin (2 / 10)) (ndiv (nsub h (fst (headOkRange this))) (Fin 10))))
          else ([], Fin 1)
        else ([], Fin 1))"

definition stack_assessment :: "PlankEvaluator \<Rightarrow> string list \<times> number" where
  "stack_assessment this =
    (if \<not> isNaN (stackShSmooth this) \<and> \<not> isNaN (stackHipSmooth this) then
       let maxMis = nmax (stackShSmooth this) (stackHipSmooth this)
       in if ngt maxMis (stackOkMaxDeg this) then
            ([''Align shoulders/hips (no twist)''],
             nmax (Fin 0)
               (nsub (Fin 1) (ndiv (nsub maxMis (stackOkMaxDeg this)) (Fin 15))))
          else ([], Fin 1)
     else ([], Fin 1))"

definition under_assessment :: "PlankEvaluator \<Rightarrow> string list \<times> number" where
  "under_assessment this =
    (if \<not> isNaN (underSmooth this) then
       if ngt (underSmooth this) (underShoulderPxNorm this) then
         ([''Position hands/elbows under shoulders''],
          nmax (Fin 0)
            (nsub (Fin 1)
               (ndiv (nsub (underSmooth this) (underShoulderPxNorm this)) (Fin (3 / 10)))))
       else ([], Fin 1)
     else ([], Fin 1))"

definition feet_assessment :: "PlankEvaluator \<Rightarrow> string list \<times> number" where
  "feet_assessment this =
    (if \<not> isNaN (feetWSmooth this) then
       if nlt (feetWSmooth this) (feetMinWidth this) then
         ([''Widen feet to hip-width''],
          nmax (Fin 0) (ndiv (feetWSmooth this) (feetMinWidth this)))
       else if ngt (feetWSmooth this) (feetMaxWidth this) then
         ([''Narrow feet to hip-width''],
          nmax (Fin 0)
            (nsub (Fin 1)
               (ndiv (nsub (feetWSmooth this) (feetMaxWidth this)) (Fin (6 / 10)))))
       else ([], Fin 1)
     else ([], Fin 1))"

text \<open>\<^verbatim>\<open>this.weights[key] || dflt\<close>: a missing, zero or \<open>NaN\<close> weight gives the default.\<close>

definition weight_or :: "PlankEvaluator \<Rightarrow> string \<Rightarrow> number \<Rightarrow> number" where
  "weight_or this key dflt =
     (case weights this key of None \<Rightarrow> dflt | Some w \<Rightarrow> num_or w dflt)"

text \<open>Lines 709 to 715, on the five scores stored in the evaluator.\<close>

definition PlankEvaluator_overall :: "PlankEvaluator \<Rightarrow> number" where
  "PlankEvaluator_overall this =
     nmul
       (nadd
          (nadd
             (nadd
                (nadd (nmul (weight_or this ''hip'' (Fin (35 / 100))) (hipScore this))
                      (nmul (weight_or this ''head'' (Fin (15 / 100))) (headScore this)))
                (nmul (weight_or this ''stack'' (Fin (15 / 100))) (stackScore this)))
             (nmul (weight_or this ''under'' (Fin (2 / 10))) (underScore this)))
          (nmul (weight_or this ''feet'' (Fin (15 / 100))) (feetScore this)))
       (Fin 100)"

definition PlankEvaluator_assess :: "PlankEvaluator \<Rightarrow> PlankEvaluator" where
  "PlankEvaluator_assess this =
    (let issues = [];
         (i, s) = hip_assessment this;
         issues = issues @ i;
         this = this\<lparr> hipScore := s \<rparr>;
         (i, s) = head_assessment this;
         issues = issues @ i;
         this = this\<lparr> headScore := s \<rparr>;
         (i, s) = stack_assessment this;
         issues = issues @ i;
         this = this\<lparr> stackScore := s \<rparr>;
         (i, s) = under_assessment this;
         issues = issues @ i;
         this = this\<lparr> underScore := s \<rparr>;
         (i, s) = feet_assessment this;
         issues = issues @ i;
         this = this\<lparr> feetScore := s \<rparr>;
         this = this\<lparr> overallScore := PlankEvaluator_overall this \<rparr>
     in this\<lparr> formWarnings := issues \<rparr>)"

text \<open>The \<^verbatim>\<open>switch\<close> of lines 726 to 755, at the clock reading \<open>now\<close>.\<close>

definition PlankEvaluator_transition ::
  "PlankEvaluator \<Rightarrow> int \<Rightarrow> bool \<Rightarrow> PlankEvaluator" where
  "PlankEvaluator_transition this now stableEnough =
    (case state this of
       NOT_READY \<Rightarrow>
         (if stableEnough then this\<lparr> state := READY, stateStartTime := now \<rparr> else this)
     | READY \<Rightarrow>
         (if \<not> stableEnough then this\<lparr> state := NOT_READY, stateStartTime := now \<rparr>
          else
            let elapsed = ndiv (nsub (ms now) (ms (stateStartTime this))) (Fin 1000)
            in if nge elapsed (readySeconds this)
               then this\<lparr> state := HOLDING, holdStartTime := Some now \<rparr>
               else this)
     | HOLDING \<Rightarrow>
         (let deltaTime = ndiv (nsub (ms now) (ms (lastUpdateTime this))) (Fin 1000);
              this = this\<lparr> totalTime := nadd (totalTime this) deltaTime \<rparr>
          in if \<not> stableEnough
             then this\<lparr> state := NOT_READY, stateStartTime := now, holdStartTime := None \<rparr>
             else this))"

text \<open>
  Lines 758 to 761. \<^verbatim>\<open>this.holdStartTime ? ... : 0.0\<close> tests the marker for truthiness:
  \<^verbatim>\<open>null\<close> and the reading \<open>0\<close> are both falsy.
\<close>

definition PlankEvaluator_holdTimes :: "PlankEvaluator \<Rightarrow> int \<Rightarrow> PlankEvaluator" where
  "PlankEvaluator_holdTimes this now =
    (let this = this\<lparr> holdTime :=
                   (case holdStartTime this of
                      None \<Rightarrow> Fin 0
                    | Some t \<Rightarrow> if t = 0 then Fin 0
                                else ndiv (nsub (ms now) (ms t)) (Fin 1000)) \<rparr>;
         this = this\<lparr> bestHold := nmax (bestHold this) (holdTime this) \<rparr>
     in this\<lparr> lastUpdateTime := now \<rparr>)"

text \<open>The stability test of lines 721 to 724, on the score just stored.\<close>

definition stableCoreVisible ::
  "PlankEvaluator \<Rightarrow> Landmark list \<Rightarrow> number \<Rightarrow> number \<Rightarrow> bool" where
  "stableCoreVisible this landmarks imageW imageH =
    (let mv = minVisibility this
     in isVisible (toPoint (landmarks ! LEFT_SHOULDER POSE_LANDMARKS) imageW imageH) mv \<and>
        isVisible (toPoint (landmarks ! RIGHT_SHOULDER POSE_LANDMARKS) imageW imageH) mv \<and>
        isVisible (toPoint (landmarks ! LEFT_HIP POSE_LANDMARKS) imageW imageH) mv \<and>
        isVisible (toPoint (landmarks ! RIGHT_HIP POSE_LANDMARKS) imageW imageH) mv \<and>
        isVisible (toPoint (landmarks ! LEFT_ANKLE POSE_LANDMARKS) imageW imageH) mv \<and>
        isVisible (toPoint (landmarks ! RIGHT_ANKLE POSE_LANDMARKS) imageW imageH) mv)"

text \<open>The test of lines 578 to 580.\<close>

definition criticalPointsVisible ::
  "PlankEvaluator \<Rightarrow> Landmark list \<Rightarrow> number \<Rightarrow> number \<Rightarrow> bool" where
  "criticalPointsVisible this landmarks imageW imageH =
    (let mv = minVisibility this;
         lsh = toPoint (landmarks ! LEFT_SHOULDER POSE_LANDMARKS) imageW imageH;
         rsh = toPoint (landmarks ! RIGHT_SHOULDER POSE_LANDMARKS) imageW imageH;
         lkn = toPoint (landmarks ! LEFT_KNEE POSE_LANDMARKS) imageW imageH;
         rkn = toPoint (landmarks ! RIGHT_KNEE POSE_LANDMARKS) imageW imageH;
         leftSideVisible = (isVisible lsh mv \<and> isVisible lkn mv);
         rightSideVisible = (isVisible rsh mv \<and> isVisible rkn mv)
     in leftSideVisible \<or> rightSideVisible)"

text \<open>Lines 562 to 717: the points of the frame, its signals and their assessment.\<close>

definition PlankEvaluator_evaluate ::
  "PlankEvaluator \<Rightarrow> Landmark list \<Rightarrow> number \<Rightarrow> number \<Rightarrow> PlankEvaluator" where
  "PlankEvaluator_evaluate this landmarks imageW imageH =
     PlankEvaluator_assess
       (PlankEvaluator_signals this
          (toPoint (landmarks ! LEFT_SHOULDER POSE_LANDMARKS) imageW imageH)
          (toPoint (landmarks ! RIGHT_SHOULDER POSE_LANDMARKS) imageW imageH)
          (toPoint (landmarks ! LEFT_ELBOW POSE_LANDMARKS) imageW imageH)
          (toPoint (landmarks ! RIGHT_ELBOW POSE_LANDMARKS) imageW imageH)
          (toPoint (landmarks ! LEFT_WRIST POSE_LANDMARKS) imageW imageH)
          (toPoint (landmarks ! RIGHT_WRIST POSE_LANDMARKS) imageW imageH)
          (toPoint (landmarks ! LEFT_HIP POSE_LANDMARKS) imageW imageH)
          (toPoint (landmarks ! RIGHT_HIP POSE_LANDMARKS) imageW imageH)
          (toPoint (landmarks ! LEFT_ANKLE POSE_LANDMARKS) imageW imageH)
          (toPoint (landmarks ! RIGHT_ANKLE POSE_LANDMARKS) imageW imageH)
          (toPoint (landmarks ! 7) imageW imageH)
          (toPoint (landmarks ! 8) imageW imageH))"

definition PlankEvaluator_update ::
  "PlankEvaluator \<Rightarrow> int \<Rightarrow> Landmark list \<Rightarrow> number \<Rightarrow> number \<Rightarrow> PlankEvaluator" where
  "PlankEvaluator_update this now landmarks imageW imageH =
    (if length landmarks < 33 then this
     else if \<not> criticalPointsVisible this landmarks imageW imageH then
       let this = (if state this \<noteq> NOT_READY
                   then this\<lparr> state := NOT_READY, stateStartTime := now,
                              holdStartTime := None \<rparr>
                   else this)
       in this\<lparr> formWarnings := [''Keep at least one shoulder and knee visible''],
                overallScore := Fin 0 \<rparr>
     else
       let this = PlankEvaluator_evaluate this landmarks imageW imageH;
           stableEnough = (ngt (overallScore this) (Fin 50) \<and>
                           stableCoreVisible this landmarks imageW imageH);
           this = PlankEvaluator_transition this now stableEnough
       in PlankEvaluator_holdTimes this now)"

definition PlankEvaluator_warning :: "PlankEvaluator \<Rightarrow> string" where
  "PlankEvaluator_warning this = (case formWarnings this of [] \<Rightarrow> [] | w # _ \<Rightarrow> w)"

definition getStateLabel :: "PlankEvaluator \<Rightarrow> string" where
  "getStateLabel this =
     (case state this of
        NOT_READY \<Rightarrow> ''Get in position''
      | READY \<Rightarrow> ''Hold steady...''
      | HOLDING \<Rightarrow> ''Holding'')"

section \<open>The module: singleton evaluators and exported functions\<close>

datatype Stage = UP | DOWN | NEUTRAL

record ExerciseState =
  count :: number
  feedback :: string
  isCorrectForm :: bool
  stage :: Stage
  timer :: "number option"
  visibilityIssue :: "bool option"
  landmarksNeedingImprovement :: "nat list option"

text \<open>The three module-scope constants of lines 795 to 797.\<close>

record Module =
  pushupCounter :: PushupCounter
  squatCounter :: SquatCounter
  plankEvaluator :: PlankEvaluator

text \<open>\<^verbatim>\<open>s.includes(sub)\<close>\<close>

fun str_includes :: "string \<Rightarrow> string \<Rightarrow> bool" where
  "str_includes [] sub = (sub = [])"
| "str_includes (c # cs) sub = (take (length sub) (c # cs) = sub \<or> str_includes cs sub)"

definition processPushup ::
  "Module \<Rightarrow> Landmark list \<Rightarrow> ExerciseState \<Rightarrow> ExerciseState \<times> Module" where
  "processPushup mdl landmarks st =
    (let counter = PushupCounter_update (pushupCounter mdl) landmarks (Fin 640) (Fin 480)
                     ''right'';
         mdl = mdl\<lparr> pushupCounter := counter \<rparr>;
         warning = PushupCounter.formWarning counter;
         newState =
           \<lparr> count = Fin (of_nat (PushupCounter.count counter)),
             feedback = (if warning \<noteq> [] then warning
                         else if PushupCounter.state counter = PushupState.UP then ''Go Down''
                         else if PushupCounter.state counter = PushupState.DOWN then ''Push Up''
                         else ''Get Ready''),
             isCorrectForm = (warning = []),
             stage = (if PushupCounter.state counter = PushupState.UP then Stage.UP
                      else if PushupCounter.state counter = PushupState.DOWN then Stage.DOWN
                      else NEUTRAL),
             timer = None,
             visibilityIssue = Some (str_includes warning ''visible'' \<or> str_includes warning ''frame''),
             landmarksNeedingImprovement = Some [] \<rparr>;
         newState =
           (if str_includes warning ''legs'' then
              newState\<lparr> landmarksNeedingImprovement :=
                Some [LEFT_KNEE POSE_LANDMARKS, RIGHT_KNEE POSE_LANDMARKS,
                      LEFT_HIP POSE_LANDMARKS, RIGHT_HIP POSE_LANDMARKS] \<rparr>
            else if str_includes warning ''arms'' then
              newState\<lparr> landmarksNeedingImprovement :=
                Some [LEFT_ELBOW POSE_LANDMARKS, RIGHT_ELBOW POSE_LANDMARKS,
                      LEFT_WRIST POSE_LANDMARKS, RIGHT_WRIST POSE_LANDMARKS] \<rparr>
            else newState)
     in (newState, mdl))"

text \<open>
  \<^verbatim>\<open>processSquat\<close> reads the landmarks without a length test: \<^verbatim>\<open>landmarks[i]\<close> beyond
  the end is \<^verbatim>\<open>undefined\<close>, and reading a property of it throws.
\<close>

datatype error = TypeError

definition landmark_at :: "Landmark list \<Rightarrow> nat \<Rightarrow> Landmark option" where
  "landmark_at landmarks i = (if i < length landmarks then Some (landmarks ! i) else None)"

definition bindE :: "error + 'a \<Rightarrow> ('a \<Rightarrow> error + 'b) \<Rightarrow> error + 'b" where
  "bindE m f = (case m of Inl e \<Rightarrow> Inl e | Inr v \<Rightarrow> f v)"

text \<open>\<^verbatim>\<open>(l.visibility || 0) > VISIBILITY_THRESH\<close>\<close>

definition visibility_gt :: "Landmark option \<Rightarrow> number \<Rightarrow> error + bool" where
  "visibility_gt l thresh =
     (case l of
        None \<Rightarrow> Inl TypeError
      | Some lm \<Rightarrow>
          Inr (ngt (case visibility lm of None \<Rightarrow> Fin 0 | Some v \<Rightarrow> num_or v (Fin 0))
                   thresh))"

definition toPointE :: "Landmark option \<Rightarrow> error + Point" where
  "toPointE l = (case l of None \<Rightarrow> Inl TypeError | Some lm \<Rightarrow> Inr (toPoint lm (Fin 1) (Fin 1)))"

definition angle2DE ::
  "Landmark option \<Rightarrow> Landmark option \<Rightarrow> Landmark option \<Rightarrow> error + number" where
  "angle2DE a b c =
     bindE (toPointE a) (\<lambda>pa. bindE (toPointE b) (\<lambda>pb. bindE (toPointE c) (\<lambda>pc.
       Inr (calculateAngle2D pa pb pc))))"

text \<open>Lines 888 to 931, once the two angles are known.\<close>

definition processSquat_count ::
  "ExerciseState \<Rightarrow> ExerciseState \<Rightarrow> number \<Rightarrow> number \<Rightarrow> bool \<Rightarrow> ExerciseState" where
  "processSquat_count st newState kneeA hipA checkLean =
    (if checkLean \<and> nlt hipA (Fin 55) then
       newState\<lparr> feedback := ''Keep Chest Up'', isCorrectForm := False,
                 visibilityIssue := Some False,
                 landmarksNeedingImprovement :=
                   Some [LEFT_SHOULDER POSE_LANDMARKS, RIGHT_SHOULDER POSE_LANDMARKS,
                         LEFT_HIP POSE_LANDMARKS, RIGHT_HIP POSE_LANDMARKS] \<rparr>
     else
       let newState = newState\<lparr> isCorrectForm := True, visibilityIssue := Some False,
                                 landmarksNeedingImprovement := Some [] \<rparr>
       in if nge kneeA (Fin 165) then
            if stage st = Stage.DOWN then
              newState\<lparr> count := nadd (count st) (Fin 1), stage := Stage.UP,
                        feedback := ''Good Squat!'' \<rparr>
            else newState\<lparr> stage := Stage.UP, feedback := ''Squat Down'' \<rparr>
          else if nle kneeA (Fin 95) then
            newState\<lparr> stage := Stage.DOWN, feedback := ''Stand Up'' \<rparr>
          else if stage st = Stage.UP then newState\<lparr> feedback := ''Lowering...'' \<rparr>
          else if stage st = Stage.DOWN then newState\<lparr> feedback := ''Rising...'' \<rparr>
          else newState\<lparr> feedback := ''Get Ready'' \<rparr>)"

definition processSquat ::
  "Module \<Rightarrow> Landmark list \<Rightarrow> ExerciseState \<Rightarrow> (error + ExerciseState) \<times> Module" where
  "processSquat mdl landmarks st =
    (let VISIBILITY_THRESH = Fin (5 / 10);
         leftShoulder = landmark_at landmarks (LEFT_SHOULDER POSE_LANDMARKS);
         leftHip = landmark_at landmarks (LEFT_HIP POSE_LANDMARKS);
         leftKnee = landmark_at landmarks (LEFT_KNEE POSE_LANDMARKS);
         leftAnkle = landmark_at landmarks (LEFT_ANKLE POSE_LANDMARKS);
         rightShoulder = landmark_at landmarks (RIGHT_SHOULDER POSE_LANDMARKS);
         rightHip = landmark_at landmarks (RIGHT_HIP POSE_LANDMARKS);
         rightKnee = landmark_at landmarks (RIGHT_KNEE POSE_LANDMARKS);
         rightAnkle = landmark_at landmarks (RIGHT_ANKLE POSE_LANDMARKS);
         sideVisible = (\<lambda>hip knee.
            bindE (visibility_gt hip VISIBILITY_THRESH) (\<lambda>h.
              if h then visibility_gt knee VISIBILITY_THRESH else Inr False));
         newState = st
     in (bindE (sideVisible leftHip leftKnee) (\<lambda>isLeftVisible.
         bindE (sideVisible rightHip rightKnee) (\<lambda>isRightVisible.
           if \<not> isLeftVisible \<and> \<not> isRightVisible then
             Inr (newState\<lparr> feedback := ''Full body visible?'', isCorrectForm := False,
                             visibilityIssue := Some True,
                             landmarksNeedingImprovement :=
                               Some [LEFT_HIP POSE_LANDMARKS, RIGHT_HIP POSE_LANDMARKS,
                                     LEFT_KNEE POSE_LANDMARKS, RIGHT_KNEE POSE_LANDMARKS] \<rparr>)
           else if isLeftVisible \<and> isRightVisible then
             bindE (angle2DE leftHip leftKnee leftAnkle) (\<lambda>leftLegAngle.
             bindE (angle2DE rightHip rightKnee rightAnkle) (\<lambda>rightLegAngle.
               Inr (processSquat_count st newState
                      (ndiv (nadd leftLegAngle rightLegAngle) (Fin 2)) (Fin 180) False)))
           else if isLeftVisible then
             bindE (angle2DE leftHip leftKnee leftAnkle) (\<lambda>kneeA.
             bindE (angle2DE leftShoulder leftHip leftKnee) (\<lambda>hipA.
               Inr (processSquat_count st newState kneeA hipA True)))
           else
             bindE (angle2DE rightHip rightKnee rightAnkle) (\<lambda>kneeA.
             bindE (angle2DE rightShoulder rightHip rightKnee) (\<lambda>hipA.
               Inr (processSquat_count st newState kneeA hipA True))))),
         mdl))"

definition processPlank ::
  "Module \<Rightarrow> int \<Rightarrow> Landmark list \<Rightarrow> ExerciseState \<Rightarrow> ExerciseState \<times> Module" where
  "processPlank mdl now landmarks st =
    (let evaluator = PlankEvaluator_update (plankEvaluator mdl) now landmarks
                       (Fin 640) (Fin 480);
         mdl = mdl\<lparr> plankEvaluator := evaluator \<rparr>;
         warning = PlankEvaluator_warning evaluator;
         newState =
           \<lparr> count = Fin 0,
             feedback = (if warning \<noteq> [] then warning else getStateLabel evaluator),
             isCorrectForm = (warning = [] \<and> state evaluator = HOLDING),
             stage = NEUTRAL,
             timer = Some (holdTime evaluator),
             visibilityIssue = Some (str_includes warning ''visible''),
             landmarksNeedingImprovement = Some [] \<rparr>;
         newState =
           (if str_includes warning ''hips'' then
              newState\<lparr> landmarksNeedingImprovement :=
                Some [LEFT_SHOULDER POSE_LANDMARKS, RIGHT_SHOULDER POSE_LANDMARKS,
                      LEFT_HIP POSE_LANDMARKS, RIGHT_HIP POSE_LANDMARKS,
                      LEFT_ANKLE POSE_LANDMARKS, RIGHT_ANKLE POSE_LANDMARKS] \<rparr>
            else if str_includes warning ''head'' then
              newState\<lparr> landmarksNeedingImprovement :=
                Some [LEFT_SHOULDER POSE_LANDMARKS, RIGHT_SHOULDER POSE_LANDMARKS] \<rparr>
            else if str_includes warning ''shoulders'' \<or> str_includes warning ''twist'' then
              newState\<lparr> landmarksNeedingImprovement :=
                Some [LEFT_SHOULDER POSE_LANDMARKS, RIGHT_SHOULDER POSE_LANDMARKS,
                      LEFT_HIP POSE_LANDMARKS, RIGHT_HIP POSE_LANDMARKS] \<rparr>
            else if str_includes warning ''hands'' \<or> str_includes warning ''elbows'' then
              newState\<lparr> landmarksNeedingImprovement :=
                Some [LEFT_WRIST POSE_LANDMARKS, RIGHT_WRIST POSE_LANDMARKS,
                      LEFT_ELBOW POSE_LANDMARKS, RIGHT_ELBOW POSE_LANDMARKS,
                      LEFT_SHOULDER POSE_LANDMARKS, RIGHT_SHOULDER POSE_LANDMARKS] \<rparr>
            else if str_includes warning ''feet'' then
              newState\<lparr> landmarksNeedingImprovement :=
                Some [LEFT_ANKLE POSE_LANDMARKS, RIGHT_ANKLE POSE_LANDMARKS] \<rparr>
            else newState)
     in (newState, mdl))"

text \<open>The rep count each evaluator reports through \<^verbatim>\<open>getState\<close>; the plank
  evaluator holds no counter and reports the constant 0.\<close>

definition PushupCounter_getCount :: "PushupCounter \<Rightarrow> nat" where
  "PushupCounter_getCount this = PushupCounter.count this"

definition SquatCounter_getCount :: "SquatCounter \<Rightarrow> nat" where
  "SquatCounter_getCount this = SquatCounter.count this"

definition PlankEvaluator_getCount :: "PlankEvaluator \<Rightarrow> nat" where
  "PlankEvaluator_getCount this = 0"

section \<open>Auxiliary definitions for the statements\<close>

text \<open>
  Coordinates of magnitude at most \<open>coord_bound\<close> keep every intermediate product of
  the angle functions below the overflow bound.
\<close>

definition coord_bound :: real where
  "coord_bound = 10 ^ 150"

fun fin_within :: "real \<Rightarrow> number \<Rightarrow> bool" where
  "fin_within B (Fin r) = (\<bar>r\<bar> \<le> B)"
| "fin_within B _ = False"

definition point_within :: "real \<Rightarrow> Point \<Rightarrow> bool" where
  "point_within B p = (fin_within B (x p) \<and> fin_within B (y p) \<and> fin_within B (z p))"

definition far_point :: Point where
  "far_point = \<lparr> x = Fin (10 ^ 200), y = Fin 0, z = Fin 0, vis = NaN \<rparr>"

definition origin :: Point where
  "origin = \<lparr> x = Fin 0, y = Fin 0, z = Fin 0, vis = NaN \<rparr>"

text \<open>The module as loaded, its three evaluators just constructed.\<close>

definition new_Module :: "int \<Rightarrow> int \<Rightarrow> Module" where
  "new_Module t0 t1 =
     \<lparr> pushupCounter = new_PushupCounter, squatCounter = new_SquatCounter,
       plankEvaluator = new_PlankEvaluator t0 t1 \<rparr>"

text \<open>The state the caller starts from (\<^verbatim>\<open>exerciseStateRef\<close> of the canvas component).\<close>

definition initial_ExerciseState :: ExerciseState where
  "initial_ExerciseState =
     \<lparr> count = Fin 0, feedback = ''Get Ready'', isCorrectForm = True, stage = NEUTRAL,
       timer = Some (Fin 0), visibilityIssue = None, landmarksNeedingImprovement = None \<rparr>"

text \<open>A frame of 33 landmarks at the origin that carry no visibility value.\<close>

definition landmark0 :: Landmark where
  "landmark0 = \<lparr> lm_x = Fin 0, lm_y = Fin 0, lm_z = Fin 0, visibility = None \<rparr>"


text \<open>
  Frames for the concrete runs: 33 landmarks without visibility values, at the plane
  positions given by \<open>f\<close>.
\<close>

definition frame_of :: "(nat \<Rightarrow> real \<times> real) \<Rightarrow> Landmark list" where
  "frame_of f =
     map (\<lambda>i. \<lparr> lm_x = Fin (fst (f i)), lm_y = Fin (snd (f i)), lm_z = Fin 0,
                 visibility = None \<rparr>) [0..<33]"

text \<open>
  Arms and legs straight along the horizontal: shoulders and hips at 0, elbows and
  knees at 1, wrists and ankles at 2. Elbow and knee angles are 180 degrees.
\<close>

definition straight_pose :: "nat \<Rightarrow> real \<times> real" where
  "straight_pose i =
     (if i \<in> {13, 14, 25, 26} then (1, 0)
      else if i \<in> {15, 16, 27, 28} then (2, 0)
      else (0, 0))"

text \<open>The same with the wrists back on the shoulders: the elbow angle is 0.\<close>

definition bent_pose :: "nat \<Rightarrow> real \<times> real" where
  "bent_pose i =
     (if i \<in> {13, 14, 25, 26} then (1, 0)
      else if i \<in> {27, 28} then (2, 0)
      else (0, 0))"

text \<open>Sequences of calls of \<^verbatim>\<open>update\<close>, each with its arguments.\<close>

definition PushupCounter_updates ::
  "PushupCounter \<Rightarrow> (Landmark list \<times> number \<times> number \<times> string) list \<Rightarrow> PushupCounter" where
  "PushupCounter_updates this calls =
     foldl (\<lambda>s (landmarks, imageW, imageH, side).
              PushupCounter_update s landmarks imageW imageH side) this calls"

definition SquatCounter_updates ::
  "SquatCounter \<Rightarrow> (Landmark list \<times> number \<times> number \<times> string) list \<Rightarrow> SquatCounter" where
  "SquatCounter_updates this calls =
     foldl (\<lambda>s (landmarks, imageW, imageH, side).
              SquatCounter_update s landmarks imageW imageH side) this calls"

definition PlankEvaluator_updates ::
  "PlankEvaluator \<Rightarrow> (int \<times> Landmark list \<times> number \<times> number) list \<Rightarrow> PlankEvaluator" where
  "PlankEvaluator_updates this calls =
     foldl (\<lambda>s (now, landmarks, imageW, imageH).
              PlankEvaluator_update s now landmarks imageW imageH) this calls"

text \<open>
  Squat frames in pixel units (image of width and height 1). Standing: shoulder, hip,
  knee and ankle in a vertical line, knee angle 180. Deep: the hip one pixel below the
  knee and the ankle on the hip, knee angle 0.
\<close>

definition stand_pose :: "nat \<Rightarrow> real \<times> real" where
  "stand_pose i =
     (if i \<in> {23, 24} then (0, 1)
      else if i \<in> {25, 26} then (0, 2)
      else if i \<in> {27, 28} then (0, 3)
      else (0, 0))"

definition deep_pose :: "nat \<Rightarrow> real \<times> real" where
  "deep_pose i =
     (if i \<in> {23, 24} then (0, 1)
      else if i \<in> {25, 26} then (0, 0)
      else if i \<in> {27, 28} then (0, 1)
      else (0, 2))"

definition squat_call :: "(nat \<Rightarrow> real \<times> real) \<Rightarrow> Landmark list \<times> number \<times> number \<times> string" where
  "squat_call p = (frame_of p, Fin 1, Fin 1, ''right'')"

text \<open>An accumulator is unset, or a finite value between the two bounds.\<close>

fun unset_or_within :: "real \<Rightarrow> real \<Rightarrow> number \<Rightarrow> bool" where
  "unset_or_within lo hi (Fin r) = (lo \<le> r \<and> r \<le> hi)"
| "unset_or_within lo hi NaN = True"
| "unset_or_within lo hi _ = False"

text \<open>The configuration the module constructs its plank evaluator with.\<close>

definition PlankEvaluator_defaults :: "PlankEvaluator \<Rightarrow> bool" where
  "PlankEvaluator_defaults this =
     (hipOkRange this = (Fin 165, Fin 180) \<and> hipSagMax this = Fin 150 \<and>
      hipPikeMin this = Fin 190 \<and> headOkRange this = (Fin 155, Fin 200) \<and>
      stackOkMaxDeg this = Fin 6 \<and> underShoulderPxNorm this = Fin (25 / 100) \<and>
      feetMaxWidth this = Fin (14 / 10) \<and> feetMinWidth this = Fin (7 / 10) \<and>
      emaAlpha this = Fin (35 / 100) \<and> minVisibility this = Fin (5 / 10) \<and>
      readySeconds this = Fin 1 \<and>
      weights this ''hip'' = Some (Fin (35 / 100)) \<and>
      weights this ''head'' = Some (Fin (15 / 100)) \<and>
      weights this ''stack'' = Some (Fin (15 / 100)) \<and>
      weights this ''under'' = Some (Fin (2 / 10)) \<and>
      weights this ''feet'' = Some (Fin (15 / 100)))"

fun unit_score :: "number \<Rightarrow> bool" where
  "unit_score (Fin r) = (0 \<le> r \<and> r \<le> 1)"
| "unit_score _ = False"

text \<open>
  A plank frame in pixel units: shoulders, hips and ankles on two parallel horizontal
  lines one pixel apart, elbows and wrists on the shoulders, ears behind the shoulders.
  Body and head lines are straight (both angles 180) and the feet are hip-width apart.
\<close>

definition plank_pose :: "nat \<Rightarrow> real \<times> real" where
  "plank_pose i =
     (if i \<in> {11, 13, 15} then (0, 0)
      else if i \<in> {12, 14, 16} then (0, 1)
      else if i = 23 then (1, 0)
      else if i = 24 then (1, 1)
      else if i = 27 then (2, 0)
      else if i = 28 then (2, 1)
      else if i = 7 then (- 1, 0)
      else if i = 8 then (- 1, 1)
      else (0, 0))"

text \<open>
  An evaluator with the default configuration whose accumulators are unset or hold the
  signals of \<open>plank_pose\<close>.
\<close>

definition settled :: "PlankEvaluator \<Rightarrow> bool" where
  "settled this =
     (PlankEvaluator_defaults this \<and>
      hipAngSmooth this \<in> {NaN, Fin 180} \<and> headAngSmooth this \<in> {NaN, Fin 180} \<and>
      underSmooth this \<in> {NaN, Fin 0} \<and> feetWSmooth this \<in> {NaN, Fin 1})"

text \<open>A point of the image plane without depth and without visibility value.\<close>

definition pt :: "real \<Rightarrow> real \<Rightarrow> Point" where
  "pt a b = \<lparr> x = Fin a, y = Fin b, z = Fin 0, vis = NaN \<rparr>"

text \<open>A frame of 33 landmarks that are all rated invisible.\<close>

definition hidden_frame :: "Landmark list" where
  "hidden_frame = replicate 33 (landmark0\<lparr> visibility := Some (Fin 0) \<rparr>)"

text \<open>Whether \<open>update\<close> finds the frame stable (lines 578 to 580 and 721 to 724).\<close>

definition frame_stable ::
  "PlankEvaluator \<Rightarrow> Landmark list \<Rightarrow> number \<Rightarrow> number \<Rightarrow> bool" where
  "frame_stable this landmarks imageW imageH =
     (criticalPointsVisible this landmarks imageW imageH \<and>
      (let e = PlankEvaluator_evaluate this landmarks imageW imageH
       in ngt (overallScore e) (Fin 50) \<and> stableCoreVisible e landmarks imageW imageH))"

text \<open>The seconds elapsed at \<open>now\<close> since the evaluator entered its state.\<close>

definition elapsed_in_state :: "PlankEvaluator \<Rightarrow> int \<Rightarrow> number" where
  "elapsed_in_state this now = ndiv (nsub (ms now) (ms (stateStartTime this))) (Fin 1000)"

text \<open>
  What holds of the plank evaluator between calls: the hold-start marker is set only
  while holding, and the best hold is a number that is not negative.
\<close>

definition plank_inv :: "PlankEvaluator \<Rightarrow> bool" where
  "plank_inv this =
     ((state this = HOLDING \<or> holdStartTime this = None) \<and> nle (Fin 0) (bestHold this))"

text \<open>The same frames for the image size 640 by 480 that the module passes on.\<close>

definition pixel_frame :: "(nat \<Rightarrow> real \<times> real) \<Rightarrow> Landmark list" where
  "pixel_frame f =
     map (\<lambda>i. \<lparr> lm_x = Fin (fst (f i) / 640), lm_y = Fin (snd (f i) / 480), lm_z = Fin 0,
                 visibility = None \<rparr>) [0..<33]"

text \<open>The landmark list shows, at the given image size, the points of the pose \<open>f\<close>.\<close>

definition shows_pose ::
  "Landmark list \<Rightarrow> number \<Rightarrow> number \<Rightarrow> (nat \<Rightarrow> real \<times> real) \<Rightarrow> bool" where
  "shows_pose landmarks imageW imageH f =
     (length landmarks = 33 \<and>
      list_all (\<lambda>i. toPoint (landmarks ! i) imageW imageH = pt (fst (f i)) (snd (f i)))
        [0..<33])"

text \<open>A body bent at a right angle at the hips: the legs point straight down.\<close>

definition pike_pose :: "nat \<Rightarrow> real \<times> real" where
  "pike_pose i =
     (if i \<in> {11, 13, 15} then (0, 0)
      else if i \<in> {12, 14, 16} then (0, 1)
      else if i = 23 then (1, 0)
      else if i = 24 then (1, 1)
      else if i = 27 then (1, 1)
      else if i = 28 then (1, 2)
      else if i = 7 then (- 1, 0)
      else if i = 8 then (- 1, 1)
      else (0, 0))"

text \<open>
  The smoothing state of the two evaluators that hold angle accumulators: the default
  smoothing factor, and each accumulator unset or in its range. The squat counter
  also reports, as its angles, the accumulators themselves.
\<close>

definition squat_angles_ok :: "SquatCounter \<Rightarrow> bool" where
  "squat_angles_ok this =
     (SquatCounter.smoothAlpha this = Fin (35 / 100) \<and>
      unset_or_within 0 180 (SquatCounter.kneeEma this) \<and>
      unset_or_within 0 180 (SquatCounter.hipEma this) \<and>
      SquatCounter.kneeAngle this = SquatCounter.kneeEma this \<and>
      SquatCounter.hipAngle this = SquatCounter.hipEma this)"

definition plank_angles_ok :: "PlankEvaluator \<Rightarrow> bool" where
  "plank_angles_ok this =
     (emaAlpha this = Fin (35 / 100) \<and>
      unset_or_within 0 360 (hipAngSmooth this) \<and>
      unset_or_within 0 360 (headAngSmooth this))"

text \<open>
  Every landmark of the frame becomes, at the given image size, a point whose
  coordinates are finite and of magnitude at most \<open>coord_bound\<close>.
\<close>

definition frame_within :: "Landmark list \<Rightarrow> number \<Rightarrow> number \<Rightarrow> bool" where
  "frame_within landmarks imageW imageH =
     list_all (\<lambda>l. point_within coord_bound (toPoint l imageW imageH)) landmarks"

text \<open>
  A frame whose right hip and right ankle lie at \<open>10 ^ 200\<close> on the horizontal axis, all
  other landmarks at the origin, none with a visibility value.
\<close>

definition far_landmark :: Landmark where
  "far_landmark = \<lparr> lm_x = Fin (10 ^ 200), lm_y = Fin 0, lm_z = Fin 0, visibility = None \<rparr>"

definition far_frame :: "Landmark list" where
  "far_frame = (replicate 33 landmark0)[24 := far_landmark, 28 := far_landmark]"







section \<open>Facts about the number operations and the angle functions\<close>

lemma overflow_bound_gt: "10 ^ 300 < overflow_bound"
  unfolding overflow_bound_def by simp

lemma ovf_Fin: "\<bar>r\<bar> < overflow_bound \<Longrightarrow> ovf r = Fin r"
  by (auto simp: ovf_def)

lemma overflow_bound_gt_million: "1000000 < overflow_bound"
  using overflow_bound_gt by (rule order_less_trans [rotated]) simp

lemma ovf_small: "\<bar>r\<bar> \<le> 1000000 \<Longrightarrow> ovf r = Fin r"
  using overflow_bound_gt_million by (intro ovf_Fin) linarith

lemma ovf_not_NaN [simp]: "ovf r \<noteq> NaN"
  by (simp add: ovf_def)


lemma nmax_Fin [simp]: "nmax (Fin a) (Fin b) = Fin (max a b)"
  by (simp add: nmax_def max_def)

lemma nmin_Fin [simp]: "nmin (Fin a) (Fin b) = Fin (min a b)"
  by (simp add: nmin_def min_def)

lemma clamp_Fin:
  assumes "q \<noteq> NaN"
  shows "\<exists>c. nmax (Fin (- 1)) (nmin (Fin 1) q) = Fin c \<and> - 1 \<le> c \<and> c \<le> 1"
proof (cases q)
  case (Fin v)
  then show ?thesis by simp
next
  case PInf
  then show ?thesis by (simp add: nmin_def)
next
  case NInf
  then show ?thesis by (simp add: nmin_def nmax_def)
next
  case NaN
  with assms show ?thesis by simp
qed

lemma degrees_Fin:
  assumes "- 1 \<le> c" "c \<le> 1"
  shows "ndiv (nmul (nacos (Fin c)) (Fin 180)) Math_PI = Fin (arccos c * 180 / pi)"
    and "0 \<le> arccos c * 180 / pi" and "arccos c * 180 / pi \<le> 180"
proof -
  have a: "0 \<le> arccos c" "arccos c \<le> pi" using assms arccos_bounded by auto
  have p: "pi \<le> 4" using pi_less_4 by simp
  have "\<bar>arccos c * 180\<bar> \<le> 1000000" using a p by simp
  hence m: "nmul (nacos (Fin c)) (Fin 180) = Fin (arccos c * 180)"
    using assms by (simp add: ovf_small)
  show r: "0 \<le> arccos c * 180 / pi" "arccos c * 180 / pi \<le> 180"
    using a pi_gt_zero by (auto simp: field_simps)
  hence "\<bar>arccos c * 180 / pi\<bar> \<le> 1000000" by simp
  hence "ndiv (Fin (arccos c * 180)) Math_PI = Fin (arccos c * 180 / pi)"
    by (simp add: Math_PI_def ovf_small)
  thus "ndiv (nmul (nacos (Fin c)) (Fin 180)) Math_PI = Fin (arccos c * 180 / pi)"
    using m by simp
qed

lemma angle_tail:
  assumes "q \<noteq> NaN"
  shows "\<exists>r. ndiv (nmul (nacos (nmax (Fin (- 1)) (nmin (Fin 1) q))) (Fin 180)) Math_PI = Fin r
           \<and> 0 \<le> r \<and> r \<le> 180"
proof -
  obtain c where c: "nmax (Fin (- 1)) (nmin (Fin 1) q) = Fin c" "- 1 \<le> c" "c \<le> 1"
    using clamp_Fin [OF assms] by blast
  show ?thesis using degrees_Fin [OF c(2,3)] c(1) by auto
qed

lemma angle_tail_any:
  "isNaN (ndiv (nmul (nacos q) (Fin 180)) Math_PI) \<or>
   (\<exists>r. ndiv (nmul (nacos q) (Fin 180)) Math_PI = Fin r \<and> 0 \<le> r \<and> r \<le> 180)"
proof (cases q)
  case (Fin c)
  show ?thesis
  proof (cases "- 1 \<le> c \<and> c \<le> 1")
    case True
    then show ?thesis using degrees_Fin [of c] Fin by auto
  next
    case False
    then show ?thesis using Fin by auto
  qed
qed simp_all


lemma fin_withinE:
  assumes "fin_within B n"
  obtains r where "n = Fin r" "\<bar>r\<bar> \<le> B"
  using assms by (cases n) auto

lemma ovf_cases: "ovf p = Fin p \<or> ovf p = PInf \<or> ovf p = NInf"
  by (simp add: ovf_def)

lemma div_floor_not_NaN:
  assumes "0 < k"
  shows "ndiv (Fin d) (nmax (Fin k) (ovf p)) \<noteq> NaN"
proof -
  have "max k p \<noteq> 0" using assms by (simp add: max_def)
  then show ?thesis using ovf_cases [of p] assms by (auto simp: nmax_def)
qed

lemma coord_bound_facts:
  "0 \<le> coord_bound" "12 * (coord_bound * coord_bound) < overflow_bound"
  "4 * coord_bound < overflow_bound"
  unfolding coord_bound_def overflow_bound_def by simp_all

lemma prod_within:
  assumes "\<bar>a\<bar> \<le> 2 * coord_bound" "\<bar>b\<bar> \<le> 2 * coord_bound"
  shows "\<bar>a * b\<bar> \<le> 4 * (coord_bound * coord_bound)"
proof -
  have "\<bar>a * b\<bar> = \<bar>a\<bar> * \<bar>b\<bar>" by (simp add: abs_mult)
  also have "\<dots> \<le> (2 * coord_bound) * (2 * coord_bound)"
    using assms coord_bound_facts(1) by (intro mult_mono) auto
  finally show ?thesis by simp
qed

lemma nsub_within:
  assumes "\<bar>a\<bar> \<le> coord_bound" "\<bar>b\<bar> \<le> coord_bound"
  shows "nsub (Fin a) (Fin b) = Fin (a - b)" and "\<bar>a - b\<bar> \<le> 2 * coord_bound"
proof -
  show b: "\<bar>a - b\<bar> \<le> 2 * coord_bound" using assms by linarith
  have "\<bar>a - b\<bar> < overflow_bound" using b coord_bound_facts by linarith
  thus "nsub (Fin a) (Fin b) = Fin (a - b)" by (simp add: nsub_def ovf_Fin)
qed

lemma ovf_prod:
  assumes "\<bar>a\<bar> \<le> 2 * coord_bound" "\<bar>b\<bar> \<le> 2 * coord_bound"
  shows "ovf (a * b) = Fin (a * b)"
proof -
  have "\<bar>a * b\<bar> < overflow_bound"
    using prod_within [OF assms] coord_bound_facts by linarith
  thus ?thesis by (simp add: ovf_Fin)
qed

lemma dot2_within:
  assumes "\<bar>a\<bar> \<le> 2 * coord_bound" "\<bar>b\<bar> \<le> 2 * coord_bound"
    "\<bar>c\<bar> \<le> 2 * coord_bound" "\<bar>d\<bar> \<le> 2 * coord_bound"
  shows "nadd (nmul (Fin a) (Fin b)) (nmul (Fin c) (Fin d)) = Fin (a * b + c * d)"
    and "\<bar>a * b + c * d\<bar> \<le> 8 * (coord_bound * coord_bound)"
proof -
  have p: "\<bar>a * b\<bar> \<le> 4 * (coord_bound * coord_bound)"
          "\<bar>c * d\<bar> \<le> 4 * (coord_bound * coord_bound)"
    using assms prod_within by auto
  show b: "\<bar>a * b + c * d\<bar> \<le> 8 * (coord_bound * coord_bound)" using p by linarith
  have "\<bar>a * b + c * d\<bar> < overflow_bound" using b coord_bound_facts by linarith
  thus "nadd (nmul (Fin a) (Fin b)) (nmul (Fin c) (Fin d)) = Fin (a * b + c * d)"
    using assms by (simp add: ovf_prod ovf_Fin)
qed

lemma dot3_within:
  assumes "\<bar>a\<bar> \<le> 2 * coord_bound" "\<bar>b\<bar> \<le> 2 * coord_bound"
    "\<bar>c\<bar> \<le> 2 * coord_bound" "\<bar>d\<bar> \<le> 2 * coord_bound"
    "\<bar>e\<bar> \<le> 2 * coord_bound" "\<bar>f\<bar> \<le> 2 * coord_bound"
  shows "nadd (nadd (nmul (Fin a) (Fin b)) (nmul (Fin c) (Fin d))) (nmul (Fin e) (Fin f))
           = Fin (a * b + c * d + e * f)"
proof -
  have p: "\<bar>e * f\<bar> \<le> 4 * (coord_bound * coord_bound)" using assms prod_within by auto
  have q: "\<bar>a * b + c * d\<bar> \<le> 8 * (coord_bound * coord_bound)"
    using dot2_within(2) assms by auto
  have q': "\<bar>a * b + c * d\<bar> < overflow_bound" using q coord_bound_facts by linarith
  have "\<bar>a * b + c * d + e * f\<bar> < overflow_bound"
    using p q coord_bound_facts by linarith
  thus ?thesis using assms q' by (simp add: ovf_prod ovf_Fin)
qed

lemma hypot_within:
  assumes "\<bar>a\<bar> \<le> 2 * coord_bound" "\<bar>b\<bar> \<le> 2 * coord_bound"
  shows "hypot (Fin a) (Fin b) = Fin (sqrt (a * a + b * b))"
proof -
  have "sqrt (a * a + b * b) \<le> \<bar>a\<bar> + \<bar>b\<bar>"
    using sqrt_sum_squares_le_sum_abs [of a b] by (simp add: power2_eq_square)
  moreover have "0 \<le> sqrt (a * a + b * b)" by simp
  ultimately have "\<bar>sqrt (a * a + b * b)\<bar> < overflow_bound"
    using assms coord_bound_facts by linarith
  thus ?thesis by (simp add: ovf_Fin)
qed

lemma calculateAngle2D_within:
  assumes "point_within coord_bound a" "point_within coord_bound b"
    "point_within coord_bound c"
  shows "\<exists>r. calculateAngle2D a b c = Fin r \<and> 0 \<le> r \<and> r \<le> 180"
proof -
  obtain ax ay where a: "x a = Fin ax" "\<bar>ax\<bar> \<le> coord_bound" "y a = Fin ay" "\<bar>ay\<bar> \<le> coord_bound"
    using assms(1) unfolding point_within_def by (auto elim!: fin_withinE)
  obtain bx by' where b: "x b = Fin bx" "\<bar>bx\<bar> \<le> coord_bound" "y b = Fin by'" "\<bar>by'\<bar> \<le> coord_bound"
    using assms(2) unfolding point_within_def by (auto elim!: fin_withinE)
  obtain cx cy where c: "x c = Fin cx" "\<bar>cx\<bar> \<le> coord_bound" "y c = Fin cy" "\<bar>cy\<bar> \<le> coord_bound"
    using assms(3) unfolding point_within_def by (auto elim!: fin_withinE)
  note d = nsub_within [OF a(2) b(2)] nsub_within [OF a(4) b(4)]
           nsub_within [OF c(2) b(2)] nsub_within [OF c(4) b(4)]
  have dot: "nadd (nmul (Fin (ax - bx)) (Fin (cx - bx))) (nmul (Fin (ay - by')) (Fin (cy - by')))
               = Fin ((ax - bx) * (cx - bx) + (ay - by') * (cy - by'))"
    using d by (intro dot2_within(1)) auto
  have h: "hypot (Fin (ax - bx)) (Fin (ay - by')) =
             Fin (sqrt ((ax - bx) * (ax - bx) + (ay - by') * (ay - by')))"
          "hypot (Fin (cx - bx)) (Fin (cy - by')) =
             Fin (sqrt ((cx - bx) * (cx - bx) + (cy - by') * (cy - by')))"
    using d by (auto intro!: hypot_within simp del: hypot.simps)
  have "calculateAngle2D a b c =
     ndiv (nmul (nacos (nmax (Fin (- 1)) (nmin (Fin 1)
       (ndiv (Fin ((ax - bx) * (cx - bx) + (ay - by') * (cy - by')))
          (nmax (Fin (1 / 10 ^ 9))
             (ovf (sqrt ((ax - bx) * (ax - bx) + (ay - by') * (ay - by')) *
                   sqrt ((cx - bx) * (cx - bx) + (cy - by') * (cy - by'))))))))) (Fin 180)) Math_PI"
    unfolding calculateAngle2D_def Let_def a b c d(1,3,5,7) dot h by (simp only: nmul.simps)
  moreover have "ndiv (Fin ((ax - bx) * (cx - bx) + (ay - by') * (cy - by')))
          (nmax (Fin (1 / 10 ^ 9))
             (ovf (sqrt ((ax - bx) * (ax - bx) + (ay - by') * (ay - by')) *
                   sqrt ((cx - bx) * (cx - bx) + (cy - by') * (cy - by'))))) \<noteq> NaN"
    by (rule div_floor_not_NaN) simp
  ultimately show ?thesis using angle_tail by metis
qed


lemma calculateAngle3D_within:
  assumes "point_within coord_bound a" "point_within coord_bound b"
    "point_within coord_bound c"
  shows "\<exists>r. calculateAngle3D a b c = Fin r \<and> 0 \<le> r \<and> r \<le> 180"
proof -
  obtain ax ay az where a: "x a = Fin ax" "\<bar>ax\<bar> \<le> coord_bound" "y a = Fin ay"
      "\<bar>ay\<bar> \<le> coord_bound" "z a = Fin az" "\<bar>az\<bar> \<le> coord_bound"
    using assms(1) unfolding point_within_def by (auto elim!: fin_withinE)
  obtain bx by' bz where b: "x b = Fin bx" "\<bar>bx\<bar> \<le> coord_bound" "y b = Fin by'"
      "\<bar>by'\<bar> \<le> coord_bound" "z b = Fin bz" "\<bar>bz\<bar> \<le> coord_bound"
    using assms(2) unfolding point_within_def by (auto elim!: fin_withinE)
  obtain cx cy cz where c: "x c = Fin cx" "\<bar>cx\<bar> \<le> coord_bound" "y c = Fin cy"
      "\<bar>cy\<bar> \<le> coord_bound" "z c = Fin cz" "\<bar>cz\<bar> \<le> coord_bound"
    using assms(3) unfolding point_within_def by (auto elim!: fin_withinE)
  define u v w where "u = ax - bx" and "v = ay - by'" and "w = az - bz"
  define u' v' w' where "u' = cx - bx" and "v' = cy - by'" and "w' = cz - bz"
  have s: "nsub (Fin ax) (Fin bx) = Fin u" "nsub (Fin ay) (Fin by') = Fin v"
          "nsub (Fin az) (Fin bz) = Fin w" "nsub (Fin cx) (Fin bx) = Fin u'"
          "nsub (Fin cy) (Fin by') = Fin v'" "nsub (Fin cz) (Fin bz) = Fin w'"
    unfolding u_def v_def w_def u'_def v'_def w'_def
    using a b c by (auto intro!: nsub_within(1))
  have k: "\<bar>u\<bar> \<le> 2 * coord_bound" "\<bar>v\<bar> \<le> 2 * coord_bound" "\<bar>w\<bar> \<le> 2 * coord_bound"
          "\<bar>u'\<bar> \<le> 2 * coord_bound" "\<bar>v'\<bar> \<le> 2 * coord_bound" "\<bar>w'\<bar> \<le> 2 * coord_bound"
    unfolding u_def v_def w_def u'_def v'_def w'_def
    using a b c by (auto intro!: nsub_within(2))
  have n1: "nadd (nadd (nmul (Fin u) (Fin u)) (nmul (Fin v) (Fin v))) (nmul (Fin w) (Fin w))
              = Fin (u * u + v * v + w * w)"
    using k by (intro dot3_within)
  have n2: "nadd (nadd (nmul (Fin u') (Fin u')) (nmul (Fin v') (Fin v'))) (nmul (Fin w') (Fin w'))
              = Fin (u' * u' + v' * v' + w' * w')"
    using k by (intro dot3_within)
  have dot: "nadd (nadd (nmul (Fin u) (Fin u')) (nmul (Fin v) (Fin v'))) (nmul (Fin w) (Fin w'))
              = Fin (u * u' + v * v' + w * w')"
    using k by (intro dot3_within)
  have q1: "nsqrt (Fin (u * u + v * v + w * w)) = Fin (sqrt (u * u + v * v + w * w))"
    by (simp add: not_less)
  have q2: "nsqrt (Fin (u' * u' + v' * v' + w' * w')) = Fin (sqrt (u' * u' + v' * v' + w' * w'))"
    by (simp add: not_less)
  define q where "q = ndiv (Fin (u * u' + v * v' + w * w'))
          (nmax (Fin (1 / 10 ^ 9))
             (ovf (sqrt (u * u + v * v + w * w) * sqrt (u' * u' + v' * v' + w' * w'))))"
  have "calculateAngle3D a b c =
     ndiv (nmul (nacos (nmax (Fin (- 1)) (nmin (Fin 1) q))) (Fin 180)) Math_PI"
    unfolding calculateAngle3D_def Let_def a b c s n1 n2 dot q1 q2 q_def
    by (simp only: nmul.simps)
  moreover have "q \<noteq> NaN"
    unfolding q_def by (rule div_floor_not_NaN) simp
  ultimately show ?thesis using angle_tail by metis
qed

lemma ovf_far: "ovf (10 ^ 200) = Fin (10 ^ 200)" "ovf (10 ^ 200 * 10 ^ 200) = PInf" "ovf 0 = Fin 0"
  by (simp_all add: ovf_def overflow_bound_def)

lemma hypot_far: "hypot (Fin (10 ^ 200)) (Fin 0) = Fin (10 ^ 200)"
proof -
  have e: "(10 ^ 200 * 10 ^ 200 + 0 * 0 :: real) = 10 ^ 200 * 10 ^ 200"
    by (simp only: mult_zero_left add_0_right)
  have "sqrt (10 ^ 200 * 10 ^ 200 + 0 * 0) = \<bar>10 ^ 200 :: real\<bar>"
    unfolding e by (rule real_sqrt_abs2)
  also have "\<dots> = 10 ^ 200" by (rule abs_of_nonneg) simp
  finally show ?thesis using ovf_far(1) by (simp only: hypot.simps)
qed

lemma angle2D_far: "calculateAngle2D far_point origin far_point = NaN"
proof -
  have d: "nsub (Fin (10 ^ 200)) (Fin 0) = Fin (10 ^ 200)" "nsub (Fin 0) (Fin 0) = Fin 0"
    using ovf_far by (simp_all add: nsub_def)
  have m: "nmul (Fin (10 ^ 200)) (Fin (10 ^ 200)) = PInf" "nmul (Fin 0) (Fin 0) = Fin 0"
    using ovf_far by simp_all
  show ?thesis
    unfolding calculateAngle2D_def Let_def far_point_def origin_def
    by (simp only: Point.simps d m hypot_far) (simp add: nmax_def nmin_def)
qed

lemma angle3D_far: "calculateAngle3D far_point origin far_point = NaN"
proof -
  have d: "nsub (Fin (10 ^ 200)) (Fin 0) = Fin (10 ^ 200)" "nsub (Fin 0) (Fin 0) = Fin 0"
    using ovf_far by (simp_all add: nsub_def)
  have m: "nmul (Fin (10 ^ 200)) (Fin (10 ^ 200)) = PInf" "nmul (Fin 0) (Fin 0) = Fin 0"
    using ovf_far by simp_all
  show ?thesis
    unfolding calculateAngle3D_def Let_def far_point_def origin_def
    by (simp only: Point.simps d m) (simp add: nmax_def nmin_def)
qed

section \<open>Visibility and angles\<close>

lemma isVisible_toPoint:
  "isVisible (toPoint l w h) t =
     (case visibility l of None \<Rightarrow> True | Some v \<Rightarrow> isNaN v \<or> nge v t)"
  by (simp add: isVisible_def toPoint_def split: option.split)

text \<open>
  C7, as amended. For points whose coordinates are finite and of magnitude at most
  \<open>coord_bound\<close>, degenerate configurations included, both angle functions return a
  finite value between 0 and 180.
\<close>

theorem angle_defined_within_bound:
  assumes "point_within coord_bound a" "point_within coord_bound b"
    "point_within coord_bound c"
  shows "(\<exists>r. calculateAngle2D a b c = Fin r \<and> 0 \<le> r \<and> r \<le> 180) \<and>
         (\<exists>r. calculateAngle3D a b c = Fin r \<and> 0 \<le> r \<and> r \<le> 180)"
  using calculateAngle2D_within [OF assms] calculateAngle3D_within [OF assms] by simp

theorem angle_defined_within_bound_witness:
  "point_within coord_bound origin \<and>
   (\<exists>r. calculateAngle2D origin origin origin = Fin r \<and> 0 \<le> r \<and> r \<le> 180) \<and>
   (\<exists>r. calculateAngle3D origin origin origin = Fin r \<and> 0 \<le> r \<and> r \<le> 180)"
proof -
  have h: "point_within coord_bound origin"
    by (simp add: point_within_def origin_def coord_bound_def)
  show ?thesis using angle_defined_within_bound [OF h h h] h by simp
qed

text \<open>
  C7 fails as stated: the points \<open>far_point\<close> and \<open>origin\<close> are finite, but the
  products of the coordinate differences overflow, the quotient is \<open>\<infinity> / \<infinity>\<close>, and both
  functions return \<open>NaN\<close>.
\<close>

theorem angle_overflow_counterexample:
  "fin_within (10 ^ 200) (x far_point) \<and> fin_within 0 (y far_point) \<and>
   fin_within 0 (z far_point) \<and> point_within 0 origin \<and>
   isNaN (calculateAngle2D far_point origin far_point) \<and>
   isNaN (calculateAngle3D far_point origin far_point)"
  by (simp add: angle2D_far angle3D_far) (simp add: far_point_def origin_def point_within_def)

section \<open>PushupCounter: the transition out of DOWN\<close>

lemma ovf_pi_mult:
  assumes "\<bar>k\<bar> \<le> 1000"
  shows "ovf (pi * k) = Fin (pi * k)" "ovf (k * pi) = Fin (k * pi)"
proof -
  have "\<bar>pi * k\<bar> = pi * \<bar>k\<bar>" by (simp add: abs_mult)
  also have "\<dots> \<le> 4 * 1000" using assms pi_less_4 pi_gt_zero by (intro mult_mono) auto
  finally have "\<bar>pi * k\<bar> \<le> 1000000" by simp
  thus "ovf (pi * k) = Fin (pi * k)" by (rule ovf_small)
  thus "ovf (k * pi) = Fin (k * pi)" by (simp add: mult.commute)
qed

lemmas eval_simps = Let_def nsub_def nge_def ngt_def ovf_small ovf_pi_mult Math_PI_def

lemma frame_of_nth:
  "i < 33 \<Longrightarrow> frame_of f ! i =
     \<lparr> lm_x = Fin (fst (f i)), lm_y = Fin (snd (f i)), lm_z = Fin 0, visibility = None \<rparr>"
  by (simp add: frame_of_def)

lemma frame_of_length [simp]: "length (frame_of f) = 33"
  by (simp add: frame_of_def)

lemma measure_straight:
  "PushupCounter_measure this (frame_of straight_pose) (Fin 1) (Fin 1) ''right'' =
     \<lparr> frame_elbowAngle = Fin 180, frame_kneeAngle = Fin 180, legsVisible = True,
       legsExtended = nge (Fin 180) (PushupCounter.legExtendedThresh this),
       visibilityOK = True \<rparr>"
  by (simp add: PushupCounter_measure_def POSE_LANDMARKS_def frame_of_nth toPoint_def
      isVisible_def startsWith_r_def straight_pose_def calculateAngle2D_def eval_simps)

text \<open>
  C1. A call of \<open>update\<close> in state \<open>DOWN\<close> with a full frame accumulates
  \<open>legsQualified\<close> with the frame's \<open>legsExtended\<close> by disjunction; the transition to
  \<open>UP\<close> fires exactly when the measured elbow angle is at least \<open>upThresh\<close> (145 by
  default) and the accumulated flag holds, and then the count grows by one and the
  flag is cleared; otherwise state and count stay. A call with fewer than 33 landmarks
  measures nothing and changes nothing.
\<close>

theorem pushup_DOWN_transition:
  assumes "PushupCounter.state this = PushupState.DOWN"
  shows
    "PushupCounter.upThresh new_PushupCounter = Fin 145 \<and>
     (let this' = PushupCounter_update this landmarks imageW imageH side;
          f = PushupCounter_measure this landmarks imageW imageH side;
          q = (PushupCounter.legsQualified this \<or> legsExtended f)
      in if length landmarks < 33 then this' = this
         else PushupCounter.elbowAngle this' = frame_elbowAngle f \<and>
              (if nge (frame_elbowAngle f) (PushupCounter.upThresh this) \<and> q
               then PushupCounter.count this' = PushupCounter.count this + 1 \<and>
                    PushupCounter.state this' = PushupState.UP \<and>
                    \<not> PushupCounter.legsQualified this'
               else PushupCounter.count this' = PushupCounter.count this \<and>
                    PushupCounter.state this' = PushupState.DOWN \<and>
                    PushupCounter.legsQualified this' = q))"
proof (cases "length landmarks < 33")
  case True
  then show ?thesis by (simp add: PushupCounter_update_def new_PushupCounter_def)
next
  case False
  with assms show ?thesis
    by (simp add: PushupCounter_update_def PushupCounter_transition_def Let_def
        new_PushupCounter_def)
qed

theorem pushup_DOWN_transition_witness:
  "PushupCounter.state (new_PushupCounter\<lparr> PushupCounter.state := PushupState.DOWN \<rparr>)
     = PushupState.DOWN \<and>
   PushupCounter.count
     (PushupCounter_update (new_PushupCounter\<lparr> PushupCounter.state := PushupState.DOWN \<rparr>)
        (frame_of straight_pose) (Fin 1) (Fin 1) ''right'') = 1 \<and>
   PushupCounter.state
     (PushupCounter_update (new_PushupCounter\<lparr> PushupCounter.state := PushupState.DOWN \<rparr>)
        (frame_of straight_pose) (Fin 1) (Fin 1) ''right'') = PushupState.UP"
  using pushup_DOWN_transition
    [of "new_PushupCounter\<lparr> PushupCounter.state := PushupState.DOWN \<rparr>"
        "frame_of straight_pose" "Fin 1" "Fin 1" "''right''"]
  by (simp add: measure_straight Let_def new_PushupCounter_def nge_def)

section \<open>SquatCounter\<close>

lemma metrics_stand:
  "SquatCounter_computeMetrics this (frame_of stand_pose) (Fin 1) (Fin 1) ''right'' =
     \<lparr> SquatMetrics.kneeAngle = Fin 180, SquatMetrics.hipAngle = Fin 180,
       SquatMetrics.legsVisible = True,
       SquatMetrics.standing = nge (Fin 180) (SquatCounter.upThresh this),
       SquatMetrics.hipBelowKnee = False, SquatMetrics.kneeOverFootOK = True \<rparr>"
  by (simp add: SquatCounter_computeMetrics_def POSE_LANDMARKS_def frame_of_nth toPoint_def
      isVisible_def startsWith_r_def stand_pose_def calculateAngle2D_def eval_simps)

lemma metrics_deep:
  "SquatCounter_computeMetrics this (frame_of deep_pose) (Fin 1) (Fin 1) ''right'' =
     \<lparr> SquatMetrics.kneeAngle = Fin 0, SquatMetrics.hipAngle = Fin 180,
       SquatMetrics.legsVisible = True,
       SquatMetrics.standing = nge (Fin 0) (SquatCounter.upThresh this),
       SquatMetrics.hipBelowKnee = True, SquatMetrics.kneeOverFootOK = True \<rparr>"
  by (simp add: SquatCounter_computeMetrics_def POSE_LANDMARKS_def frame_of_nth toPoint_def
      isVisible_def startsWith_r_def deep_pose_def calculateAngle2D_def eval_simps)

lemmas squat_eval = SquatCounter_update_def SquatCounter_ema_def SquatCounter_transition_def
  SquatCounter_depthReached_def SquatCounter_warningFromMetrics_def eval_simps

lemma squat_run_1:
  "SquatCounter_update new_SquatCounter (frame_of stand_pose) (Fin 1) (Fin 1) ''right'' =
     new_SquatCounter\<lparr> SquatCounter.state := SquatState.UP,
       SquatCounter.kneeAngle := Fin 180, SquatCounter.hipAngle := Fin 180,
       SquatCounter.kneeEma := Fin 180, SquatCounter.hipEma := Fin 180,
       SquatCounter.formWarning := ''Go deeper'', SquatCounter.liveWarning := ''Go deeper'' \<rparr>"
  by (simp add: metrics_stand squat_eval new_SquatCounter_def)

lemma squat_run_2:
  "SquatCounter_update
     (SquatCounter_update new_SquatCounter (frame_of stand_pose) (Fin 1) (Fin 1) ''right'')
     (frame_of deep_pose) (Fin 1) (Fin 1) ''right'' =
     new_SquatCounter\<lparr> SquatCounter.state := SquatState.UP,
       SquatCounter.kneeAngle := Fin 117, SquatCounter.hipAngle := Fin 180,
       SquatCounter.kneeEma := Fin 117, SquatCounter.hipEma := Fin 180,
       SquatCounter.formWarning := ''Go deeper'', SquatCounter.liveWarning := ''Go deeper'' \<rparr>"
  unfolding squat_run_1 by (simp add: metrics_deep squat_eval new_SquatCounter_def)

lemma squat_run_3:
  "SquatCounter_update
     (SquatCounter_update
        (SquatCounter_update new_SquatCounter (frame_of stand_pose) (Fin 1) (Fin 1) ''right'')
        (frame_of deep_pose) (Fin 1) (Fin 1) ''right'')
     (frame_of deep_pose) (Fin 1) (Fin 1) ''right'' =
     new_SquatCounter\<lparr> SquatCounter.state := SquatState.DOWN,
       SquatCounter.kneeAngle := Fin (1521 / 20), SquatCounter.hipAngle := Fin 180,
       SquatCounter.kneeEma := Fin (1521 / 20), SquatCounter.hipEma := Fin 180,
       SquatCounter.visibilityQualified := True \<rparr>"
  unfolding squat_run_2 by (simp add: metrics_deep squat_eval new_SquatCounter_def)

lemma squat_run_3_updates:
  "SquatCounter_updates new_SquatCounter
     [squat_call stand_pose, squat_call deep_pose, squat_call deep_pose] =
   new_SquatCounter\<lparr> SquatCounter.state := SquatState.DOWN,
       SquatCounter.kneeAngle := Fin (1521 / 20), SquatCounter.hipAngle := Fin 180,
       SquatCounter.kneeEma := Fin (1521 / 20), SquatCounter.hipEma := Fin 180,
       SquatCounter.visibilityQualified := True \<rparr>"
  by (simp add: SquatCounter_updates_def squat_call_def squat_run_3)

text \<open>
  C3 at the failing input. After a standing frame and two deep frames the counter is
  in \<open>DOWN\<close> with a smoothed knee angle of 76.05. One standing frame (raw knee angle
  180) then counts a repetition, although the smoothed knee angle it leaves is only
  112.4325, below \<open>upThresh\<close> = 165: \<open>standing\<close> was computed in \<open>computeMetrics\<close>
  from the raw angle.
\<close>

theorem squat_standing_reads_raw_angle:
  "(let s3 = SquatCounter_updates new_SquatCounter
               [squat_call stand_pose, squat_call deep_pose, squat_call deep_pose];
        s4 = SquatCounter_update s3 (frame_of stand_pose) (Fin 1) (Fin 1) ''right''
    in SquatCounter.state s3 = SquatState.DOWN \<and> SquatCounter.count s3 = 0 \<and>
       SquatCounter.kneeEma s3 = Fin (1521 / 20) \<and>
       SquatCounter.kneeAngle s4 = Fin (44973 / 400) \<and>
       \<not> nge (SquatCounter.kneeAngle s4) (SquatCounter.upThresh s4) \<and>
       SquatCounter.state s4 = SquatState.UP \<and> SquatCounter.count s4 = 1)"
  unfolding squat_run_3_updates
  by (simp add: metrics_stand squat_eval new_SquatCounter_def)

section \<open>Frames with fewer than 33 landmarks\<close>

lemma squat_short_metrics:
  "length landmarks < 33 \<Longrightarrow>
   SquatCounter_computeMetrics this landmarks imageW imageH side =
     \<lparr> SquatMetrics.kneeAngle = SquatCounter.kneeAngle this,
       SquatMetrics.hipAngle = SquatCounter.hipAngle this,
       SquatMetrics.legsVisible = False, SquatMetrics.standing = False,
       SquatMetrics.hipBelowKnee = False, SquatMetrics.kneeOverFootOK = True \<rparr>"
  by (simp add: SquatCounter_computeMetrics_def)

text \<open>
  C4, as amended. A call of \<open>update\<close> with fewer than 33 landmarks leaves the push-up
  counter and the plank evaluator exactly as they were. The squat counter keeps its
  state and its count, but treats the call as a frame without visible legs: the
  qualification flag survives only in state \<open>UP\<close> (it is cleared in \<open>DOWN\<close>), and
  both warnings become "Keep legs in frame".
\<close>

theorem short_frame_effect:
  assumes "length landmarks < 33"
  shows "PushupCounter_update p landmarks imageW imageH side = p \<and>
         PlankEvaluator_update k now landmarks imageW imageH = k \<and>
         (let s' = SquatCounter_update s landmarks imageW imageH side
          in SquatCounter.state s' = SquatCounter.state s \<and>
             SquatCounter.count s' = SquatCounter.count s \<and>
             SquatCounter.visibilityQualified s' =
               (SquatCounter.state s = SquatState.UP \<and> SquatCounter.visibilityQualified s) \<and>
             SquatCounter.formWarning s' = ''Keep legs in frame'' \<and>
             SquatCounter.liveWarning s' = ''Keep legs in frame'')"
proof -
  have "PushupCounter_update p landmarks imageW imageH side = p"
    using assms by (simp add: PushupCounter_update_def)
  moreover have "PlankEvaluator_update k now landmarks imageW imageH = k"
    using assms by (simp add: PlankEvaluator_update_def)
  moreover have "(let s' = SquatCounter_update s landmarks imageW imageH side
          in SquatCounter.state s' = SquatCounter.state s \<and>
             SquatCounter.count s' = SquatCounter.count s \<and>
             SquatCounter.visibilityQualified s' =
               (SquatCounter.state s = SquatState.UP \<and> SquatCounter.visibilityQualified s) \<and>
             SquatCounter.formWarning s' = ''Keep legs in frame'' \<and>
             SquatCounter.liveWarning s' = ''Keep legs in frame'')"
    by (cases "SquatCounter.state s")
       (simp_all add: squat_short_metrics [OF assms] SquatCounter_update_def Let_def
          SquatCounter_transition_def SquatCounter_depthReached_def
          SquatCounter_warningFromMetrics_def)
  ultimately show ?thesis by simp
qed

theorem short_frame_effect_witness:
  "length ([] :: Landmark list) < 33 \<and>
   PushupCounter_update new_PushupCounter [] (Fin 640) (Fin 480) ''right'' = new_PushupCounter \<and>
   PlankEvaluator_update (new_PlankEvaluator 0 0) 5 [] (Fin 640) (Fin 480)
     = new_PlankEvaluator 0 0 \<and>
   SquatCounter.formWarning
     (SquatCounter_update new_SquatCounter [] (Fin 640) (Fin 480) ''right'')
     = ''Keep legs in frame''"
  using short_frame_effect [of "[]" new_PushupCounter "Fin 640" "Fin 480" "''right''"
      "new_PlankEvaluator 0 0" 5 new_SquatCounter]
  by (simp add: Let_def)

text \<open>
  C4 fails as stated for the squat counter: in the state reached by a standing frame
  and two deep frames, a call with an empty landmark list clears the qualification
  flag and sets a warning.
\<close>

theorem squat_short_frame_counterexample:
  "(let s3 = SquatCounter_updates new_SquatCounter
               [squat_call stand_pose, squat_call deep_pose, squat_call deep_pose];
        s4 = SquatCounter_update s3 [] (Fin 1) (Fin 1) ''right''
    in SquatCounter.visibilityQualified s3 \<and> SquatCounter.formWarning s3 = [] \<and>
       \<not> SquatCounter.visibilityQualified s4 \<and>
       SquatCounter.formWarning s4 = ''Keep legs in frame'' \<and> s4 \<noteq> s3)"
proof -
  define s3 where "s3 = SquatCounter_updates new_SquatCounter
               [squat_call stand_pose, squat_call deep_pose, squat_call deep_pose]"
  define s4 where "s4 = SquatCounter_update s3 [] (Fin 1) (Fin 1) ''right''"
  have a: "SquatCounter.visibilityQualified s3" "SquatCounter.formWarning s3 = []"
    "SquatCounter.state s3 = SquatState.DOWN"
    unfolding s3_def squat_run_3_updates by (simp_all add: new_SquatCounter_def)
  have b: "\<not> SquatCounter.visibilityQualified s4"
    "SquatCounter.formWarning s4 = ''Keep legs in frame''"
    unfolding s4_def using a(3)
    by (simp_all add: squat_short_metrics SquatCounter_update_def Let_def
          SquatCounter_transition_def SquatCounter_warningFromMetrics_def)
  have "s4 \<noteq> s3" using a(1) b(1) by auto
  thus ?thesis using a b unfolding s3_def s4_def by (simp add: Let_def)
qed

section \<open>The rep count\<close>

lemma pushup_count_mono:
  "PushupCounter.count this \<le>
   PushupCounter.count (PushupCounter_update this landmarks imageW imageH side)"
  by (cases "PushupCounter.state this")
     (simp_all add: PushupCounter_update_def PushupCounter_transition_def Let_def)

lemma squat_count_mono:
  "SquatCounter.count this \<le>
   SquatCounter.count (SquatCounter_update this landmarks imageW imageH side)"
  by (cases "SquatCounter.state this")
     (simp_all add: SquatCounter_update_def SquatCounter_transition_def Let_def)

lemma pushup_updates_mono:
  "PushupCounter.count this \<le> PushupCounter.count (PushupCounter_updates this calls)"
proof (induction calls arbitrary: this)
  case Nil
  then show ?case by (simp add: PushupCounter_updates_def)
next
  case (Cons c calls)
  obtain l w h sd where c: "c = (l, w, h, sd)" by (cases c) auto
  have "PushupCounter.count this \<le> PushupCounter.count (PushupCounter_update this l w h sd)"
    by (rule pushup_count_mono)
  also have "\<dots> \<le> PushupCounter.count
      (PushupCounter_updates (PushupCounter_update this l w h sd) calls)"
    by (rule Cons.IH)
  finally show ?case by (simp add: PushupCounter_updates_def c)
qed

lemma squat_updates_mono:
  "SquatCounter.count this \<le> SquatCounter.count (SquatCounter_updates this calls)"
proof (induction calls arbitrary: this)
  case Nil
  then show ?case by (simp add: SquatCounter_updates_def)
next
  case (Cons c calls)
  obtain l w h sd where c: "c = (l, w, h, sd)" by (cases c) auto
  have "SquatCounter.count this \<le> SquatCounter.count (SquatCounter_update this l w h sd)"
    by (rule squat_count_mono)
  also have "\<dots> \<le> SquatCounter.count
      (SquatCounter_updates (SquatCounter_update this l w h sd) calls)"
    by (rule Cons.IH)
  finally show ?case by (simp add: SquatCounter_updates_def c)
qed

text \<open>
  C2. After \<open>reset\<close> each evaluator reports the count 0, and a sequence of \<open>update\<close>
  calls never lowers it: the count after any further calls is at least the count
  before them. The plank evaluator has no counter and always reports 0.
\<close>

theorem count_reset_and_monotone:
  "PushupCounter_getCount (PushupCounter_reset p) = 0 \<and>
   SquatCounter_getCount (SquatCounter_reset s) = 0 \<and>
   PlankEvaluator_getCount (PlankEvaluator_reset k t0 t1) = 0 \<and>
   PushupCounter_getCount (PushupCounter_updates p cs)
     \<le> PushupCounter_getCount (PushupCounter_updates p (cs @ ds)) \<and>
   SquatCounter_getCount (SquatCounter_updates s cs)
     \<le> SquatCounter_getCount (SquatCounter_updates s (cs @ ds)) \<and>
   PlankEvaluator_getCount (PlankEvaluator_updates k ks)
     \<le> PlankEvaluator_getCount (PlankEvaluator_updates k (ks @ ls))"
proof -
  have "PushupCounter_updates p (cs @ ds) = PushupCounter_updates (PushupCounter_updates p cs) ds"
    by (simp add: PushupCounter_updates_def)
  moreover have
    "SquatCounter_updates s (cs @ ds) = SquatCounter_updates (SquatCounter_updates s cs) ds"
    by (simp add: SquatCounter_updates_def)
  ultimately show ?thesis
    using pushup_updates_mono [of "PushupCounter_updates p cs" ds]
      squat_updates_mono [of "SquatCounter_updates s cs" ds]
    by (simp add: PushupCounter_getCount_def SquatCounter_getCount_def
        PlankEvaluator_getCount_def PushupCounter_reset_def SquatCounter_reset_def)
qed

section \<open>PlankEvaluator: score and hold state machine\<close>

lemma pt_simps [simp]: "x (pt a b) = Fin a" "y (pt a b) = Fin b" "z (pt a b) = Fin 0"
  "vis (pt a b) = NaN"
  by (simp_all add: pt_def)

lemma shows_poseD:
  assumes "shows_pose landmarks imageW imageH f" "i < 33"
  shows "toPoint (landmarks ! i) imageW imageH = pt (fst (f i)) (snd (f i))"
  using assms by (auto simp: shows_pose_def list_all_iff)

lemma shows_pose_length: "shows_pose landmarks imageW imageH f \<Longrightarrow> length landmarks = 33"
  by (simp add: shows_pose_def)

lemma shows_pose_frame_of:
  assumes "\<And>i. \<bar>fst (f i)\<bar> \<le> 1000 \<and> \<bar>snd (f i)\<bar> \<le> 1000"
  shows "shows_pose (frame_of f) (Fin 1) (Fin 1) f"
proof -
  have "toPoint (frame_of f ! i) (Fin 1) (Fin 1) = pt (fst (f i)) (snd (f i))" if "i < 33" for i
  proof -
    have "\<bar>fst (f i)\<bar> \<le> 1000000" "\<bar>snd (f i)\<bar> \<le> 1000000" using assms [of i] by auto
    thus ?thesis using that by (simp add: frame_of_nth toPoint_def pt_def ovf_small)
  qed
  thus ?thesis by (simp add: shows_pose_def list_all_iff)
qed

lemma shows_pose_pixel_frame:
  assumes "\<And>i. \<bar>fst (f i)\<bar> \<le> 1000 \<and> \<bar>snd (f i)\<bar> \<le> 1000"
  shows "shows_pose (pixel_frame f) (Fin 640) (Fin 480) f"
proof -
  have "toPoint (pixel_frame f ! i) (Fin 640) (Fin 480) = pt (fst (f i)) (snd (f i))"
    if "i < 33" for i
  proof -
    have "\<bar>fst (f i)\<bar> \<le> 1000000" "\<bar>snd (f i)\<bar> \<le> 1000000" using assms [of i] by auto
    thus ?thesis using that by (simp add: pixel_frame_def toPoint_def pt_def ovf_small)
  qed
  thus ?thesis by (simp add: shows_pose_def list_all_iff pixel_frame_def)
qed

lemma pose_bounded:
  "\<bar>fst (plank_pose i)\<bar> \<le> 1000 \<and> \<bar>snd (plank_pose i)\<bar> \<le> 1000"
  "\<bar>fst (pike_pose i)\<bar> \<le> 1000 \<and> \<bar>snd (pike_pose i)\<bar> \<le> 1000"
  "\<bar>fst (straight_pose i)\<bar> \<le> 1000 \<and> \<bar>snd (straight_pose i)\<bar> \<le> 1000"
  "\<bar>fst (bent_pose i)\<bar> \<le> 1000 \<and> \<bar>snd (bent_pose i)\<bar> \<le> 1000"
  by (simp_all add: plank_pose_def pike_pose_def straight_pose_def bent_pose_def)

lemma avg_pt:
  "\<bar>a + c\<bar> \<le> 1000000 \<Longrightarrow> \<bar>b + d\<bar> \<le> 1000000 \<Longrightarrow>
   avg (pt a b) (pt c d) = pt ((a + c) / 2) ((b + d) / 2)"
  by (simp add: avg_def pt_def ovf_small)

lemma plank_pose_raw:
  "angle3 (pt 0 (1 / 2)) (pt 1 (1 / 2)) (pt 2 (1 / 2)) = Fin 180"
  "angle3 (pt (- 1) (1 / 2)) (pt 0 (1 / 2)) (pt 1 (1 / 2)) = Fin 180"
  "verticalMisalignDeg (pt 0 0) (pt 0 1) = NaN"
  "verticalMisalignDeg (pt 1 0) (pt 1 1) = NaN"
  "classifyPlank s (pt 0 0) (pt 0 1) (pt 0 0) (pt 0 1) (pt 0 0) (pt 0 1) = UNKNOWN"
  "horizDist (pt 0 0) (pt 0 0) = Fin 0"
  "horizDist (pt 0 1) (pt 0 1) = Fin 0"
  "hypot (Fin (- 1)) (Fin 0) = Fin 1"
  "hypot (Fin 0) (Fin (- 1)) = Fin 1"
  by (simp_all add: angle3_def verticalMisalignDeg_def classifyPlank_def
      classify_elbowAngle_def horizDist_def isVisible_def eval_simps)


lemma ema_settle:
  assumes "emaAlpha s = Fin (35 / 100)" "prev = NaN \<or> prev = Fin v" "\<bar>v\<bar> \<le> 1000"
  shows "PlankEvaluator_ema s prev (Fin v) = Fin v"
proof -
  have e: "35 * v / 100 + 65 * v / 100 = v" by simp
  have "\<bar>35 * v / 100\<bar> \<le> 1000000" "\<bar>65 * v / 100\<bar> \<le> 1000000" using assms(3) by auto
  thus ?thesis using assms e by (auto simp: PlankEvaluator_ema_def nsub_def ovf_small)
qed

lemma ema_NaN [simp]: "PlankEvaluator_ema s prev NaN = NaN"
  by (simp add: PlankEvaluator_ema_def)

lemma plank_pose_signals:
  assumes "settled this"
  defines "s \<equiv> PlankEvaluator_signals this (pt 0 0) (pt 0 1) (pt 0 0) (pt 0 1) (pt 0 0) (pt 0 1)
                 (pt 1 0) (pt 1 1) (pt 2 0) (pt 2 1) (pt (- 1) 0) (pt (- 1) 1)"
  shows "hipAngSmooth s = Fin 180" "headAngSmooth s = Fin 180" "stackShSmooth s = NaN"
    "stackHipSmooth s = NaN" "underSmooth s = Fin 0" "feetWSmooth s = Fin 1"
proof -
  have d: "emaAlpha this = Fin (35 / 100)"
    "hipAngSmooth this = NaN \<or> hipAngSmooth this = Fin 180"
    "headAngSmooth this = NaN \<or> headAngSmooth this = Fin 180"
    "underSmooth this = NaN \<or> underSmooth this = Fin 0"
    "feetWSmooth this = NaN \<or> feetWSmooth this = Fin 1"
    using assms(1) by (simp_all add: settled_def PlankEvaluator_defaults_def)
  show "hipAngSmooth s = Fin 180"
    using d by (simp add: s_def PlankEvaluator_signals_def Let_def ema_settle
        avg_pt plank_pose_raw)
  show "headAngSmooth s = Fin 180"
    using d by (simp add: s_def PlankEvaluator_signals_def Let_def ema_settle
        avg_pt plank_pose_raw)
  show "stackShSmooth s = NaN"
    by (simp add: s_def PlankEvaluator_signals_def Let_def plank_pose_raw)
  show "stackHipSmooth s = NaN"
    by (simp add: s_def PlankEvaluator_signals_def Let_def plank_pose_raw)
  show "underSmooth s = Fin 0"
    using d by (simp add: s_def PlankEvaluator_signals_def Let_def ema_settle
        avg_pt plank_pose_raw nsub_def ovf_small)
  show "feetWSmooth s = Fin 1"
    using d by (simp add: s_def PlankEvaluator_signals_def Let_def ema_settle
        avg_pt plank_pose_raw nsub_def ovf_small)
qed


lemma unit_scoreE:
  assumes "unit_score n" obtains r where "n = Fin r" "0 \<le> r" "r \<le> 1"
  using assms by (cases n) auto

lemma hip_unit:
  assumes "PlankEvaluator_defaults this"
  shows "unit_score (snd (hip_assessment this))"
  using assms overflow_bound_gt_million
  by (cases "hipAngSmooth this")
     (auto simp: hip_assessment_def PlankEvaluator_defaults_def Let_def nsub_def ngt_def
        ovf_def nmax_def field_simps)

lemma head_unit:
  assumes "PlankEvaluator_defaults this"
  shows "unit_score (snd (head_assessment this))"
  using assms overflow_bound_gt_million
  by (cases "headAngSmooth this")
     (auto simp: head_assessment_def PlankEvaluator_defaults_def Let_def nsub_def ngt_def
        ovf_def nmax_def field_simps)

lemma stack_unit:
  assumes "PlankEvaluator_defaults this"
  shows "unit_score (snd (stack_assessment this))"
  using assms overflow_bound_gt_million
  by (cases "stackShSmooth this"; cases "stackHipSmooth this")
     (auto simp: stack_assessment_def PlankEvaluator_defaults_def Let_def nsub_def ngt_def
        ovf_def nmax_def field_simps)

lemma under_unit:
  assumes "PlankEvaluator_defaults this"
  shows "unit_score (snd (under_assessment this))"
  using assms overflow_bound_gt_million
  by (cases "underSmooth this")
     (auto simp: under_assessment_def PlankEvaluator_defaults_def Let_def nsub_def ngt_def
        ovf_def nmax_def field_simps)

lemma feet_unit:
  assumes "PlankEvaluator_defaults this"
  shows "unit_score (snd (feet_assessment this))"
  using assms overflow_bound_gt_million
  by (cases "feetWSmooth this")
     (auto simp: feet_assessment_def PlankEvaluator_defaults_def Let_def nsub_def ngt_def
        ovf_def nmax_def field_simps)

lemma overall_explicit:
  assumes "PlankEvaluator_defaults this" "unit_score (hipScore this)"
    "unit_score (headScore this)" "unit_score (stackScore this)"
    "unit_score (underScore this)" "unit_score (feetScore this)"
  shows "\<exists>a b c d e.
           hipScore this = Fin a \<and> headScore this = Fin b \<and> stackScore this = Fin c \<and>
           underScore this = Fin d \<and> feetScore this = Fin e \<and>
           0 \<le> a \<and> a \<le> 1 \<and> 0 \<le> b \<and> b \<le> 1 \<and> 0 \<le> c \<and> c \<le> 1 \<and>
           0 \<le> d \<and> d \<le> 1 \<and> 0 \<le> e \<and> e \<le> 1 \<and>
           PlankEvaluator_overall this =
             Fin ((35 / 100 * a + 15 / 100 * b + 15 / 100 * c + 2 / 10 * d + 15 / 100 * e)
                  * 100)"
proof -
  obtain a where a: "hipScore this = Fin a" "0 \<le> a" "a \<le> 1"
    using assms(2) by (rule unit_scoreE)
  obtain b where b: "headScore this = Fin b" "0 \<le> b" "b \<le> 1"
    using assms(3) by (rule unit_scoreE)
  obtain c where c: "stackScore this = Fin c" "0 \<le> c" "c \<le> 1"
    using assms(4) by (rule unit_scoreE)
  obtain d where d: "underScore this = Fin d" "0 \<le> d" "d \<le> 1"
    using assms(5) by (rule unit_scoreE)
  obtain e where e: "feetScore this = Fin e" "0 \<le> e" "e \<le> 1"
    using assms(6) by (rule unit_scoreE)
  have "PlankEvaluator_overall this =
          Fin ((35 / 100 * a + 15 / 100 * b + 15 / 100 * c + 2 / 10 * d + 15 / 100 * e) * 100)"
    using assms(1) a b c d e
    by (simp add: PlankEvaluator_overall_def PlankEvaluator_defaults_def weight_or_def
        num_or_def ovf_small)
  with a b c d e show ?thesis by blast
qed

lemma overall_bounds:
  assumes "PlankEvaluator_defaults this" "unit_score (hipScore this)"
    "unit_score (headScore this)" "unit_score (stackScore this)"
    "unit_score (underScore this)" "unit_score (feetScore this)"
  shows "\<exists>r. PlankEvaluator_overall this = Fin r \<and> 0 \<le> r \<and> r \<le> 100"
proof -
  from overall_explicit [OF assms] obtain a b c d e where
    s: "0 \<le> a" "a \<le> 1" "0 \<le> b" "b \<le> 1" "0 \<le> c" "c \<le> 1" "0 \<le> d" "d \<le> 1"
      "0 \<le> e" "e \<le> 1"
      "PlankEvaluator_overall this =
         Fin ((35 / 100 * a + 15 / 100 * b + 15 / 100 * c + 2 / 10 * d + 15 / 100 * e) * 100)"
    by blast
  thus ?thesis by simp
qed

lemma overall_full:
  assumes "PlankEvaluator_defaults this" "hipScore this = Fin 1" "headScore this = Fin 1"
    "stackScore this = Fin 1" "underScore this = Fin 1" "feetScore this = Fin 1"
  shows "PlankEvaluator_overall this = Fin 100"
  using assms
  by (simp add: PlankEvaluator_overall_def PlankEvaluator_defaults_def weight_or_def
      num_or_def ovf_small)

lemma signals_keeps:
  fixes this a b c d e f g h i j k l
  defines "s \<equiv> PlankEvaluator_signals this a b c d e f g h i j k l"
  shows "PlankEvaluator_defaults s = PlankEvaluator_defaults this"
    "state s = state this" "stateStartTime s = stateStartTime this"
    "holdStartTime s = holdStartTime this" "lastUpdateTime s = lastUpdateTime this"
    "bestHold s = bestHold this" "readySeconds s = readySeconds this"
    "minVisibility s = minVisibility this"
  by (simp_all add: s_def PlankEvaluator_signals_def PlankEvaluator_defaults_def Let_def)

lemma assess_keeps:
  "PlankEvaluator_defaults (PlankEvaluator_assess this) = PlankEvaluator_defaults this"
  "state (PlankEvaluator_assess this) = state this"
  "stateStartTime (PlankEvaluator_assess this) = stateStartTime this"
  "holdStartTime (PlankEvaluator_assess this) = holdStartTime this"
  "lastUpdateTime (PlankEvaluator_assess this) = lastUpdateTime this"
  "bestHold (PlankEvaluator_assess this) = bestHold this"
  "readySeconds (PlankEvaluator_assess this) = readySeconds this"
  "minVisibility (PlankEvaluator_assess this) = minVisibility this"
  "hipAngSmooth (PlankEvaluator_assess this) = hipAngSmooth this"
  "headAngSmooth (PlankEvaluator_assess this) = headAngSmooth this"
  "stackShSmooth (PlankEvaluator_assess this) = stackShSmooth this"
  "stackHipSmooth (PlankEvaluator_assess this) = stackHipSmooth this"
  "underSmooth (PlankEvaluator_assess this) = underSmooth this"
  "feetWSmooth (PlankEvaluator_assess this) = feetWSmooth this"
  by (simp_all add: PlankEvaluator_assess_def Let_def split_def PlankEvaluator_defaults_def)

lemma assess_scores:
  "hipScore (PlankEvaluator_assess this) = snd (hip_assessment this)"
  "headScore (PlankEvaluator_assess this) = snd (head_assessment this)"
  "stackScore (PlankEvaluator_assess this) = snd (stack_assessment this)"
  "underScore (PlankEvaluator_assess this) = snd (under_assessment this)"
  "feetScore (PlankEvaluator_assess this) = snd (feet_assessment this)"
  "overallScore (PlankEvaluator_assess this) = PlankEvaluator_overall (PlankEvaluator_assess this)"
  by (simp_all add: PlankEvaluator_assess_def Let_def split_def head_assessment_def
      stack_assessment_def under_assessment_def feet_assessment_def
      PlankEvaluator_overall_def weight_or_def)

lemma assess_overall_bounds:
  assumes "PlankEvaluator_defaults this"
  shows "\<exists>r. overallScore (PlankEvaluator_assess this) = Fin r \<and> 0 \<le> r \<and> r \<le> 100"
  unfolding assess_scores(6)
  by (rule overall_bounds)
     (simp_all add: assess_keeps assess_scores assms hip_unit head_unit stack_unit under_unit
        feet_unit)


lemma evaluate_keeps:
  fixes this landmarks imageW imageH
  defines "e \<equiv> PlankEvaluator_evaluate this landmarks imageW imageH"
  shows "PlankEvaluator_defaults e = PlankEvaluator_defaults this"
    "state e = state this" "stateStartTime e = stateStartTime this"
    "holdStartTime e = holdStartTime this" "lastUpdateTime e = lastUpdateTime this"
    "bestHold e = bestHold this" "readySeconds e = readySeconds this"
    "minVisibility e = minVisibility this"
  by (simp_all add: e_def PlankEvaluator_evaluate_def assess_keeps signals_keeps)

lemma update_processed:
  assumes "33 \<le> length landmarks" "criticalPointsVisible this landmarks imageW imageH"
  shows "PlankEvaluator_update this now landmarks imageW imageH =
           PlankEvaluator_holdTimes
             (PlankEvaluator_transition (PlankEvaluator_evaluate this landmarks imageW imageH)
                now (frame_stable this landmarks imageW imageH)) now"
  using assms by (simp add: PlankEvaluator_update_def frame_stable_def Let_def)

lemma after_fsm_scores:
  fixes e now b
  defines "u \<equiv> PlankEvaluator_holdTimes (PlankEvaluator_transition e now b) now"
  shows "overallScore u = overallScore e" "hipScore u = hipScore e"
    "headScore u = headScore e" "stackScore u = stackScore e" "underScore u = underScore e"
    "feetScore u = feetScore e" "PlankEvaluator_overall u = PlankEvaluator_overall e"
    "PlankEvaluator_defaults u = PlankEvaluator_defaults e"
    "hipAngSmooth u = hipAngSmooth e" "headAngSmooth u = headAngSmooth e"
    "stackShSmooth u = stackShSmooth e" "stackHipSmooth u = stackHipSmooth e"
    "underSmooth u = underSmooth e" "feetWSmooth u = feetWSmooth e"
  by (cases "state e";
      simp add: u_def PlankEvaluator_holdTimes_def PlankEvaluator_transition_def Let_def
        PlankEvaluator_overall_def weight_or_def PlankEvaluator_defaults_def)+

lemma update_hidden_fields:
  fixes now
  assumes "33 \<le> length landmarks" "\<not> criticalPointsVisible this landmarks imageW imageH"
  defines "u \<equiv> PlankEvaluator_update this now landmarks imageW imageH"
  shows "overallScore u = Fin 0" "state u = NOT_READY"
    "holdStartTime u = (if state this = NOT_READY then holdStartTime this else None)"
    "stateStartTime u = (if state this = NOT_READY then stateStartTime this else now)"
    "bestHold u = bestHold this" "PlankEvaluator_defaults u = PlankEvaluator_defaults this"
    "hipAngSmooth u = hipAngSmooth this" "headAngSmooth u = headAngSmooth this"
    "underSmooth u = underSmooth this" "feetWSmooth u = feetWSmooth this"
  using assms(1,2)
  by (simp_all add: u_def PlankEvaluator_update_def Let_def PlankEvaluator_defaults_def)

text \<open>
  C8. With the default configuration, the overall score that \<open>update\<close> stores for a
  frame of at least 33 landmarks is a finite number between 0 and 100, whatever the
  landmarks. When the frame fails the visibility gate it is 0. When it passes, the
  five stored sub-scores are finite numbers between 0 and 1 and the overall score is
  their weighted sum, with the weights 0.35 (hip), 0.15 (head), 0.15 (stack), 0.20
  (under) and 0.15 (feet), times 100; it is exactly 100 when the five sub-scores are 1.
\<close>

theorem plank_overallScore_bounds:
  assumes "PlankEvaluator_defaults this" "33 \<le> length landmarks"
  shows "(let this' = PlankEvaluator_update this now landmarks imageW imageH
          in (\<exists>r. overallScore this' = Fin r \<and> 0 \<le> r \<and> r \<le> 100) \<and>
             (\<not> criticalPointsVisible this landmarks imageW imageH \<longrightarrow>
                overallScore this' = Fin 0) \<and>
             (criticalPointsVisible this landmarks imageW imageH \<longrightarrow>
                overallScore this' = PlankEvaluator_overall this' \<and>
                (\<exists>a b c d e.
                   hipScore this' = Fin a \<and> headScore this' = Fin b \<and>
                   stackScore this' = Fin c \<and> underScore this' = Fin d \<and>
                   feetScore this' = Fin e \<and>
                   0 \<le> a \<and> a \<le> 1 \<and> 0 \<le> b \<and> b \<le> 1 \<and> 0 \<le> c \<and> c \<le> 1 \<and>
                   0 \<le> d \<and> d \<le> 1 \<and> 0 \<le> e \<and> e \<le> 1 \<and>
                   overallScore this' =
                     Fin ((35 / 100 * a + 15 / 100 * b + 15 / 100 * c + 2 / 10 * d +
                           15 / 100 * e) * 100)) \<and>
                (hipScore this' = Fin 1 \<and> headScore this' = Fin 1 \<and>
                 stackScore this' = Fin 1 \<and> underScore this' = Fin 1 \<and>
                 feetScore this' = Fin 1 \<longrightarrow> overallScore this' = Fin 100)))"
proof (cases "criticalPointsVisible this landmarks imageW imageH")
  case False
  then show ?thesis using assms(2) by (simp add: update_hidden_fields(1))
next
  case True
  define s where "s = PlankEvaluator_signals this
          (toPoint (landmarks ! LEFT_SHOULDER POSE_LANDMARKS) imageW imageH)
          (toPoint (landmarks ! RIGHT_SHOULDER POSE_LANDMARKS) imageW imageH)
          (toPoint (landmarks ! LEFT_ELBOW POSE_LANDMARKS) imageW imageH)
          (toPoint (landmarks ! RIGHT_ELBOW POSE_LANDMARKS) imageW imageH)
          (toPoint (landmarks ! LEFT_WRIST POSE_LANDMARKS) imageW imageH)
          (toPoint (landmarks ! RIGHT_WRIST POSE_LANDMARKS) imageW imageH)
          (toPoint (landmarks ! LEFT_HIP POSE_LANDMARKS) imageW imageH)
          (toPoint (landmarks ! RIGHT_HIP POSE_LANDMARKS) imageW imageH)
          (toPoint (landmarks ! LEFT_ANKLE POSE_LANDMARKS) imageW imageH)
          (toPoint (landmarks ! RIGHT_ANKLE POSE_LANDMARKS) imageW imageH)
          (toPoint (landmarks ! 7) imageW imageH)
          (toPoint (landmarks ! 8) imageW imageH)"
  define e where "e = PlankEvaluator_evaluate this landmarks imageW imageH"
  define u where "u = PlankEvaluator_update this now landmarks imageW imageH"
  have e: "e = PlankEvaluator_assess s"
    unfolding e_def s_def by (rule PlankEvaluator_evaluate_def)
  have ds: "PlankEvaluator_defaults s"
    unfolding s_def signals_keeps by (rule assms(1))
  have u: "u = PlankEvaluator_holdTimes
             (PlankEvaluator_transition e now (frame_stable this landmarks imageW imageH)) now"
    unfolding u_def e_def by (rule update_processed [OF assms(2) True])
  have d: "PlankEvaluator_defaults u"
    unfolding u after_fsm_scores e_def evaluate_keeps by (rule assms(1))
  have o: "overallScore u = PlankEvaluator_overall u"
    unfolding u after_fsm_scores e by (rule assess_scores(6))
  have us: "unit_score (hipScore u)" "unit_score (headScore u)" "unit_score (stackScore u)"
    "unit_score (underScore u)" "unit_score (feetScore u)"
    unfolding u after_fsm_scores e assess_scores
    by (rule hip_unit head_unit stack_unit under_unit feet_unit, rule ds)+
  note x = overall_explicit [OF d us, folded o]
  note b = overall_bounds [OF d us, folded o]
  have "hipScore u = Fin 1 \<and> headScore u = Fin 1 \<and> stackScore u = Fin 1 \<and>
        underScore u = Fin 1 \<and> feetScore u = Fin 1 \<longrightarrow> overallScore u = Fin 100"
    using overall_full [OF d] o by simp
  thus ?thesis using b o x True unfolding u_def Let_def by blast
qed


lemma nmax_keeps_nonneg:
  "nle (Fin 0) b \<Longrightarrow> \<not> isNaN h \<Longrightarrow> nle (Fin 0) (nmax b h)"
  by (cases b; cases h) (auto simp: nmax_def)

lemma nmax_zero: "nle (Fin 0) b \<Longrightarrow> nmax b (Fin 0) = b"
  by (cases b) (auto simp: nmax_def)

lemma seconds_not_NaN: "\<not> isNaN (ndiv (nsub (ms a) (ms b)) (Fin 1000))"
  by (simp add: ms_def nsub_def ovf_def)

lemma holdTimes_inv:
  assumes "state t = HOLDING \<or> holdStartTime t = None" "nle (Fin 0) (bestHold t)"
  shows "plank_inv (PlankEvaluator_holdTimes t now)"
proof -
  have "\<not> isNaN (case holdStartTime t of None \<Rightarrow> Fin 0
          | Some t' \<Rightarrow> if t' = 0 then Fin 0 else ndiv (nsub (ms now) (ms t')) (Fin 1000))"
    using seconds_not_NaN by (simp split: option.split)
  hence "nle (Fin 0) (bestHold (PlankEvaluator_holdTimes t now))"
    using assms(2) by (simp add: PlankEvaluator_holdTimes_def Let_def nmax_keeps_nonneg)
  thus ?thesis using assms(1) by (simp add: plank_inv_def PlankEvaluator_holdTimes_def Let_def)
qed

lemma holdTimes_fields:
  "state (PlankEvaluator_holdTimes t now) = state t"
  "stateStartTime (PlankEvaluator_holdTimes t now) = stateStartTime t"
  "holdStartTime (PlankEvaluator_holdTimes t now) = holdStartTime t"
  "holdStartTime t = None \<Longrightarrow> nle (Fin 0) (bestHold t) \<Longrightarrow>
     bestHold (PlankEvaluator_holdTimes t now) = bestHold t"
  by (simp_all add: PlankEvaluator_holdTimes_def Let_def nmax_zero)

lemma transition_cases:
  fixes e now b
  defines "t \<equiv> PlankEvaluator_transition e now b"
  shows "bestHold t = bestHold e"
    "state e = NOT_READY \<Longrightarrow> state t = (if b then READY else NOT_READY) \<and>
       stateStartTime t = (if b then now else stateStartTime e) \<and>
       holdStartTime t = holdStartTime e"
    "state e = READY \<Longrightarrow>
       state t = (if \<not> b then NOT_READY
                  else if nge (elapsed_in_state e now) (readySeconds e) then HOLDING else READY) \<and>
       stateStartTime t = (if \<not> b then now else stateStartTime e) \<and>
       holdStartTime t = (if b \<and> nge (elapsed_in_state e now) (readySeconds e) then Some now
                          else holdStartTime e)"
    "state e = HOLDING \<Longrightarrow> state t = (if b then HOLDING else NOT_READY) \<and>
       stateStartTime t = (if b then stateStartTime e else now) \<and>
       holdStartTime t = (if b then holdStartTime e else None)"
  by (cases "state e";
      simp add: t_def PlankEvaluator_transition_def Let_def elapsed_in_state_def)+


lemma plank_step_props:
  assumes inv: "plank_inv this"
    and u: "u = PlankEvaluator_update this now landmarks imageW imageH"
    and st: "stab = frame_stable this landmarks imageW imageH"
    and fl: "whole = (33 \<le> length landmarks)"
  shows "plank_inv u \<and>
     (state this = NOT_READY \<longrightarrow>
        state u \<noteq> HOLDING \<and> (state u = READY \<longleftrightarrow> whole \<and> stab) \<and>
        (state u = READY \<longrightarrow> stateStartTime u = now)) \<and>
     (state this = READY \<longrightarrow>
        (state u = HOLDING \<longleftrightarrow>
           whole \<and> stab \<and> nge (elapsed_in_state this now) (readySeconds this)) \<and>
        (state u = READY \<longrightarrow> stateStartTime u = stateStartTime this) \<and>
        (state u = HOLDING \<longrightarrow> holdStartTime u = Some now)) \<and>
     (state this \<noteq> NOT_READY \<and> whole \<and> \<not> stab \<longrightarrow>
        state u = NOT_READY \<and> holdStartTime u = None \<and> bestHold u = bestHold this) \<and>
     (state this = HOLDING \<and> (\<not> whole \<or> stab) \<longrightarrow> state u = HOLDING)"
proof -
  have i: "state this = HOLDING \<or> holdStartTime this = None" "nle (Fin 0) (bestHold this)"
    using inv by (simp_all add: plank_inv_def)
  consider (short) "length landmarks < 33"
    | (hidden) "33 \<le> length landmarks" "\<not> criticalPointsVisible this landmarks imageW imageH"
    | (processed) "33 \<le> length landmarks" "criticalPointsVisible this landmarks imageW imageH"
    by linarith
  then show ?thesis
  proof cases
    case short
    hence "u = this" "\<not> whole" unfolding u fl by (simp_all add: PlankEvaluator_update_def)
    then show ?thesis using inv by simp
  next
    case hidden
    have s: "\<not> stab" "whole" unfolding st fl using hidden by (simp_all add: frame_stable_def)
    note h = update_hidden_fields [OF hidden, of now, folded u]
    have "plank_inv u" using i by (auto simp: plank_inv_def h)
    then show ?thesis using s i by (auto simp: h)
  next
    case processed
    define e where "e = PlankEvaluator_evaluate this landmarks imageW imageH"
    define t where "t = PlankEvaluator_transition e now stab"
    have ue: "u = PlankEvaluator_holdTimes t now"
      unfolding u t_def e_def st by (rule update_processed [OF processed])
    have k: "state e = state this" "stateStartTime e = stateStartTime this"
      "holdStartTime e = holdStartTime this" "bestHold e = bestHold this"
      "readySeconds e = readySeconds this"
      unfolding e_def by (simp_all add: evaluate_keeps)
    have el: "elapsed_in_state e now = elapsed_in_state this now"
      by (simp add: elapsed_in_state_def k)
    have f: "whole" unfolding fl using processed by simp
    note tc = transition_cases [of e now stab, folded t_def, unfolded k el]
    show ?thesis
    proof (cases "state this")
      case NOT_READY
      with tc(2) i have t: "state t = (if stab then READY else NOT_READY)"
        "stateStartTime t = (if stab then now else stateStartTime this)"
        "holdStartTime t = None" by auto
      have "plank_inv u" unfolding ue
        by (rule holdTimes_inv) (simp_all add: t tc(1) i)
      then show ?thesis using NOT_READY f by (simp add: ue holdTimes_fields t)
    next
      case READY
      with i have n: "holdStartTime this = None" by simp
      from tc(3) READY n have t:
        "state t = (if \<not> stab then NOT_READY
                    else if nge (elapsed_in_state this now) (readySeconds this) then HOLDING
                    else READY)"
        "stateStartTime t = (if \<not> stab then now else stateStartTime this)"
        "holdStartTime t = (if stab \<and> nge (elapsed_in_state this now) (readySeconds this)
                            then Some now else None)" by auto
      have "plank_inv u" unfolding ue
        by (rule holdTimes_inv) (auto simp: t tc(1) i)
      moreover have "\<not> stab \<Longrightarrow> bestHold u = bestHold this"
        unfolding ue by (subst holdTimes_fields(4)) (simp_all add: t tc(1) i)
      ultimately show ?thesis using READY f by (auto simp: ue holdTimes_fields t)
    next
      case HOLDING
      from tc(4) HOLDING have t:
        "state t = (if stab then HOLDING else NOT_READY)"
        "holdStartTime t = (if stab then holdStartTime this else None)" by auto
      have "plank_inv u" unfolding ue
        by (rule holdTimes_inv) (auto simp: t tc(1) i)
      moreover have "\<not> stab \<Longrightarrow> bestHold u = bestHold this"
        unfolding ue by (subst holdTimes_fields(4)) (simp_all add: t tc(1) i)
      ultimately show ?thesis using HOLDING f by (auto simp: ue holdTimes_fields t)
    qed
  qed
qed


lemma pose_visible:
  assumes "shows_pose landmarks imageW imageH f"
  shows "criticalPointsVisible this landmarks imageW imageH"
    "stableCoreVisible this landmarks imageW imageH"
  by (simp_all add: criticalPointsVisible_def stableCoreVisible_def Let_def POSE_LANDMARKS_def
      shows_poseD [OF assms] isVisible_def)

lemma evaluate_pose:
  assumes "shows_pose landmarks imageW imageH f"
  shows "PlankEvaluator_evaluate this landmarks imageW imageH =
     PlankEvaluator_assess
       (PlankEvaluator_signals this
          (pt (fst (f 11)) (snd (f 11))) (pt (fst (f 12)) (snd (f 12)))
          (pt (fst (f 13)) (snd (f 13))) (pt (fst (f 14)) (snd (f 14)))
          (pt (fst (f 15)) (snd (f 15))) (pt (fst (f 16)) (snd (f 16)))
          (pt (fst (f 23)) (snd (f 23))) (pt (fst (f 24)) (snd (f 24)))
          (pt (fst (f 27)) (snd (f 27))) (pt (fst (f 28)) (snd (f 28)))
          (pt (fst (f 7)) (snd (f 7))) (pt (fst (f 8)) (snd (f 8))))"
  by (simp add: PlankEvaluator_evaluate_def POSE_LANDMARKS_def shows_poseD [OF assms])

lemma evaluate_plank_pose:
  assumes "shows_pose landmarks imageW imageH plank_pose" "settled this"
  defines "e \<equiv> PlankEvaluator_evaluate this landmarks imageW imageH"
  shows "settled e" "overallScore e = Fin 100" "hipScore e = Fin 1" "headScore e = Fin 1"
    "stackScore e = Fin 1" "underScore e = Fin 1" "feetScore e = Fin 1"
proof -
  define s where "s = PlankEvaluator_signals this (pt 0 0) (pt 0 1) (pt 0 0) (pt 0 1)
      (pt 0 0) (pt 0 1) (pt 1 0) (pt 1 1) (pt 2 0) (pt 2 1) (pt (- 1) 0) (pt (- 1) 1)"
  have e: "e = PlankEvaluator_assess s"
    unfolding e_def s_def evaluate_pose [OF assms(1)] by (simp add: plank_pose_def)
  note v = plank_pose_signals [OF assms(2), folded s_def]
  have d: "PlankEvaluator_defaults s"
    using assms(2) unfolding s_def by (simp add: signals_keeps settled_def)
  show "settled e"
    unfolding e by (simp add: settled_def assess_keeps v d)
  show h: "hipScore e = Fin 1"
    using d v unfolding e assess_scores
    by (simp add: hip_assessment_def PlankEvaluator_defaults_def ngt_def)
  show hd: "headScore e = Fin 1"
    using d v unfolding e assess_scores
    by (simp add: head_assessment_def PlankEvaluator_defaults_def ovf_small)
  show st: "stackScore e = Fin 1"
    using d v unfolding e assess_scores by (simp add: stack_assessment_def)
  show un: "underScore e = Fin 1"
    using d v unfolding e assess_scores
    by (simp add: under_assessment_def PlankEvaluator_defaults_def ngt_def)
  show fe: "feetScore e = Fin 1"
    using d v unfolding e assess_scores
    by (simp add: feet_assessment_def PlankEvaluator_defaults_def ngt_def)
  have "PlankEvaluator_defaults e" unfolding e by (simp add: assess_keeps d)
  from overall_full [OF this h hd st un fe]
  show "overallScore e = Fin 100" unfolding e assess_scores(6) .
qed

lemma frame_stable_plank_pose:
  assumes "shows_pose landmarks imageW imageH plank_pose" "settled this"
  shows "frame_stable this landmarks imageW imageH"
  by (simp add: frame_stable_def Let_def pose_visible [OF assms(1)]
      evaluate_plank_pose(2) [OF assms] ngt_def)

lemma settled_update_plank_pose:
  assumes "shows_pose landmarks imageW imageH plank_pose" "settled this"
  shows "settled (PlankEvaluator_update this now landmarks imageW imageH)"
proof -
  have l: "33 \<le> length landmarks" using shows_pose_length [OF assms(1)] by simp
  show ?thesis
    unfolding update_processed [OF l pose_visible(1) [OF assms(1)]]
    using evaluate_plank_pose(1) [OF assms]
    by (simp add: settled_def after_fsm_scores)
qed

lemma settled_new: "settled (new_PlankEvaluator t0 t1)"
  by (simp add: settled_def PlankEvaluator_defaults_def new_PlankEvaluator_def)

lemma pike_pose_hip:
  "angle3 (pt 0 (1 / 2)) (pt 1 (1 / 2)) (pt 1 (3 / 2)) = Fin 270"
  by (simp add: angle3_def eval_simps)

lemma pike_pose_signals:
  assumes "PlankEvaluator_defaults this" "hipAngSmooth this = NaN" "headAngSmooth this = NaN"
    "underSmooth this = NaN" "feetWSmooth this = NaN"
  defines "s \<equiv> PlankEvaluator_signals this (pt 0 0) (pt 0 1) (pt 0 0) (pt 0 1) (pt 0 0) (pt 0 1)
                 (pt 1 0) (pt 1 1) (pt 1 1) (pt 1 2) (pt (- 1) 0) (pt (- 1) 1)"
  shows "hipAngSmooth s = Fin 270" "headAngSmooth s = Fin 180" "stackShSmooth s = NaN"
    "stackHipSmooth s = NaN" "underSmooth s = Fin 0" "feetWSmooth s = Fin 1"
proof -
  have d: "emaAlpha this = Fin (35 / 100)"
    "hipAngSmooth this = NaN \<or> hipAngSmooth this = Fin 270"
    "headAngSmooth this = NaN \<or> headAngSmooth this = Fin 180"
    "underSmooth this = NaN \<or> underSmooth this = Fin 0"
    "feetWSmooth this = NaN \<or> feetWSmooth this = Fin 1"
    using assms(1-5) by (simp_all add: PlankEvaluator_defaults_def)
  show "hipAngSmooth s = Fin 270"
    using d by (simp add: s_def PlankEvaluator_signals_def Let_def ema_settle
        avg_pt pike_pose_hip)
  show "headAngSmooth s = Fin 180"
    using d by (simp add: s_def PlankEvaluator_signals_def Let_def ema_settle
        avg_pt plank_pose_raw)
  show "stackShSmooth s = NaN"
    by (simp add: s_def PlankEvaluator_signals_def Let_def plank_pose_raw)
  show "stackHipSmooth s = NaN"
    by (simp add: s_def PlankEvaluator_signals_def Let_def plank_pose_raw)
  show "underSmooth s = Fin 0"
    using d by (simp add: s_def PlankEvaluator_signals_def Let_def ema_settle
        avg_pt plank_pose_raw nsub_def ovf_small)
  show "feetWSmooth s = Fin 1"
    using d by (simp add: s_def PlankEvaluator_signals_def Let_def ema_settle
        avg_pt plank_pose_raw nsub_def ovf_small)
qed

lemma evaluate_pike_pose:
  fixes t0 t1
  assumes "shows_pose landmarks imageW imageH pike_pose"
  defines "e \<equiv> PlankEvaluator_evaluate (new_PlankEvaluator t0 t1) landmarks imageW imageH"
  shows "hipScore e = Fin 0" "headScore e = Fin 1" "stackScore e = Fin 1"
    "underScore e = Fin 1" "feetScore e = Fin 1"
proof -
  define s where "s = PlankEvaluator_signals (new_PlankEvaluator t0 t1) (pt 0 0) (pt 0 1)
      (pt 0 0) (pt 0 1) (pt 0 0) (pt 0 1) (pt 1 0) (pt 1 1) (pt 1 1) (pt 1 2)
      (pt (- 1) 0) (pt (- 1) 1)"
  have e: "e = PlankEvaluator_assess s"
    unfolding e_def s_def evaluate_pose [OF assms(1)] by (simp add: pike_pose_def)
  have n: "PlankEvaluator_defaults (new_PlankEvaluator t0 t1)"
    using settled_new [of t0 t1] by (simp add: settled_def)
  have "hipAngSmooth (new_PlankEvaluator t0 t1) = NaN"
    "headAngSmooth (new_PlankEvaluator t0 t1) = NaN"
    "underSmooth (new_PlankEvaluator t0 t1) = NaN"
    "feetWSmooth (new_PlankEvaluator t0 t1) = NaN"
    by (simp_all add: new_PlankEvaluator_def)
  note v = pike_pose_signals [OF n this, folded s_def]
  have d: "PlankEvaluator_defaults s"
    using n unfolding s_def by (simp add: signals_keeps)
  show "hipScore e = Fin 0"
    using d v unfolding e assess_scores
    by (simp add: hip_assessment_def PlankEvaluator_defaults_def ngt_def nsub_def ovf_small
        nmax_def)
  show "headScore e = Fin 1"
    using d v unfolding e assess_scores
    by (simp add: head_assessment_def PlankEvaluator_defaults_def ovf_small)
  show "stackScore e = Fin 1"
    using d v unfolding e assess_scores by (simp add: stack_assessment_def)
  show "underScore e = Fin 1"
    using d v unfolding e assess_scores
    by (simp add: under_assessment_def PlankEvaluator_defaults_def ngt_def)
  show "feetScore e = Fin 1"
    using d v unfolding e assess_scores
    by (simp add: feet_assessment_def PlankEvaluator_defaults_def ngt_def)
qed

theorem plank_overallScore_bounds_witness:
  "PlankEvaluator_defaults (new_PlankEvaluator 0 0) \<and> 33 \<le> length (frame_of plank_pose) \<and>
   criticalPointsVisible (new_PlankEvaluator 0 0) (frame_of plank_pose) (Fin 1) (Fin 1) \<and>
   (let this' = PlankEvaluator_update (new_PlankEvaluator 0 0) 0 (frame_of plank_pose)
                  (Fin 1) (Fin 1)
    in hipScore this' = Fin 1 \<and> headScore this' = Fin 1 \<and> stackScore this' = Fin 1 \<and>
       underScore this' = Fin 1 \<and> feetScore this' = Fin 1 \<and> overallScore this' = Fin 100) \<and>
   33 \<le> length (frame_of pike_pose) \<and>
   criticalPointsVisible (new_PlankEvaluator 0 0) (frame_of pike_pose) (Fin 1) (Fin 1) \<and>
   (let this' = PlankEvaluator_update (new_PlankEvaluator 0 0) 0 (frame_of pike_pose)
                  (Fin 1) (Fin 1)
    in hipScore this' = Fin 0 \<and> headScore this' = Fin 1 \<and> stackScore this' = Fin 1 \<and>
       underScore this' = Fin 1 \<and> feetScore this' = Fin 1 \<and> overallScore this' = Fin 65) \<and>
   33 \<le> length hidden_frame \<and>
   \<not> criticalPointsVisible (new_PlankEvaluator 0 0) hidden_frame (Fin 1) (Fin 1) \<and>
   overallScore (PlankEvaluator_update (new_PlankEvaluator 0 0) 0 hidden_frame (Fin 1) (Fin 1))
     = Fin 0"
proof -
  have p: "shows_pose (frame_of plank_pose) (Fin 1) (Fin 1) plank_pose"
    by (rule shows_pose_frame_of) (rule pose_bounded)
  have d: "PlankEvaluator_defaults (new_PlankEvaluator 0 0)"
    using settled_new [of 0 0] by (simp add: settled_def)
  have l: "33 \<le> length (frame_of plank_pose)" by simp
  have c: "criticalPointsVisible (new_PlankEvaluator 0 0) (frame_of plank_pose) (Fin 1) (Fin 1)"
    by (rule pose_visible [OF p])
  note e = evaluate_plank_pose [OF p settled_new [of 0 0]]
  have "hipScore (PlankEvaluator_update (new_PlankEvaluator 0 0) 0 (frame_of plank_pose)
                  (Fin 1) (Fin 1)) = Fin 1"
       "headScore (PlankEvaluator_update (new_PlankEvaluator 0 0) 0 (frame_of plank_pose)
                  (Fin 1) (Fin 1)) = Fin 1"
       "stackScore (PlankEvaluator_update (new_PlankEvaluator 0 0) 0 (frame_of plank_pose)
                  (Fin 1) (Fin 1)) = Fin 1"
       "underScore (PlankEvaluator_update (new_PlankEvaluator 0 0) 0 (frame_of plank_pose)
                  (Fin 1) (Fin 1)) = Fin 1"
       "feetScore (PlankEvaluator_update (new_PlankEvaluator 0 0) 0 (frame_of plank_pose)
                  (Fin 1) (Fin 1)) = Fin 1"
    unfolding update_processed [OF l c] after_fsm_scores by (rule e)+
  note sc = this
  have full: "overallScore (PlankEvaluator_update (new_PlankEvaluator 0 0) 0
                  (frame_of plank_pose) (Fin 1) (Fin 1)) = Fin 100"
    using plank_overallScore_bounds [OF d l, of 0 "Fin 1" "Fin 1"] c sc
    unfolding Let_def by blast
  have q: "shows_pose (frame_of pike_pose) (Fin 1) (Fin 1) pike_pose"
    by (rule shows_pose_frame_of) (rule pose_bounded)
  have l': "33 \<le> length (frame_of pike_pose)" by simp
  have c': "criticalPointsVisible (new_PlankEvaluator 0 0) (frame_of pike_pose) (Fin 1) (Fin 1)"
    by (rule pose_visible [OF q])
  define k where "k = PlankEvaluator_update (new_PlankEvaluator 0 0) 0 (frame_of pike_pose)
                        (Fin 1) (Fin 1)"
  have sk: "hipScore k = Fin 0" "headScore k = Fin 1" "stackScore k = Fin 1"
    "underScore k = Fin 1" "feetScore k = Fin 1"
    unfolding k_def update_processed [OF l' c'] after_fsm_scores
    by (rule evaluate_pike_pose [OF q])+
  from plank_overallScore_bounds [OF d l', of 0 "Fin 1" "Fin 1"] c'
  obtain a b c d e where
    "hipScore k = Fin a" "headScore k = Fin b" "stackScore k = Fin c" "underScore k = Fin d"
    "feetScore k = Fin e"
    "overallScore k =
       Fin ((35 / 100 * a + 15 / 100 * b + 15 / 100 * c + 2 / 10 * d + 15 / 100 * e) * 100)"
    unfolding Let_def k_def [symmetric] by blast
  with sk have pike: "overallScore k = Fin 65" by simp
  have lh: "33 \<le> length hidden_frame" by (simp add: hidden_frame_def)
  have ch: "\<not> criticalPointsVisible (new_PlankEvaluator 0 0) hidden_frame (Fin 1) (Fin 1)"
    by (simp add: criticalPointsVisible_def hidden_frame_def landmark0_def Let_def
        POSE_LANDMARKS_def isVisible_toPoint new_PlankEvaluator_def nge_def)
  have hid: "overallScore (PlankEvaluator_update (new_PlankEvaluator 0 0) 0 hidden_frame
               (Fin 1) (Fin 1)) = Fin 0"
    using plank_overallScore_bounds [OF d lh, of 0 "Fin 1" "Fin 1"] ch
    unfolding Let_def by blast
  show ?thesis
    unfolding Let_def k_def [symmetric]
    using sc d c l full l' c' sk pike lh ch hid by blast
qed

text \<open>
  C5. Between calls the evaluator satisfies \<open>plank_inv\<close>, which the constructor
  establishes and every \<open>update\<close> keeps. In one call: from \<open>NOT_READY\<close> the state never
  becomes \<open>HOLDING\<close>; it becomes \<open>READY\<close> exactly on a stable frame, and the entry time is
  recorded. From \<open>READY\<close> the state becomes \<open>HOLDING\<close> exactly on a stable frame that
  comes at least \<open>readySeconds\<close> after that entry time, which stays fixed while the
  state is \<open>READY\<close>. From \<open>READY\<close> or \<open>HOLDING\<close>, one frame of at least 33 landmarks
  that is not stable gives \<open>NOT_READY\<close>, clears the hold-start marker and leaves the
  best hold as it was. A frame is stable when it passes the visibility gate, its
  overall score exceeds 50 and the six core landmarks are visible.
\<close>

theorem plank_hold_state_machine:
  assumes "plank_inv this"
  shows "plank_inv (new_PlankEvaluator t0 t1) \<and>
    (let this' = PlankEvaluator_update this now landmarks imageW imageH;
         steady = frame_stable this landmarks imageW imageH;
         whole = (33 \<le> length landmarks)
     in plank_inv this' \<and>
        (state this = NOT_READY \<longrightarrow>
           state this' \<noteq> HOLDING \<and> (state this' = READY \<longleftrightarrow> whole \<and> steady) \<and>
           (state this' = READY \<longrightarrow> stateStartTime this' = now)) \<and>
        (state this = READY \<longrightarrow>
           (state this' = HOLDING \<longleftrightarrow>
              whole \<and> steady \<and> nge (elapsed_in_state this now) (readySeconds this)) \<and>
           (state this' = READY \<longrightarrow> stateStartTime this' = stateStartTime this) \<and>
           (state this' = HOLDING \<longrightarrow> holdStartTime this' = Some now)) \<and>
        (state this \<noteq> NOT_READY \<and> whole \<and> \<not> steady \<longrightarrow>
           state this' = NOT_READY \<and> holdStartTime this' = None \<and>
           bestHold this' = bestHold this) \<and>
        (state this = HOLDING \<and> (\<not> whole \<or> steady) \<longrightarrow> state this' = HOLDING))"
proof -
  have "plank_inv (new_PlankEvaluator t0 t1)"
    by (simp add: plank_inv_def new_PlankEvaluator_def)
  thus ?thesis
    using plank_step_props [OF assms refl refl refl, of now landmarks imageW imageH]
    by (simp add: Let_def)
qed

lemma hidden_frame_facts:
  assumes "PlankEvaluator_defaults this"
  shows "33 \<le> length hidden_frame"
    "\<not> criticalPointsVisible this hidden_frame imageW imageH"
    "\<not> frame_stable this hidden_frame imageW imageH"
proof -
  show "33 \<le> length hidden_frame" by (simp add: hidden_frame_def)
  show c: "\<not> criticalPointsVisible this hidden_frame imageW imageH"
    using assms
    by (simp add: criticalPointsVisible_def Let_def POSE_LANDMARKS_def hidden_frame_def
        toPoint_def isVisible_def nge_def landmark0_def PlankEvaluator_defaults_def)
  thus "\<not> frame_stable this hidden_frame imageW imageH" by (simp add: frame_stable_def)
qed

theorem plank_hold_state_machine_witness:
  "(let g = frame_of plank_pose;
        s0 = new_PlankEvaluator 0 0;
        s1 = PlankEvaluator_update s0 0 g (Fin 1) (Fin 1);
        s2 = PlankEvaluator_update s1 1000 g (Fin 1) (Fin 1);
        s3 = PlankEvaluator_update s2 1500 g (Fin 1) (Fin 1);
        s4 = PlankEvaluator_update s3 2000 hidden_frame (Fin 1) (Fin 1)
    in plank_inv s0 \<and> state s0 = NOT_READY \<and> state s1 = READY \<and>
       state s2 = HOLDING \<and> holdStartTime s2 = Some 1000 \<and> state s3 = HOLDING \<and>
       state s4 = NOT_READY \<and> holdStartTime s4 = None \<and> bestHold s4 = bestHold s3)"
proof -
  define g where "g = frame_of plank_pose"
  define s0 where "s0 = new_PlankEvaluator 0 0"
  define s1 where "s1 = PlankEvaluator_update s0 0 g (Fin 1) (Fin 1)"
  define s2 where "s2 = PlankEvaluator_update s1 1000 g (Fin 1) (Fin 1)"
  define s3 where "s3 = PlankEvaluator_update s2 1500 g (Fin 1) (Fin 1)"
  define s4 where "s4 = PlankEvaluator_update s3 2000 hidden_frame (Fin 1) (Fin 1)"
  have p: "shows_pose g (Fin 1) (Fin 1) plank_pose"
    unfolding g_def by (rule shows_pose_frame_of) (rule pose_bounded)
  have l: "33 \<le> length g" by (simp add: g_def)
  have se0: "settled s0" unfolding s0_def by (rule settled_new)
  have se1: "settled s1" unfolding s1_def by (rule settled_update_plank_pose [OF p se0])
  have se2: "settled s2" unfolding s2_def by (rule settled_update_plank_pose [OF p se1])
  have se3: "settled s3" unfolding s3_def by (rule settled_update_plank_pose [OF p se2])
  note fs = frame_stable_plank_pose [OF p se0] frame_stable_plank_pose [OF p se1]
    frame_stable_plank_pose [OF p se2]
  have i0: "plank_inv s0" "state s0 = NOT_READY" "stateStartTime s0 = 0"
    by (simp_all add: s0_def plank_inv_def new_PlankEvaluator_def)
  from plank_hold_state_machine [OF i0(1), of 0 0 0 g "Fin 1" "Fin 1"] i0(2) fs(1) l
  have r1: "plank_inv s1" "state s1 = READY" "stateStartTime s1 = 0"
    unfolding Let_def s1_def [symmetric] by simp_all
  have rs: "readySeconds s1 = Fin 1"
    using se1 by (simp add: settled_def PlankEvaluator_defaults_def)
  have el: "nge (elapsed_in_state s1 1000) (readySeconds s1)"
    by (simp add: elapsed_in_state_def r1(3) rs ms_def nsub_def nge_def ovf_small)
  from plank_hold_state_machine [OF r1(1), of 0 0 1000 g "Fin 1" "Fin 1"] r1(2) fs(2) l el
  have r2: "plank_inv s2" "state s2 = HOLDING" "holdStartTime s2 = Some 1000"
    unfolding Let_def s2_def [symmetric] by simp_all
  from plank_hold_state_machine [OF r2(1), of 0 0 1500 g "Fin 1" "Fin 1"] r2(2) fs(3)
  have r3: "plank_inv s3" "state s3 = HOLDING"
    unfolding Let_def s3_def [symmetric] by simp_all
  have d3: "PlankEvaluator_defaults s3" using se3 by (simp add: settled_def)
  note h = hidden_frame_facts [OF d3]
  from plank_hold_state_machine [OF r3(1), of 0 0 2000 hidden_frame "Fin 1" "Fin 1"] r3(2) h
  have r4: "state s4 = NOT_READY" "holdStartTime s4 = None" "bestHold s4 = bestHold s3"
    unfolding Let_def s4_def [symmetric] by simp_all
  show ?thesis
    unfolding Let_def g_def [symmetric] s0_def [symmetric] s1_def [symmetric]
      s2_def [symmetric] s3_def [symmetric] s4_def [symmetric]
    using i0 r1 r2 r3 r4 by simp
qed

section \<open>The smoothed angles\<close>

lemma calculateAngle2D_range: "unset_or_within 0 180 (calculateAngle2D a b c)"
proof -
  obtain q where q: "calculateAngle2D a b c = ndiv (nmul (nacos q) (Fin 180)) Math_PI"
    unfolding calculateAngle2D_def Let_def by blast
  show ?thesis
    using angle_tail_any [of q] unfolding q
    by (cases "ndiv (nmul (nacos q) (Fin 180)) Math_PI") auto
qed

lemma angle3_range: "unset_or_within 0 360 (angle3 a b c)"
proof -
  obtain q where q: "angle3 a b c =
      nadd (nsub (Fin 180) (ndiv (nmul (nacos q) (Fin 180)) Math_PI)) (Fin 180)"
    unfolding angle3_def Let_def by blast
  show ?thesis
    using angle_tail_any [of q] unfolding q
    by (cases "ndiv (nmul (nacos q) (Fin 180)) Math_PI") (auto simp: nsub_def ovf_small)
qed

lemma squat_ema_range:
  assumes "SquatCounter.smoothAlpha this = Fin (35 / 100)"
    "unset_or_within 0 180 prev" "unset_or_within 0 180 cur"
  shows "unset_or_within 0 180 (SquatCounter_ema this prev cur)"
  using assms
  by (cases prev; cases cur) (auto simp: SquatCounter_ema_def nsub_def ovf_small)

lemma plank_ema_range:
  assumes "emaAlpha this = Fin (35 / 100)"
    "unset_or_within 0 360 prev" "unset_or_within 0 360 newVal"
  shows "unset_or_within 0 360 (PlankEvaluator_ema this prev newVal)"
  using assms
  by (cases prev; cases newVal) (auto simp: PlankEvaluator_ema_def nsub_def ovf_small)


lemma squat_metrics_range:
  fixes landmarks imageW imageH side
  assumes "squat_angles_ok this"
  defines "m \<equiv> SquatCounter_computeMetrics this landmarks imageW imageH side"
  shows "unset_or_within 0 180 (SquatMetrics.kneeAngle m)"
    "unset_or_within 0 180 (SquatMetrics.hipAngle m)"
  using assms(1)
  by (simp_all add: m_def SquatCounter_computeMetrics_def Let_def calculateAngle2D_range
      squat_angles_ok_def)

lemma squat_update_angles:
  fixes this landmarks imageW imageH side
  defines "m \<equiv> SquatCounter_computeMetrics this landmarks imageW imageH side"
    and "u \<equiv> SquatCounter_update this landmarks imageW imageH side"
  shows "SquatCounter.kneeEma u =
           SquatCounter_ema this (SquatCounter.kneeEma this) (SquatMetrics.kneeAngle m)"
    "SquatCounter.hipEma u =
           SquatCounter_ema this (SquatCounter.hipEma this) (SquatMetrics.hipAngle m)"
    "SquatCounter.kneeAngle u = SquatCounter.kneeEma u"
    "SquatCounter.hipAngle u = SquatCounter.hipEma u"
    "SquatCounter.smoothAlpha u = SquatCounter.smoothAlpha this"
  by (cases "SquatCounter.state this";
      simp add: u_def m_def SquatCounter_update_def SquatCounter_transition_def Let_def
        SquatCounter_ema_def)+

lemma squat_update_ok:
  assumes "squat_angles_ok this"
  shows "squat_angles_ok (SquatCounter_update this landmarks imageW imageH side)"
proof -
  have a: "SquatCounter.smoothAlpha this = Fin (35 / 100)"
    "unset_or_within 0 180 (SquatCounter.kneeEma this)"
    "unset_or_within 0 180 (SquatCounter.hipEma this)"
    using assms by (simp_all add: squat_angles_ok_def)
  note m = squat_metrics_range [OF assms, of landmarks imageW imageH side]
  show ?thesis
    unfolding squat_angles_ok_def squat_update_angles
    using a squat_ema_range [OF a(1) a(2) m(1)] squat_ema_range [OF a(1) a(3) m(2)]
    by simp
qed

lemma squat_updates_ok:
  "squat_angles_ok this \<Longrightarrow> squat_angles_ok (SquatCounter_updates this calls)"
proof (induction calls arbitrary: this)
  case Nil
  then show ?case by (simp add: SquatCounter_updates_def)
next
  case (Cons c calls)
  obtain l w h sd where c: "c = (l, w, h, sd)" by (cases c) auto
  have "squat_angles_ok (SquatCounter_updates (SquatCounter_update this l w h sd) calls)"
    by (rule Cons.IH) (rule squat_update_ok [OF Cons.prems])
  thus ?case by (simp add: SquatCounter_updates_def c)
qed

lemma ema_alpha:
  "emaAlpha s = emaAlpha t \<Longrightarrow> PlankEvaluator_ema s p n = PlankEvaluator_ema t p n"
  by (simp add: PlankEvaluator_ema_def)

lemma signals_smooth:
  fixes this lsh rsh lel rel lwr rwr lhip rhip lank rank lear rear
  defines "s \<equiv> PlankEvaluator_signals this lsh rsh lel rel lwr rwr lhip rhip lank rank lear rear"
  shows "hipAngSmooth s =
           PlankEvaluator_ema this (hipAngSmooth this)
             (angle3 (avg lsh rsh) (avg lhip rhip) (avg lank rank))"
    "headAngSmooth s =
           PlankEvaluator_ema this (headAngSmooth this)
             (angle3 (avg lear rear) (avg lsh rsh) (avg lhip rhip))"
    "emaAlpha s = emaAlpha this"
proof -
  show "emaAlpha s = emaAlpha this"
    by (simp add: s_def PlankEvaluator_signals_def Let_def)
  show "hipAngSmooth s =
           PlankEvaluator_ema this (hipAngSmooth this)
             (angle3 (avg lsh rsh) (avg lhip rhip) (avg lank rank))"
    by (auto simp: s_def PlankEvaluator_signals_def Let_def intro!: ema_alpha)
  show "headAngSmooth s =
           PlankEvaluator_ema this (headAngSmooth this)
             (angle3 (avg lear rear) (avg lsh rsh) (avg lhip rhip))"
    by (auto simp: s_def PlankEvaluator_signals_def Let_def intro!: ema_alpha)
qed

lemma alpha_keeps:
  "emaAlpha (PlankEvaluator_holdTimes (PlankEvaluator_transition e now b) now) = emaAlpha e"
  "emaAlpha (PlankEvaluator_assess s) = emaAlpha s"
  by (cases "state e";
      simp add: PlankEvaluator_holdTimes_def PlankEvaluator_transition_def Let_def
        PlankEvaluator_assess_def split_def)+

lemma plank_update_ok:
  assumes "plank_angles_ok this"
  shows "plank_angles_ok (PlankEvaluator_update this now landmarks imageW imageH)"
proof -
  have a: "emaAlpha this = Fin (35 / 100)" "unset_or_within 0 360 (hipAngSmooth this)"
    "unset_or_within 0 360 (headAngSmooth this)"
    using assms by (simp_all add: plank_angles_ok_def)
  consider (short) "length landmarks < 33"
    | (hidden) "33 \<le> length landmarks" "\<not> criticalPointsVisible this landmarks imageW imageH"
    | (processed) "33 \<le> length landmarks" "criticalPointsVisible this landmarks imageW imageH"
    by linarith
  then show ?thesis
  proof cases
    case short
    then show ?thesis using assms by (simp add: PlankEvaluator_update_def)
  next
    case hidden
    then show ?thesis using a
      by (simp add: plank_angles_ok_def PlankEvaluator_update_def Let_def)
  next
    case processed
    show ?thesis
      unfolding update_processed [OF processed] plank_angles_ok_def after_fsm_scores
        alpha_keeps PlankEvaluator_evaluate_def assess_keeps signals_smooth
      using a by (simp add: plank_ema_range angle3_range)
  qed
qed

lemma plank_updates_ok:
  "plank_angles_ok this \<Longrightarrow> plank_angles_ok (PlankEvaluator_updates this calls)"
proof (induction calls arbitrary: this)
  case Nil
  then show ?case by (simp add: PlankEvaluator_updates_def)
next
  case (Cons c calls)
  obtain n l w h where c: "c = (n, l, w, h)" by (cases c) auto
  have "plank_angles_ok (PlankEvaluator_updates (PlankEvaluator_update this n l w h) calls)"
    by (rule Cons.IH) (rule plank_update_ok [OF Cons.prems])
  thus ?case by (simp add: PlankEvaluator_updates_def c)
qed

lemma isNaN_iff: "isNaN n \<longleftrightarrow> n = NaN"
  by (cases n) auto

lemma frame_withinD:
  "frame_within landmarks imageW imageH \<Longrightarrow> i < length landmarks \<Longrightarrow>
   point_within coord_bound (toPoint (landmarks ! i) imageW imageH)"
  by (simp add: frame_within_def list_all_length)

lemma angle3_via_3D:
  "angle3 a b c = nadd (nsub (Fin 180) (calculateAngle3D a b c)) (Fin 180)"
  by (simp add: angle3_def calculateAngle3D_def Let_def)

lemma angle3_within:
  assumes "point_within coord_bound a" "point_within coord_bound b"
    "point_within coord_bound c"
  shows "\<not> isNaN (angle3 a b c)"
proof -
  obtain r where "calculateAngle3D a b c = Fin r" "0 \<le> r" "r \<le> 180"
    using calculateAngle3D_within [OF assms] by blast
  thus ?thesis by (simp add: angle3_via_3D nsub_def ovf_small)
qed

lemma avg_within:
  assumes "point_within coord_bound a" "point_within coord_bound b"
  shows "point_within coord_bound (avg a b)"
proof -
  have h: "fin_within coord_bound (ndiv (nadd u v) (Fin 2))"
    if uw: "fin_within coord_bound u" and vw: "fin_within coord_bound v" for u v
  proof -
    obtain p where p: "u = Fin p" "\<bar>p\<bar> \<le> coord_bound" using uw by (rule fin_withinE)
    obtain q where q: "v = Fin q" "\<bar>q\<bar> \<le> coord_bound" using vw by (rule fin_withinE)
    have s: "\<bar>p + q\<bar> \<le> 2 * coord_bound" using p q by linarith
    have e: "\<bar>(p + q) / 2\<bar> = \<bar>p + q\<bar> / 2" by simp
    have h: "\<bar>(p + q) / 2\<bar> \<le> coord_bound" unfolding e using s by simp
    have "\<bar>p + q\<bar> < overflow_bound" using s coord_bound_facts by linarith
    moreover have "\<bar>(p + q) / 2\<bar> < overflow_bound"
      using h coord_bound_facts by linarith
    ultimately show ?thesis using h by (simp add: p q ovf_Fin)
  qed
  show ?thesis using assms by (simp add: point_within_def avg_def h)
qed

lemma squat_ema_set:
  assumes "SquatCounter.smoothAlpha this = Fin (35 / 100)"
    "unset_or_within 0 180 prev" "unset_or_within 0 180 cur" "\<not> isNaN cur"
  shows "\<not> isNaN (SquatCounter_ema this prev cur)"
  using assms
  by (cases prev; cases cur) (auto simp: SquatCounter_ema_def nsub_def ovf_small)

lemma plank_ema_set:
  assumes "emaAlpha this = Fin (35 / 100)"
    "unset_or_within 0 360 prev" "unset_or_within 0 360 newVal" "\<not> isNaN newVal"
  shows "\<not> isNaN (PlankEvaluator_ema this prev newVal)"
  using assms
  by (cases prev; cases newVal) (auto simp: PlankEvaluator_ema_def nsub_def ovf_small)

lemma squat_metrics_set:
  fixes this side
  assumes "frame_within landmarks imageW imageH" "33 \<le> length landmarks"
  defines "m \<equiv> SquatCounter_computeMetrics this landmarks imageW imageH side"
  shows "\<not> isNaN (SquatMetrics.kneeAngle m)" "\<not> isNaN (SquatMetrics.hipAngle m)"
proof -
  have w: "point_within coord_bound (toPoint (landmarks ! i) imageW imageH)" if "i < 33" for i
    using frame_withinD [OF assms(1), of i] that assms(2) by simp
  have a: "\<not> isNaN (calculateAngle2D a b c)"
    if "point_within coord_bound a" "point_within coord_bound b" "point_within coord_bound c"
    for a b c
    using calculateAngle2D_within [OF that] by auto
  show "\<not> isNaN (SquatMetrics.kneeAngle m)" "\<not> isNaN (SquatMetrics.hipAngle m)"
    using assms(2)
    by (simp_all add: m_def SquatCounter_computeMetrics_def Let_def POSE_LANDMARKS_def a w)
qed

lemma squat_update_set:
  fixes side
  assumes ok: "squat_angles_ok this" and fw: "frame_within landmarks imageW imageH"
  defines "u \<equiv> SquatCounter_update this landmarks imageW imageH side"
  shows "\<not> isNaN (SquatCounter.kneeEma this) \<Longrightarrow> \<not> isNaN (SquatCounter.kneeEma u)"
    "\<not> isNaN (SquatCounter.hipEma this) \<Longrightarrow> \<not> isNaN (SquatCounter.hipEma u)"
proof -
  define m where "m = SquatCounter_computeMetrics this landmarks imageW imageH side"
  have a: "SquatCounter.smoothAlpha this = Fin (35 / 100)"
    "unset_or_within 0 180 (SquatCounter.kneeEma this)"
    "unset_or_within 0 180 (SquatCounter.hipEma this)"
    "SquatCounter.kneeAngle this = SquatCounter.kneeEma this"
    "SquatCounter.hipAngle this = SquatCounter.hipEma this"
    using ok by (simp_all add: squat_angles_ok_def)
  note r = squat_metrics_range [OF ok, of landmarks imageW imageH side, folded m_def]
  have k: "\<not> isNaN (SquatMetrics.kneeAngle m)" if "\<not> isNaN (SquatCounter.kneeEma this)"
  proof (cases "length landmarks < 33")
    case True
    then show ?thesis using that a(4) by (simp add: m_def squat_short_metrics)
  next
    case False
    hence "33 \<le> length landmarks" by simp
    from squat_metrics_set(1) [OF fw this] show ?thesis by (simp add: m_def)
  qed
  have h: "\<not> isNaN (SquatMetrics.hipAngle m)" if "\<not> isNaN (SquatCounter.hipEma this)"
  proof (cases "length landmarks < 33")
    case True
    then show ?thesis using that a(5) by (simp add: m_def squat_short_metrics)
  next
    case False
    hence "33 \<le> length landmarks" by simp
    from squat_metrics_set(2) [OF fw this] show ?thesis by (simp add: m_def)
  qed
  show "\<not> isNaN (SquatCounter.kneeEma this) \<Longrightarrow> \<not> isNaN (SquatCounter.kneeEma u)"
    unfolding u_def squat_update_angles m_def [symmetric]
    using squat_ema_set [OF a(1) a(2) r(1)] k by blast
  show "\<not> isNaN (SquatCounter.hipEma this) \<Longrightarrow> \<not> isNaN (SquatCounter.hipEma u)"
    unfolding u_def squat_update_angles m_def [symmetric]
    using squat_ema_set [OF a(1) a(3) r(2)] h by blast
qed

lemma plank_update_set:
  fixes now
  assumes ok: "plank_angles_ok this" and fw: "frame_within landmarks imageW imageH"
  defines "u \<equiv> PlankEvaluator_update this now landmarks imageW imageH"
  shows "\<not> isNaN (hipAngSmooth this) \<Longrightarrow> \<not> isNaN (hipAngSmooth u)"
    "\<not> isNaN (headAngSmooth this) \<Longrightarrow> \<not> isNaN (headAngSmooth u)"
proof -
  have a: "emaAlpha this = Fin (35 / 100)" "unset_or_within 0 360 (hipAngSmooth this)"
    "unset_or_within 0 360 (headAngSmooth this)"
    using ok by (simp_all add: plank_angles_ok_def)
  consider (short) "length landmarks < 33"
    | (hidden) "33 \<le> length landmarks" "\<not> criticalPointsVisible this landmarks imageW imageH"
    | (processed) "33 \<le> length landmarks" "criticalPointsVisible this landmarks imageW imageH"
    by linarith
  then have "(\<not> isNaN (hipAngSmooth this) \<longrightarrow> \<not> isNaN (hipAngSmooth u)) \<and>
             (\<not> isNaN (headAngSmooth this) \<longrightarrow> \<not> isNaN (headAngSmooth u))"
  proof cases
    case short
    then show ?thesis by (simp add: u_def PlankEvaluator_update_def)
  next
    case hidden
    then show ?thesis by (simp add: u_def PlankEvaluator_update_def Let_def)
  next
    case processed
    have w: "point_within coord_bound (toPoint (landmarks ! i) imageW imageH)" if "i < 33" for i
      using frame_withinD [OF fw, of i] that processed(1) by simp
    have n: "\<not> isNaN (angle3 (avg (toPoint (landmarks ! i) imageW imageH)
                                   (toPoint (landmarks ! j) imageW imageH))
                              (avg (toPoint (landmarks ! k) imageW imageH)
                                   (toPoint (landmarks ! l) imageW imageH))
                              (avg (toPoint (landmarks ! m) imageW imageH)
                                   (toPoint (landmarks ! n) imageW imageH)))"
      if "i < 33" "j < 33" "k < 33" "l < 33" "m < 33" "n < 33" for i j k l m n
      by (intro angle3_within avg_within w that)
    have e: "\<not> isNaN (PlankEvaluator_ema this prev
                (angle3 (avg (toPoint (landmarks ! i) imageW imageH)
                             (toPoint (landmarks ! j) imageW imageH))
                        (avg (toPoint (landmarks ! k) imageW imageH)
                             (toPoint (landmarks ! l) imageW imageH))
                        (avg (toPoint (landmarks ! m) imageW imageH)
                             (toPoint (landmarks ! n) imageW imageH))))"
      if "unset_or_within 0 360 prev" "i < 33" "j < 33" "k < 33" "l < 33" "m < 33" "n < 33"
      for prev i j k l m n
      by (rule plank_ema_set [OF a(1) that(1) angle3_range n]) (rule that)+
    show ?thesis
      unfolding u_def update_processed [OF processed] after_fsm_scores
        PlankEvaluator_evaluate_def assess_keeps signals_smooth
      using a(2,3)
      by (simp add: POSE_LANDMARKS_def e)
  qed
  thus "\<not> isNaN (hipAngSmooth this) \<Longrightarrow> \<not> isNaN (hipAngSmooth u)"
    "\<not> isNaN (headAngSmooth this) \<Longrightarrow> \<not> isNaN (headAngSmooth u)" by blast+
qed

lemma frame_within_frame_of:
  assumes "\<And>i. \<bar>fst (f i)\<bar> \<le> 1000 \<and> \<bar>snd (f i)\<bar> \<le> 1000"
  shows "frame_within (frame_of f) (Fin 1) (Fin 1)"
proof -
  have "point_within coord_bound (toPoint (frame_of f ! i) (Fin 1) (Fin 1))" if "i < 33" for i
  proof -
    have b: "\<bar>fst (f i)\<bar> \<le> 1000000" "\<bar>snd (f i)\<bar> \<le> 1000000" using assms [of i] by auto
    have "(1000::real) \<le> 10 ^ 150" by simp
    hence "1000 \<le> coord_bound" by (simp only: coord_bound_def)
    hence c: "\<bar>fst (f i)\<bar> \<le> coord_bound" "\<bar>snd (f i)\<bar> \<le> coord_bound"
      using assms [of i] by linarith+
    show ?thesis
      using that b c coord_bound_facts
      by (simp add: frame_of_nth toPoint_def ovf_small point_within_def)
  qed
  thus ?thesis
    by (simp add: frame_within_def list_all_length frame_of_length)
qed

lemma plank_pose_update_angles:
  fixes now
  assumes "shows_pose landmarks imageW imageH plank_pose" "settled this"
  defines "u \<equiv> PlankEvaluator_update this now landmarks imageW imageH"
  shows "hipAngSmooth u = Fin 180" "headAngSmooth u = Fin 180"
proof -
  have l: "33 \<le> length landmarks" using shows_pose_length [OF assms(1)] by simp
  show "hipAngSmooth u = Fin 180" "headAngSmooth u = Fin 180"
    unfolding u_def update_processed [OF l pose_visible(1) [OF assms(1)]] after_fsm_scores
      evaluate_pose [OF assms(1)] assess_keeps
    using plank_pose_signals(1,2) [OF assms(2)]
    by (simp_all add: plank_pose_def)
qed

text \<open>
  C9, as amended. In every state reached from construction by \<open>update\<close> calls, each
  smoothed angle is either unset (\<open>NaN\<close>) or a finite value in a fixed range: 0 to 180
  degrees for the knee and hip angle of the squat counter, 0 to 360 degrees for the hip
  and head angle of the plank evaluator (whose \<open>angle3\<close> returns 360 minus the angle at
  the vertex, so these values are in fact at least 180). An accumulator that is set
  stays set, hence in its range, through an update whose frame has coordinates of
  magnitude at most \<open>coord_bound\<close>.
\<close>

theorem smoothed_angles_range:
  assumes "frame_within landmarks imageW imageH"
  shows
    "(let s = SquatCounter_updates new_SquatCounter calls;
          s' = SquatCounter_update s landmarks imageW imageH side;
          p = PlankEvaluator_updates (new_PlankEvaluator t0 t1) pcalls;
          p' = PlankEvaluator_update p now landmarks imageW imageH
      in unset_or_within 0 180 (SquatCounter.kneeEma s) \<and>
         unset_or_within 0 180 (SquatCounter.hipEma s) \<and>
         unset_or_within 0 360 (hipAngSmooth p) \<and>
         unset_or_within 0 360 (headAngSmooth p) \<and>
         (\<not> isNaN (SquatCounter.kneeEma s) \<longrightarrow> \<not> isNaN (SquatCounter.kneeEma s')) \<and>
         (\<not> isNaN (SquatCounter.hipEma s) \<longrightarrow> \<not> isNaN (SquatCounter.hipEma s')) \<and>
         (\<not> isNaN (hipAngSmooth p) \<longrightarrow> \<not> isNaN (hipAngSmooth p')) \<and>
         (\<not> isNaN (headAngSmooth p) \<longrightarrow> \<not> isNaN (headAngSmooth p')))"
proof -
  have "squat_angles_ok new_SquatCounter"
    by (simp add: squat_angles_ok_def new_SquatCounter_def)
  hence s: "squat_angles_ok (SquatCounter_updates new_SquatCounter calls)"
    by (rule squat_updates_ok)
  have "plank_angles_ok (new_PlankEvaluator t0 t1)"
    by (simp add: plank_angles_ok_def new_PlankEvaluator_def)
  hence p: "plank_angles_ok (PlankEvaluator_updates (new_PlankEvaluator t0 t1) pcalls)"
    by (rule plank_updates_ok)
  show ?thesis
    unfolding Let_def
    using s p squat_update_set [OF s assms, of side] plank_update_set [OF p assms, of now]
    by (simp add: squat_angles_ok_def plank_angles_ok_def)
qed

theorem smoothed_angles_range_witness:
  "frame_within (frame_of plank_pose) (Fin 1) (Fin 1) \<and>
   (let s = SquatCounter_updates new_SquatCounter [squat_call stand_pose];
        s' = SquatCounter_update s (frame_of plank_pose) (Fin 1) (Fin 1) ''right'';
        p = PlankEvaluator_updates (new_PlankEvaluator 0 0)
              [(0, frame_of plank_pose, Fin 1, Fin 1)];
        p' = PlankEvaluator_update p 1 (frame_of plank_pose) (Fin 1) (Fin 1)
    in SquatCounter.kneeEma s = Fin 180 \<and> SquatCounter.hipEma s = Fin 180 \<and>
       hipAngSmooth p = Fin 180 \<and> headAngSmooth p = Fin 180 \<and>
       \<not> isNaN (SquatCounter.kneeEma s') \<and> \<not> isNaN (SquatCounter.hipEma s') \<and>
       \<not> isNaN (hipAngSmooth p') \<and> \<not> isNaN (headAngSmooth p'))"
proof -
  have w: "frame_within (frame_of plank_pose) (Fin 1) (Fin 1)"
    by (rule frame_within_frame_of) (rule pose_bounded)
  have p: "shows_pose (frame_of plank_pose) (Fin 1) (Fin 1) plank_pose"
    by (rule shows_pose_frame_of) (rule pose_bounded)
  note a = plank_pose_update_angles [OF p settled_new, of 0 0 0]
  have s: "SquatCounter.kneeEma
             (SquatCounter_update new_SquatCounter (frame_of stand_pose) (Fin 1) (Fin 1) ''right'')
           = Fin 180"
    "SquatCounter.hipEma
             (SquatCounter_update new_SquatCounter (frame_of stand_pose) (Fin 1) (Fin 1) ''right'')
           = Fin 180"
    by (simp_all add: squat_run_1)
  show ?thesis
    using smoothed_angles_range [OF w, of "[squat_call stand_pose]" "''right''" 0 0
        "[(0, frame_of plank_pose, Fin 1, Fin 1)]" 1] w a s
    by (simp add: Let_def SquatCounter_updates_def PlankEvaluator_updates_def squat_call_def)
qed

lemma far_frame_points:
  "length far_frame = 33"
  "toPoint (far_frame ! 12) (Fin 1) (Fin 1) = origin"
  "toPoint (far_frame ! 24) (Fin 1) (Fin 1) = far_point"
  "toPoint (far_frame ! 26) (Fin 1) (Fin 1) = origin"
  "toPoint (far_frame ! 28) (Fin 1) (Fin 1) = far_point"
proof -
  have o: "toPoint landmark0 (Fin 1) (Fin 1) = origin"
    by (simp add: toPoint_def landmark0_def origin_def ovf_far(3))
  have "nmul (Fin (10 ^ 200)) (Fin 1) = Fin (10 ^ 200)"
    by (simp only: nmul.simps mult_1_right ovf_far(1))
  hence f: "toPoint far_landmark (Fin 1) (Fin 1) = far_point"
    unfolding toPoint_def far_landmark_def far_point_def
    by (simp add: ovf_far(3))
  show "length far_frame = 33" by (simp add: far_frame_def)
  show "toPoint (far_frame ! 12) (Fin 1) (Fin 1) = origin"
    "toPoint (far_frame ! 26) (Fin 1) (Fin 1) = origin"
    using o by (simp_all add: far_frame_def)
  show "toPoint (far_frame ! 24) (Fin 1) (Fin 1) = far_point"
    "toPoint (far_frame ! 28) (Fin 1) (Fin 1) = far_point"
    using f by (simp_all add: far_frame_def)
qed

lemma metrics_far:
  "SquatMetrics.kneeAngle (SquatCounter_computeMetrics this far_frame (Fin 1) (Fin 1) ''right'')
     = NaN"
proof -
  have v: "isVisible origin mv" "isVisible far_point mv" for mv
    by (simp_all add: isVisible_def origin_def far_point_def)
  show ?thesis
    by (simp add: SquatCounter_computeMetrics_def POSE_LANDMARKS_def far_frame_points
        startsWith_r_def v angle2D_far Let_def)
qed

lemma squat_far_update:
  "SquatCounter.kneeEma
     (SquatCounter_update
        (SquatCounter_update new_SquatCounter (frame_of stand_pose) (Fin 1) (Fin 1) ''right'')
        far_frame (Fin 1) (Fin 1) ''right'') = NaN"
  unfolding squat_update_angles(1) [of _ far_frame] metrics_far squat_run_1
  by (simp add: SquatCounter_ema_def new_SquatCounter_def)

text \<open>
  C9 fails as stated in two ways. On its first frame, a body bent at a right angle at
  the hips leaves the smoothed hip angle of the plank evaluator at 270 degrees. And a
  squat counter whose smoothed knee angle is 180 degrees loses it to \<open>NaN\<close> on a frame
  with the hip and the ankle at \<open>10 ^ 200\<close>, where the dot product overflows.
\<close>

theorem smoothed_angles_counterexample:
  "(let p = PlankEvaluator_update (new_PlankEvaluator 0 0) 0 (frame_of pike_pose) (Fin 1) (Fin 1)
    in hipAngSmooth p = Fin 270 \<and> \<not> unset_or_within 0 180 (hipAngSmooth p)) \<and>
   (let s = SquatCounter_update new_SquatCounter (frame_of stand_pose) (Fin 1) (Fin 1) ''right'';
        s' = SquatCounter_update s far_frame (Fin 1) (Fin 1) ''right''
    in SquatCounter.kneeEma s = Fin 180 \<and> SquatCounter.kneeEma s' = NaN)"
proof -
  have p: "shows_pose (frame_of pike_pose) (Fin 1) (Fin 1) pike_pose"
    by (rule shows_pose_frame_of) (rule pose_bounded)
  have l: "33 \<le> length (frame_of pike_pose)" by simp
  have "hipAngSmooth (PlankEvaluator_update (new_PlankEvaluator 0 0) 0 (frame_of pike_pose)
          (Fin 1) (Fin 1)) = Fin 270"
    unfolding update_processed [OF l pose_visible(1) [OF p]] after_fsm_scores
      evaluate_pose [OF p] assess_keeps signals_smooth
    by (simp add: pike_pose_def avg_pt pike_pose_hip PlankEvaluator_ema_def
        new_PlankEvaluator_def)
  moreover have "SquatCounter.kneeEma
      (SquatCounter_update new_SquatCounter (frame_of stand_pose) (Fin 1) (Fin 1) ''right'')
      = Fin 180"
    by (simp add: squat_run_1)
  ultimately show ?thesis using squat_far_update by (simp add: Let_def)
qed

section \<open>The exported functions and the shared evaluators\<close>

lemma pushup_pose_angles:
  "calculateAngle2D (pt 0 0) (pt 1 0) (pt 2 0) = Fin 180"
  "calculateAngle2D (pt 0 0) (pt 1 0) (pt 0 0) = Fin 0"
  by (simp_all add: calculateAngle2D_def eval_simps)

lemma measure_straight_pose:
  assumes "shows_pose landmarks imageW imageH straight_pose"
  shows "PushupCounter_measure this landmarks imageW imageH ''right'' =
     \<lparr> frame_elbowAngle = Fin 180, frame_kneeAngle = Fin 180, legsVisible = True,
       legsExtended = nge (Fin 180) (PushupCounter.legExtendedThresh this),
       visibilityOK = True \<rparr>"
  by (simp add: PushupCounter_measure_def POSE_LANDMARKS_def shows_poseD [OF assms]
      isVisible_def startsWith_r_def straight_pose_def pushup_pose_angles Let_def)

lemma measure_bent_pose:
  assumes "shows_pose landmarks imageW imageH bent_pose"
  shows "PushupCounter_measure this landmarks imageW imageH ''right'' =
     \<lparr> frame_elbowAngle = Fin 0, frame_kneeAngle = Fin 180, legsVisible = True,
       legsExtended = nge (Fin 180) (PushupCounter.legExtendedThresh this),
       visibilityOK = True \<rparr>"
  by (simp add: PushupCounter_measure_def POSE_LANDMARKS_def shows_poseD [OF assms]
      isVisible_def startsWith_r_def bent_pose_def pushup_pose_angles Let_def)

lemma processPushup_stage:
  "stage (fst (processPushup mdl landmarks st)) =
     (case PushupCounter.state
             (PushupCounter_update (pushupCounter mdl) landmarks (Fin 640) (Fin 480) ''right'') of
        PushupState.UP \<Rightarrow> Stage.UP | PushupState.DOWN \<Rightarrow> Stage.DOWN
      | PushupState.UNARMED \<Rightarrow> NEUTRAL)"
  "pushupCounter (snd (processPushup mdl landmarks st)) =
     PushupCounter_update (pushupCounter mdl) landmarks (Fin 640) (Fin 480) ''right''"
  by (simp_all add: processPushup_def Let_def split: PushupState.split)

lemma pushup_history:
  "(let m0 = new_Module 0 0;
        m1 = snd (processPushup m0 (pixel_frame straight_pose) initial_ExerciseState)
    in pushupCounter m1 \<noteq> pushupCounter m0 \<and>
       stage (fst (processPushup m0 (pixel_frame bent_pose) initial_ExerciseState)) = NEUTRAL \<and>
       stage (fst (processPushup m1 (pixel_frame bent_pose) initial_ExerciseState)) = Stage.DOWN)"
proof -
  have s: "shows_pose (pixel_frame straight_pose) (Fin 640) (Fin 480) straight_pose"
    by (rule shows_pose_pixel_frame) (rule pose_bounded)
  have b: "shows_pose (pixel_frame bent_pose) (Fin 640) (Fin 480) bent_pose"
    by (rule shows_pose_pixel_frame) (rule pose_bounded)
  have l: "\<not> length (pixel_frame straight_pose) < 33" "\<not> length (pixel_frame bent_pose) < 33"
    by (simp_all add: pixel_frame_def)
  have "PushupCounter.state (PushupCounter_update new_PushupCounter
           (pixel_frame straight_pose) (Fin 640) (Fin 480) ''right'') = PushupState.UP"
    by (simp add: PushupCounter_update_def l measure_straight_pose [OF s]
        PushupCounter_transition_def new_PushupCounter_def nge_def Let_def)
  moreover have "PushupCounter.state new_PushupCounter = PushupState.UNARMED"
    by (simp add: new_PushupCounter_def)
  ultimately have "PushupCounter_update new_PushupCounter
           (pixel_frame straight_pose) (Fin 640) (Fin 480) ''right'' \<noteq> new_PushupCounter"
    by auto
  thus ?thesis
    by (simp add: Let_def processPushup_stage new_Module_def PushupCounter_update_def l
        measure_straight_pose [OF s] measure_bent_pose [OF b] PushupCounter_transition_def
        new_PushupCounter_def nge_def)
qed

lemma processSquat_pure:
  "fst (processSquat mdl landmarks st) = fst (processSquat mdl' landmarks st)"
  "snd (processSquat mdl landmarks st) = mdl"
  by (simp_all add: processSquat_def Let_def)


lemma assessment_updates:
  "head_assessment (r\<lparr> hipScore := a \<rparr>) = head_assessment r"
  "stack_assessment (r\<lparr> hipScore := a \<rparr>) = stack_assessment r"
  "stack_assessment (r\<lparr> headScore := a \<rparr>) = stack_assessment r"
  "under_assessment (r\<lparr> hipScore := a \<rparr>) = under_assessment r"
  "under_assessment (r\<lparr> headScore := a \<rparr>) = under_assessment r"
  "under_assessment (r\<lparr> stackScore := a \<rparr>) = under_assessment r"
  "feet_assessment (r\<lparr> hipScore := a \<rparr>) = feet_assessment r"
  "feet_assessment (r\<lparr> headScore := a \<rparr>) = feet_assessment r"
  "feet_assessment (r\<lparr> stackScore := a \<rparr>) = feet_assessment r"
  "feet_assessment (r\<lparr> underScore := a \<rparr>) = feet_assessment r"
  by (simp_all add: head_assessment_def stack_assessment_def under_assessment_def
      feet_assessment_def Let_def)

lemma assess_warnings:
  "formWarnings (PlankEvaluator_assess this) =
     fst (hip_assessment this) @ fst (head_assessment this) @ fst (stack_assessment this) @
     fst (under_assessment this) @ fst (feet_assessment this)"
  by (simp add: PlankEvaluator_assess_def Let_def split_def assessment_updates)

lemma after_fsm_warnings:
  "formWarnings (PlankEvaluator_holdTimes (PlankEvaluator_transition e now b) now)
     = formWarnings e"
  by (cases "state e")
     (simp_all add: PlankEvaluator_holdTimes_def PlankEvaluator_transition_def Let_def)

lemma plank_pose_no_warning:
  assumes "shows_pose landmarks imageW imageH plank_pose" "settled this"
  shows "formWarnings (PlankEvaluator_update this now landmarks imageW imageH) = []"
proof -
  define s where "s = PlankEvaluator_signals this (pt 0 0) (pt 0 1) (pt 0 0) (pt 0 1)
      (pt 0 0) (pt 0 1) (pt 1 0) (pt 1 1) (pt 2 0) (pt 2 1) (pt (- 1) 0) (pt (- 1) 1)"
  have l: "33 \<le> length landmarks" using shows_pose_length [OF assms(1)] by simp
  have e: "PlankEvaluator_evaluate this landmarks imageW imageH = PlankEvaluator_assess s"
    unfolding s_def evaluate_pose [OF assms(1)] by (simp add: plank_pose_def)
  note v = plank_pose_signals [OF assms(2), folded s_def]
  have d: "PlankEvaluator_defaults s"
    using assms(2) unfolding s_def by (simp add: signals_keeps settled_def)
  have "fst (hip_assessment s) = []" "fst (head_assessment s) = []"
    "fst (stack_assessment s) = []" "fst (under_assessment s) = []"
    "fst (feet_assessment s) = []"
    using d v
    by (simp_all add: hip_assessment_def head_assessment_def stack_assessment_def
        under_assessment_def feet_assessment_def PlankEvaluator_defaults_def ngt_def ovf_small)
  thus ?thesis
    unfolding update_processed [OF l pose_visible(1) [OF assms(1)]] after_fsm_warnings e
      assess_warnings by simp
qed

lemma processPlank_fields:
  "isCorrectForm (fst (processPlank mdl now landmarks st)) =
     (PlankEvaluator_warning
        (PlankEvaluator_update (plankEvaluator mdl) now landmarks (Fin 640) (Fin 480)) = [] \<and>
      state (PlankEvaluator_update (plankEvaluator mdl) now landmarks (Fin 640) (Fin 480))
        = HOLDING)"
  "plankEvaluator (snd (processPlank mdl now landmarks st)) =
     PlankEvaluator_update (plankEvaluator mdl) now landmarks (Fin 640) (Fin 480)"
  by (simp_all add: processPlank_def Let_def)

lemma plank_history:
  "(let g = pixel_frame plank_pose;
        m0 = new_Module 0 0;
        m1 = snd (processPlank m0 0 g initial_ExerciseState)
    in plankEvaluator m1 \<noteq> plankEvaluator m0 \<and>
       \<not> isCorrectForm (fst (processPlank m0 1000 g initial_ExerciseState)) \<and>
       isCorrectForm (fst (processPlank m1 1000 g initial_ExerciseState)))"
proof -
  define g where "g = pixel_frame plank_pose"
  define s0 where "s0 = new_PlankEvaluator 0 0"
  define s1 where "s1 = PlankEvaluator_update s0 0 g (Fin 640) (Fin 480)"
  define s2 where "s2 = PlankEvaluator_update s1 1000 g (Fin 640) (Fin 480)"
  define s2' where "s2' = PlankEvaluator_update s0 1000 g (Fin 640) (Fin 480)"
  have p: "shows_pose g (Fin 640) (Fin 480) plank_pose"
    unfolding g_def by (rule shows_pose_pixel_frame) (rule pose_bounded)
  have l: "33 \<le> length g" using shows_pose_length [OF p] by simp
  have se0: "settled s0" unfolding s0_def by (rule settled_new)
  have se1: "settled s1" unfolding s1_def by (rule settled_update_plank_pose [OF p se0])
  note fs = frame_stable_plank_pose [OF p se0] frame_stable_plank_pose [OF p se1]
  have i0: "plank_inv s0" "state s0 = NOT_READY"
    by (simp_all add: s0_def plank_inv_def new_PlankEvaluator_def)
  from plank_step_props [OF i0(1) refl refl refl, of 0 g "Fin 640" "Fin 480"] i0(2) fs(1) l
  have r1: "plank_inv s1" "state s1 = READY" "stateStartTime s1 = 0"
    unfolding s1_def [symmetric] by simp_all
  from plank_step_props [OF i0(1) refl refl refl, of 1000 g "Fin 640" "Fin 480"] i0(2)
  have r2': "state s2' \<noteq> HOLDING"
    unfolding s2'_def [symmetric] by simp
  have rs: "readySeconds s1 = Fin 1"
    using se1 by (simp add: settled_def PlankEvaluator_defaults_def)
  have el: "nge (elapsed_in_state s1 1000) (readySeconds s1)"
    by (simp add: elapsed_in_state_def r1(3) rs ms_def nsub_def nge_def ovf_small)
  from plank_step_props [OF r1(1) refl refl refl, of 1000 g "Fin 640" "Fin 480"] r1(2) fs(2) l el
  have r2: "state s2 = HOLDING"
    unfolding s2_def [symmetric] by simp
  have w: "formWarnings s2 = []"
    unfolding s2_def by (rule plank_pose_no_warning [OF p se1])
  have "s1 \<noteq> s0" using r1(2) i0(2) by auto
  thus ?thesis
    unfolding Let_def processPlank_fields g_def [symmetric]
    using r2 r2' w
    by (simp add: new_Module_def s0_def [symmetric] s1_def [symmetric] s2_def [symmetric]
        s2'_def [symmetric] PlankEvaluator_warning_def)
qed

text \<open>
  C10. \<open>processSquat\<close> neither reads nor writes the module's evaluators: its result is
  the same for every module state and it returns the module state unchanged.
  \<open>processPushup\<close> and \<open>processPlank\<close> update the shared evaluator, and their result
  depends on the calls made before: the same frame and prior state give stage
  \<open>NEUTRAL\<close> on a fresh module and stage \<open>DOWN\<close> after one earlier push-up frame, and
  (at the same clock reading) an incorrect-form result on a fresh module and a
  correct-form result after one earlier plank frame.
\<close>

theorem exported_functions_purity:
  "fst (processSquat mdl landmarks st) = fst (processSquat mdl' landmarks st) \<and>
   snd (processSquat mdl landmarks st) = mdl \<and>
   (let m0 = new_Module 0 0;
        m1 = snd (processPushup m0 (pixel_frame straight_pose) initial_ExerciseState)
    in pushupCounter m1 \<noteq> pushupCounter m0 \<and>
       stage (fst (processPushup m0 (pixel_frame bent_pose) initial_ExerciseState)) = NEUTRAL \<and>
       stage (fst (processPushup m1 (pixel_frame bent_pose) initial_ExerciseState)) = Stage.DOWN) \<and>
   (let g = pixel_frame plank_pose;
        m0 = new_Module 0 0;
        m1 = snd (processPlank m0 0 g initial_ExerciseState)
    in plankEvaluator m1 \<noteq> plankEvaluator m0 \<and>
       \<not> isCorrectForm (fst (processPlank m0 1000 g initial_ExerciseState)) \<and>
       isCorrectForm (fst (processPlank m1 1000 g initial_ExerciseState)))"
  using processSquat_pure(1) [of mdl landmarks st mdl'] processSquat_pure(2) [of mdl landmarks st]
    pushup_history plank_history
  by blast

section \<open>The visibility rule in the evaluators\<close>

















end
